theory Spec2Isabelle
  imports Main "HOL-Library.Char_ord" "HOL-Library.List_Lexorder"
begin

section \<open>Python values, exceptions and built-ins used by the sources\<close>

text \<open>
  Exceptions are values.  A Python function that may raise returns \<open>exn + 'a\<close>, with
  \<open>Inl\<close> for the exception that leaves the function.
\<close>

datatype exn =
    KeyError string
  | ValueError
  | AssertionError
  | BinasciiError
  | UnicodeDecodeError
  | IsADirectoryError
  | FileNotFoundError
  | FileExistsError
  | NoNodeError
  | Fault string
  | DoesNotExist
  | IntegrityError
  | OtherError string

text \<open>Sequencing of two computations that may raise: the first exception wins.\<close>

fun and_then :: "exn + 'a \<Rightarrow> ('a \<Rightarrow> exn + 'b) \<Rightarrow> exn + 'b" where
  "and_then (Inl e) f = Inl e"
| "and_then (Inr x) f = f x"

text \<open>The scalar values that the topology documents hold and that \<open>!=\<close> compares.\<close>

datatype pyval = PInt int | PStr string

definition digits10 :: string where
  "digits10 = ''0123456789''"

function str_nat :: "nat \<Rightarrow> string" where
  "str_nat n = (if n < 10 then [digits10 ! n] else str_nat (n div 10) @ [digits10 ! (n mod 10)])"
  by pat_completeness auto
termination
  by (relation "measure id") auto

declare str_nat.simps [simp del]

text \<open>\<open>str(i)\<close> and \<open>'{}'.format(i)\<close> for an int.\<close>

definition str_int :: "int \<Rightarrow> string" where
  "str_int i = (if i < 0 then CHR ''-'' # str_nat (nat (- i)) else str_nat (nat i))"

text \<open>\<open>'{}'.format(v)\<close> for a scalar of a document.\<close>

fun py_str :: "pyval \<Rightarrow> string" where
  "py_str (PInt i) = str_int i"
| "py_str (PStr s) = s"

text \<open>Decimal digits and the number that a run of them denotes.\<close>

definition is_digit :: "char \<Rightarrow> bool" where
  "is_digit c = (CHR ''0'' \<le> c \<and> c \<le> CHR ''9'')"

definition digit_val :: "char \<Rightarrow> nat" where
  "digit_val c = of_char c - 48"

definition nat_of_digits :: "string \<Rightarrow> nat" where
  "nat_of_digits ds = foldl (\<lambda>acc c. 10 * acc + digit_val c) 0 ds"

text \<open>
  \<open>sorted(xs, key=key)\<close>: the keys of all elements are computed first (an exception of
  \<open>key\<close> leaves \<open>sorted\<close>), then the elements are sorted stably by their keys.
\<close>

fun keys_of :: "('a \<Rightarrow> exn + 'k) \<Rightarrow> 'a list \<Rightarrow> exn + 'k list" where
  "keys_of key [] = Inr []"
| "keys_of key (x # xs) =
     and_then (key x) (\<lambda>k. and_then (keys_of key xs) (\<lambda>ks. Inr (k # ks)))"

definition py_sorted :: "('a \<Rightarrow> exn + 'k::linorder) \<Rightarrow> 'a list \<Rightarrow> exn + 'a list" where
  "py_sorted key xs = and_then (keys_of key xs) (\<lambda>ks. Inr (map snd (sort_key fst (zip ks xs))))"

section \<open>Topology documents (web\_scion/ad\_manager/models.py, views.py)\<close>

text \<open>
  The documents are Python dictionaries with a fixed set of keys, as
  \<open>AD.generate_topology_dict\<close>, \<open>SCIONWebElement.get_dict\<close> and \<open>RouterWeb.get_dict\<close>
  build them.  A dictionary with fixed keys is a record; a collection (a dictionary from
  element names to elements) is an association list in the iteration order of the
  dictionary, with each name once.  Only routers carry an \<open>Interface\<close>, and the key
  \<open>DNSServers\<close> may be missing: \<open>generate_topology_dict\<close> does not create it.  A string
  of the model is the UTF-8 encoding of the Python string.
\<close>

record interface =
  NeighborType :: string
  NeighborISD :: int
  NeighborAD :: int
  IfAddr :: string
  IfAddrType :: string
  ToAddr :: string
  UdpPort :: int
  ToUdpPort :: int
  IFID :: int

record element =
  AddrType :: string
  Addr :: string
  Interface :: "interface option"

type_synonym collection = "(string \<times> element) list"

record topology =
  ISDID :: int
  ADID :: int
  Core :: int
  EdgeRouters :: collection
  PathServers :: collection
  BeaconServers :: collection
  CertificateServers :: collection
  DNSServers :: "collection option"

text \<open>Subscription by a key, \<open>d[key]\<close>, on the three kinds of dictionary.\<close>

definition topology_scalar :: "topology \<Rightarrow> string \<Rightarrow> exn + pyval" where
  "topology_scalar t key =
     (if key = ''ADID'' then Inr (PInt (ADID t))
      else if key = ''ISDID'' then Inr (PInt (ISDID t))
      else if key = ''Core'' then Inr (PInt (Core t))
      else Inl (KeyError key))"

definition topology_servers :: "topology \<Rightarrow> string \<Rightarrow> exn + collection" where
  "topology_servers t key =
     (if key = ''EdgeRouters'' then Inr (EdgeRouters t)
      else if key = ''PathServers'' then Inr (PathServers t)
      else if key = ''BeaconServers'' then Inr (BeaconServers t)
      else if key = ''CertificateServers'' then Inr (CertificateServers t)
      else if key = ''DNSServers''
        then (case DNSServers t of None \<Rightarrow> Inl (KeyError key) | Some servers \<Rightarrow> Inr servers)
      else Inl (KeyError key))"

definition element_scalar :: "element \<Rightarrow> string \<Rightarrow> exn + pyval" where
  "element_scalar el key =
     (if key = ''Addr'' then Inr (PStr (Addr el))
      else if key = ''AddrType'' then Inr (PStr (AddrType el))
      else Inl (KeyError key))"

definition element_nested :: "element \<Rightarrow> string \<Rightarrow> exn + interface" where
  "element_nested el key =
     (if key = ''Interface'' then (case Interface el of None \<Rightarrow> Inl (KeyError key) | Some i \<Rightarrow> Inr i)
      else Inl (KeyError key))"

definition interface_scalar :: "interface \<Rightarrow> string \<Rightarrow> exn + pyval" where
  "interface_scalar i key =
     (if key = ''NeighborType'' then Inr (PStr (NeighborType i))
      else if key = ''NeighborISD'' then Inr (PInt (NeighborISD i))
      else if key = ''NeighborAD'' then Inr (PInt (NeighborAD i))
      else if key = ''Addr'' then Inr (PStr (IfAddr i))
      else if key = ''AddrType'' then Inr (PStr (IfAddrType i))
      else if key = ''ToAddr'' then Inr (PStr (ToAddr i))
      else if key = ''UdpPort'' then Inr (PInt (UdpPort i))
      else if key = ''ToUdpPort'' then Inr (PInt (ToUdpPort i))
      else if key = ''IFID'' then Inr (PInt (IFID i))
      else Inl (KeyError key))"

subsection \<open>\<open>_get_changes\<close>\<close>

definition dq :: string where
  "dq = [CHR 0x22]"

text \<open>The three messages that \<open>_get_changes\<close> formats.\<close>

definition scalar_msg :: "string \<Rightarrow> string" where
  "scalar_msg key = dq @ key @ dq @ '' values differ''"

definition count_msg :: "string \<Rightarrow> string" where
  "count_msg server_type = ''Different number of '' @ dq @ server_type @ dq @ '' servers''"

definition field_msg :: "string \<Rightarrow> string \<Rightarrow> pyval \<Rightarrow> pyval \<Rightarrow> string" where
  "field_msg key server_type a b =
     dq @ key @ dq @ '' values differ for one of '' @ server_type @ ''. Local: '' @ py_str a
       @ '', remote: '' @ py_str b"

definition nested_msg :: "string \<Rightarrow> string \<Rightarrow> string \<Rightarrow> pyval \<Rightarrow> pyval \<Rightarrow> string" where
  "nested_msg field_name field server_type a b =
     dq @ field_name @ '':'' @ field @ dq @ '' differ for one of '' @ server_type @ ''. Local: ''
       @ py_str a @ '', remote: '' @ py_str b"

text \<open>An entry of \<open>element_fields\<close>: a key, or a key with the keys of the nested dictionary.\<close>

datatype field_key = Str string | Tup string "string list"

definition element_fields :: "(string \<times> field_key list) list" where
  "element_fields =
     [(''PathServers'', [Str ''Addr'']),
      (''CertificateServers'', [Str ''Addr'']),
      (''BeaconServers'', [Str ''Addr'']),
      (''EdgeRouters'', [Str ''Addr'', Tup ''Interface'' [''NeighborAD'', ''NeighborISD'', ''NeighborType'']])]"

text \<open>
  \<open>key_sort = lambda item: int(item[0])\<close>.  The built-in \<open>int\<close> is a parameter of the
  model, \<open>int_of\<close>: it gives the integer that \<open>int\<close> returns for a string, and \<open>None\<close> where
  \<open>int\<close> raises \<open>ValueError\<close>.  The diff applies nothing else to an element name.
\<close>

definition key_sort :: "(string \<Rightarrow> int option) \<Rightarrow> string \<times> 'a \<Rightarrow> exn + int" where
  "key_sort int_of item = (case int_of (fst item) of None \<Rightarrow> Inl ValueError | Some k \<Rightarrow> Inr k)"

text \<open>The first loop: \<open>for key in keys\<close> over the scalar keys of the two documents.\<close>

fun keys_loop :: "topology \<Rightarrow> topology \<Rightarrow> string list \<Rightarrow> string list \<Rightarrow> exn + string list" where
  "keys_loop current_topology remote_topology [] changes = Inr changes"
| "keys_loop current_topology remote_topology (key # keys) changes =
     and_then (topology_scalar remote_topology key) (\<lambda>rv.
     and_then (topology_scalar current_topology key) (\<lambda>cv.
       keys_loop current_topology remote_topology keys
         (if rv \<noteq> cv then changes @ [scalar_msg key] else changes)))"

text \<open>The innermost loop: \<open>for field in nested_fields\<close>.\<close>

fun nested_loop ::
  "string \<Rightarrow> string \<Rightarrow> element \<Rightarrow> element \<Rightarrow> string list \<Rightarrow> string list \<Rightarrow> exn + string list" where
  "nested_loop server_type field_name rs cs [] changes = Inr changes"
| "nested_loop server_type field_name rs cs (field # nested_fields) changes =
     and_then (element_nested rs field_name) (\<lambda>rd.
     and_then (interface_scalar rd field) (\<lambda>remote_value.
     and_then (element_nested cs field_name) (\<lambda>cd.
     and_then (interface_scalar cd field) (\<lambda>current_value.
       nested_loop server_type field_name rs cs nested_fields
         (if remote_value \<noteq> current_value
          then changes @ [nested_msg field_name field server_type remote_value current_value]
          else changes)))))"

text \<open>
  \<open>for key in current_fields\<close>: a string key compares the two values and reports them
  as local (current) and remote; a tuple key runs the nested loop, which passes the
  remote value where the message says local.
\<close>

fun fields_loop ::
  "string \<Rightarrow> element \<Rightarrow> element \<Rightarrow> field_key list \<Rightarrow> string list \<Rightarrow> exn + string list" where
  "fields_loop server_type rs cs [] changes = Inr changes"
| "fields_loop server_type rs cs (Str key # current_fields) changes =
     and_then (element_scalar rs key) (\<lambda>rv.
     and_then (element_scalar cs key) (\<lambda>cv.
       fields_loop server_type rs cs current_fields
         (if rv \<noteq> cv then changes @ [field_msg key server_type cv rv] else changes)))"
| "fields_loop server_type rs cs (Tup field_name nested_fields # current_fields) changes =
     and_then (nested_loop server_type field_name rs cs nested_fields changes)
       (fields_loop server_type rs cs current_fields)"

text \<open>\<open>for rs, cs in zip(remote_servers, current_servers)\<close>.\<close>

fun zip_loop ::
  "string \<Rightarrow> field_key list \<Rightarrow> (element \<times> element) list \<Rightarrow> string list \<Rightarrow> exn + string list" where
  "zip_loop server_type current_fields [] changes = Inr changes"
| "zip_loop server_type current_fields ((rs, cs) # pairs) changes =
     and_then (fields_loop server_type rs cs current_fields changes)
       (zip_loop server_type current_fields pairs)"

text \<open>The body of \<open>for server_type in element_fields.keys()\<close> for one server type.\<close>

definition server_type_body ::
  "(string \<Rightarrow> int option) \<Rightarrow> topology \<Rightarrow> topology \<Rightarrow> string \<Rightarrow> field_key list \<Rightarrow> string list
     \<Rightarrow> exn + string list" where
  "server_type_body int_of current_topology remote_topology server_type current_fields changes =
     and_then (topology_servers remote_topology server_type) (\<lambda>remote_items.
     and_then (py_sorted (key_sort int_of) remote_items) (\<lambda>remote_sorted_with_name.
     and_then (topology_servers current_topology server_type) (\<lambda>current_items.
     and_then (py_sorted (key_sort int_of) current_items) (\<lambda>current_sorted_with_name.
       let remote_servers = map snd remote_sorted_with_name;
           current_servers = map snd current_sorted_with_name
       in if length remote_servers \<noteq> length current_servers
          then Inr (changes @ [count_msg server_type])
          else zip_loop server_type current_fields (zip remote_servers current_servers) changes))))"

fun server_types_loop ::
  "(string \<Rightarrow> int option) \<Rightarrow> topology \<Rightarrow> topology \<Rightarrow> (string \<times> field_key list) list \<Rightarrow> string list
     \<Rightarrow> exn + string list" where
  "server_types_loop int_of current_topology remote_topology [] changes = Inr changes"
| "server_types_loop int_of current_topology remote_topology ((server_type, current_fields) # rest) changes =
     and_then (server_type_body int_of current_topology remote_topology server_type current_fields changes)
       (server_types_loop int_of current_topology remote_topology rest)"

definition get_changes :: "(string \<Rightarrow> int option) \<Rightarrow> topology \<Rightarrow> topology \<Rightarrow> exn + string list" where
  "get_changes int_of current_topology remote_topology =
     and_then (keys_loop current_topology remote_topology [''ADID'', ''ISDID'', ''Core''] [])
       (server_types_loop int_of current_topology remote_topology element_fields)"

subsection \<open>Valid documents and the diff in closed form\<close>

text \<open>
  A valid document: \<open>int\<close> parses every element name of the four compared collections,
  and every edge router has its interface.
\<close>

definition names_parse :: "(string \<Rightarrow> int option) \<Rightarrow> collection \<Rightarrow> bool" where
  "names_parse int_of items = list_all (\<lambda>item. int_of (fst item) \<noteq> None) items"

definition has_interface :: "element \<Rightarrow> bool" where
  "has_interface el = (case Interface el of None \<Rightarrow> False | Some i \<Rightarrow> True)"

definition have_interfaces :: "collection \<Rightarrow> bool" where
  "have_interfaces items = list_all (\<lambda>item. has_interface (snd item)) items"

definition valid_topology :: "(string \<Rightarrow> int option) \<Rightarrow> topology \<Rightarrow> bool" where
  "valid_topology int_of t =
     (names_parse int_of (PathServers t) \<and> names_parse int_of (CertificateServers t) \<and>
      names_parse int_of (BeaconServers t) \<and> names_parse int_of (EdgeRouters t) \<and>
      have_interfaces (EdgeRouters t))"

text \<open>
  Two association lists are the same dictionary when they map the same names to the same
  elements, in whatever order they list them.  The names of a collection have different
  numbers when no two of them parse to the same integer (as \<open>1\<close> and \<open>01\<close> would).
\<close>

definition same_dict :: "('k \<times> 'v) list \<Rightarrow> ('k \<times> 'v) list \<Rightarrow> bool" where
  "same_dict xs ys = (distinct (map fst xs) \<and> distinct (map fst ys) \<and> set xs = set ys)"

definition different_numbers :: "(string \<Rightarrow> int option) \<Rightarrow> collection \<Rightarrow> bool" where
  "different_numbers int_of items = distinct (map (\<lambda>item. int_of (fst item)) items)"

text \<open>
  What the loops compute, in closed form.  \<open>name_number\<close> is the sort key of a parsed
  name, \<open>sort_by_name\<close> the elements of a collection in the order of their numbers
  (elements with equal numbers stay in the order of the collection).  The entries are
  written out as the text that the diff reports; the neighbor fields are reported with
  the remote value after \<open>Local:\<close>, as \<open>_get_changes\<close> passes them.
\<close>

definition name_number :: "(string \<Rightarrow> int option) \<Rightarrow> string \<times> 'a \<Rightarrow> int" where
  "name_number int_of item = (case int_of (fst item) of Some k \<Rightarrow> k | None \<Rightarrow> 0)"

definition sort_by_name :: "(string \<Rightarrow> int option) \<Rightarrow> collection \<Rightarrow> element list" where
  "sort_by_name int_of items = map snd (sort_key (name_number int_of) items)"

definition scalar_changes :: "topology \<Rightarrow> topology \<Rightarrow> string list" where
  "scalar_changes c r =
     (if ADID r \<noteq> ADID c then [[CHR 0x22] @ ''ADID'' @ [CHR 0x22] @ '' values differ''] else []) @
     (if ISDID r \<noteq> ISDID c then [[CHR 0x22] @ ''ISDID'' @ [CHR 0x22] @ '' values differ''] else []) @
     (if Core r \<noteq> Core c then [[CHR 0x22] @ ''Core'' @ [CHR 0x22] @ '' values differ''] else [])"

definition addr_changes :: "string \<Rightarrow> element \<Rightarrow> element \<Rightarrow> string list" where
  "addr_changes server_type rs cs =
     (if Addr rs \<noteq> Addr cs
      then [[CHR 0x22] @ ''Addr'' @ [CHR 0x22] @ '' values differ for one of '' @ server_type
              @ ''. Local: '' @ Addr cs @ '', remote: '' @ Addr rs]
      else [])"

definition interface_changes :: "string \<Rightarrow> interface \<Rightarrow> interface \<Rightarrow> string list" where
  "interface_changes server_type ri ci =
     (if NeighborAD ri \<noteq> NeighborAD ci
      then [[CHR 0x22] @ ''Interface:NeighborAD'' @ [CHR 0x22] @ '' differ for one of '' @ server_type
              @ ''. Local: '' @ str_int (NeighborAD ri) @ '', remote: '' @ str_int (NeighborAD ci)]
      else []) @
     (if NeighborISD ri \<noteq> NeighborISD ci
      then [[CHR 0x22] @ ''Interface:NeighborISD'' @ [CHR 0x22] @ '' differ for one of '' @ server_type
              @ ''. Local: '' @ str_int (NeighborISD ri) @ '', remote: '' @ str_int (NeighborISD ci)]
      else []) @
     (if NeighborType ri \<noteq> NeighborType ci
      then [[CHR 0x22] @ ''Interface:NeighborType'' @ [CHR 0x22] @ '' differ for one of '' @ server_type
              @ ''. Local: '' @ NeighborType ri @ '', remote: '' @ NeighborType ci]
      else [])"

definition router_changes :: "string \<Rightarrow> element \<Rightarrow> element \<Rightarrow> string list" where
  "router_changes server_type rs cs =
     addr_changes server_type rs cs @
     (case (Interface rs, Interface cs) of
        (Some ri, Some ci) \<Rightarrow> interface_changes server_type ri ci
      | _ \<Rightarrow> [])"

definition collection_changes ::
  "(string \<Rightarrow> int option) \<Rightarrow> string \<Rightarrow> (string \<Rightarrow> element \<Rightarrow> element \<Rightarrow> string list)
     \<Rightarrow> collection \<Rightarrow> collection \<Rightarrow> string list" where
  "collection_changes int_of server_type pair_changes ritems citems =
     (if length ritems \<noteq> length citems
      then [''Different number of '' @ [CHR 0x22] @ server_type @ [CHR 0x22] @ '' servers'']
      else concat (map (\<lambda>(rs, cs). pair_changes server_type rs cs)
             (zip (sort_by_name int_of ritems) (sort_by_name int_of citems))))"

text \<open>
  An element with the neighbor type of its interface replaced, and a collection with the
  neighbor type of the router called \<open>name\<close> replaced.
\<close>

definition set_neighbor_type :: "string \<Rightarrow> element \<Rightarrow> element" where
  "set_neighbor_type ty el =
     el\<lparr>Interface := map_option (\<lambda>i. i\<lparr>NeighborType := ty\<rparr>) (Interface el)\<rparr>"

definition retype_router :: "string \<Rightarrow> string \<Rightarrow> collection \<Rightarrow> collection" where
  "retype_router name ty items =
     map (\<lambda>item. if fst item = name then (fst item, set_neighbor_type ty (snd item)) else item) items"

text \<open>The names of each of the four compared collections have different numbers.\<close>

definition numbers_differ :: "(string \<Rightarrow> int option) \<Rightarrow> topology \<Rightarrow> bool" where
  "numbers_differ int_of t =
     (different_numbers int_of (PathServers t) \<and> different_numbers int_of (CertificateServers t) \<and>
      different_numbers int_of (BeaconServers t) \<and> different_numbers int_of (EdgeRouters t))"

text \<open>
  For the concrete checks: the values of \<open>int\<close> on the element names that the examples
  use, and a small document.
\<close>

definition example_int :: "string \<Rightarrow> int option" where
  "example_int s = map_of [(''1'', 1), (''2'', 2), (''3'', 3), (''01'', 1), (''10'', 10)] s"

definition example_interface :: interface where
  "example_interface = \<lparr>NeighborType = ''PARENT'', NeighborISD = 1, NeighborAD = 2,
     IfAddr = ''10.0.0.1'', IfAddrType = ''IPv4'', ToAddr = ''10.0.0.2'', UdpPort = 50000,
     ToUdpPort = 50000, IFID = 2\<rparr>"

definition example_router :: element where
  "example_router = \<lparr>AddrType = ''IPv4'', Addr = ''127.0.0.1'', Interface = Some example_interface\<rparr>"

definition example_server :: "string \<Rightarrow> element" where
  "example_server a = \<lparr>AddrType = ''IPv4'', Addr = a, Interface = None\<rparr>"

definition example_topology :: topology where
  "example_topology = \<lparr>ISDID = 1, ADID = 3, Core = 0,
     EdgeRouters = [(''1'', example_router)],
     PathServers = [(''1'', example_server ''127.0.0.2'')],
     BeaconServers = [(''2'', example_server ''127.0.0.3''), (''1'', example_server ''127.0.0.4'')],
     CertificateServers = [(''1'', example_server ''127.0.0.5'')],
     DNSServers = None\<rparr>"

section \<open>Programs with effects\<close>

text \<open>
  A handler runs in a world that it may change, and it either returns or raises.  The
  world after the call is kept in both cases: what was written before an exception stays
  written.
\<close>

type_synonym ('w, 'a) prog = "'w \<Rightarrow> (exn + 'a) \<times> 'w"

definition ret :: "'a \<Rightarrow> ('w, 'a) prog" where
  "ret x w = (Inr x, w)"

definition raise :: "exn \<Rightarrow> ('w, 'a) prog" where
  "raise e w = (Inl e, w)"

definition seq :: "('w, 'a) prog \<Rightarrow> ('a \<Rightarrow> ('w, 'b) prog) \<Rightarrow> ('w, 'b) prog" where
  "seq m f w = (case m w of (Inl e, w') \<Rightarrow> (Inl e, w') | (Inr x, w') \<Rightarrow> f x w')"

section \<open>Strings and paths\<close>

text \<open>
  \<open>s.split(sep)\<close> for a non-empty separator: the string is scanned from the left, and
  each occurrence of the separator closes a field.  The sources call it with the constant
  separators \<open>'__'\<close> and \<open>b"\x00"\<close> only.
\<close>

function py_split_aux :: "string \<Rightarrow> string \<Rightarrow> string \<Rightarrow> string list" where
  "py_split_aux sep cur [] = [cur]"
| "py_split_aux sep cur (c # cs) =
     (if sep \<noteq> [] \<and> take (length sep) (c # cs) = sep
      then cur # py_split_aux sep [] (drop (length sep) (c # cs))
      else py_split_aux sep (cur @ [c]) cs)"
  by pat_completeness auto
termination
  by (relation "measure (\<lambda>(sep, cur, s). length s)") auto

definition py_split :: "string \<Rightarrow> string \<Rightarrow> string list" where
  "py_split sep s = py_split_aux sep [] s"

text \<open>\<open>os.path.basename\<close> and \<open>os.path.join\<close> of two parts (POSIX).\<close>

definition basename :: "string \<Rightarrow> string" where
  "basename p = rev (takeWhile (\<lambda>c. c \<noteq> CHR ''/'') (rev p))"

definition path_join :: "string \<Rightarrow> string \<Rightarrow> string" where
  "path_join a b =
     (if b \<noteq> [] \<and> hd b = CHR ''/'' then b
      else if a = [] \<or> last a = CHR ''/'' then a @ b
      else a @ ''/'' @ b)"

text \<open>
  \<open>str(b, 'utf-8')\<close>: a string of the model is the UTF-8 encoding of the Python string, so
  decoding returns the bytes when they are well-formed UTF-8 and raises otherwise.
\<close>

definition cont_byte :: "nat \<Rightarrow> bool" where
  "cont_byte b = (0x80 \<le> b \<and> b \<le> 0xBF)"

fun utf8_ok :: "nat list \<Rightarrow> bool" where
  "utf8_ok [] = True"
| "utf8_ok (b # bs) =
     (if b < 0x80 then utf8_ok bs
      else if 0xC2 \<le> b \<and> b \<le> 0xDF then
        (case bs of c1 # r \<Rightarrow> cont_byte c1 \<and> utf8_ok r | _ \<Rightarrow> False)
      else if 0xE0 \<le> b \<and> b \<le> 0xEF then
        (case bs of c1 # c2 # r \<Rightarrow>
           (if b = 0xE0 then 0xA0 \<le> c1 \<and> c1 \<le> 0xBF
            else if b = 0xED then 0x80 \<le> c1 \<and> c1 \<le> 0x9F
            else cont_byte c1) \<and> cont_byte c2 \<and> utf8_ok r
         | _ \<Rightarrow> False)
      else if 0xF0 \<le> b \<and> b \<le> 0xF4 then
        (case bs of c1 # c2 # c3 # r \<Rightarrow>
           (if b = 0xF0 then 0x90 \<le> c1 \<and> c1 \<le> 0xBF
            else if b = 0xF4 then 0x80 \<le> c1 \<and> c1 \<le> 0x8F
            else cont_byte c1) \<and> cont_byte c2 \<and> cont_byte c3 \<and> utf8_ok r
         | _ \<Rightarrow> False)
      else False)"

definition decode_utf8 :: "string \<Rightarrow> exn + string" where
  "decode_utf8 b = (if utf8_ok (map of_char b) then Inr b else Inl UnicodeDecodeError)"

section \<open>The monitoring daemon (ad\_management/monitoring\_daemon.py)\<close>

subsection \<open>The response envelope\<close>

record proc_info =
  proc_name :: string
  proc_group :: string
  statename :: string

datatype rpc_data =
    DNone
  | DStr string
  | DBool bool
  | DInfo proc_info
  | DInfoList "proc_info list"
  | DErrors "string list"

type_synonym response = "bool \<times> rpc_data"

text \<open>
  Modelled from the spec: \<open>response_success\<close>, \<open>response_failure\<close> and \<open>is_success\<close> of
  \<open>ad_management.common\<close>, which is not among the sources.  The envelope has two parts,
  the flag \<open>ok\<close> and then the data of a success or the error strings of a failure; the
  daemon reads the data as \<open>response[1]\<close>.
\<close>

definition response_success :: "rpc_data \<Rightarrow> response" where
  "response_success data = (True, data)"

definition response_failure :: "string \<Rightarrow> response" where
  "response_failure err = (False, DErrors [err])"

definition is_success :: "response \<Rightarrow> bool" where
  "is_success response = fst response"

subsection \<open>The file system and the processes of the node\<close>

text \<open>
  The effects of the daemon on its node, in the order in which they happen: what it
  asked of the operating system and was granted.
\<close>

datatype effect =
    MakeDirs string
  | OpenWrite string
  | WriteFile string string
  | OpenAppend string
  | ReadFile string
  | WriteDerivatives
  | Popen "string list"
  | StartThread string

text \<open>
  The node: what each path names, a directory or a regular file with its contents, the
  effects so far, and what the operating system refuses.  \<open>refused w op = Some e\<close> says
  that the system answers the operation \<open>op\<close> with the exception \<open>e\<close> for a reason that the
  paths and the nodes do not show: permissions, quotas, a full disk, a limit on processes
  or threads.
\<close>

datatype node = Dir | File string

record world =
  nodes :: "string \<rightharpoonup> node"
  effects :: "effect list"
  refused :: "effect \<Rightarrow> exn option"

text \<open>
  A path whose last component is empty, \<open>.\<close> or \<open>..\<close> names a directory whenever it names
  anything, and never a regular file.
\<close>

definition names_directory :: "string \<Rightarrow> bool" where
  "names_directory p = (basename p \<in> set [[], ''.'', ''..''])"

definition path_exists :: "world \<Rightarrow> string \<Rightarrow> bool" where
  "path_exists w p = (case nodes w p of None \<Rightarrow> False | Some n \<Rightarrow> True)"

definition isdir :: "world \<Rightarrow> string \<Rightarrow> bool" where
  "isdir w p = (case nodes w p of Some Dir \<Rightarrow> True | _ \<Rightarrow> False)"

definition isfile :: "world \<Rightarrow> string \<Rightarrow> bool" where
  "isfile w p = (case nodes w p of Some (File content) \<Rightarrow> \<not> names_directory p | _ \<Rightarrow> False)"

text \<open>The proper ancestors of a path: its non-empty prefixes that end before a separator.\<close>

definition ancestors :: "string \<Rightarrow> string list" where
  "ancestors p =
     filter (\<lambda>a. a \<noteq> []) (map (\<lambda>i. take i p) (filter (\<lambda>i. p ! i = CHR ''/'') [0..<length p]))"

definition add_dir :: "(string \<rightharpoonup> node) \<Rightarrow> string \<Rightarrow> (string \<rightharpoonup> node)" where
  "add_dir m p = (case m p of None \<Rightarrow> m(p \<mapsto> Dir) | Some n \<Rightarrow> m)"

text \<open>
  \<open>os.makedirs(p)\<close>: raises when the path is empty or exists, when an ancestor is a
  regular file, or when the system refuses; otherwise the directory and its missing
  ancestors are created.
\<close>

definition makedirs :: "string \<Rightarrow> (world, unit) prog" where
  "makedirs p w =
     (if p = [] then (Inl FileNotFoundError, w)
      else if path_exists w p then (Inl FileExistsError, w)
      else if list_ex (isfile w) (ancestors p) then (Inl (OtherError ''NotADirectoryError''), w)
      else case refused w (MakeDirs p) of
             Some e \<Rightarrow> (Inl e, w)
           | None \<Rightarrow> (Inr (), w\<lparr>nodes := foldl add_dir (nodes w) (ancestors p @ [p]),
                                 effects := effects w @ [MakeDirs p]\<rparr>))"

text \<open>
  Walking the directories of a path (Linux): a component of more than 255 bytes is
  refused, a missing component is not found, a regular file is no directory.
\<close>

definition too_long :: exn where
  "too_long = OtherError ''OSError: [Errno 36] File name too long''"

fun walk :: "world \<Rightarrow> string list \<Rightarrow> exn option" where
  "walk w [] = None"
| "walk w (a # rest) =
     (if 255 < length (basename a) then Some too_long
      else case nodes w a of
             None \<Rightarrow> Some FileNotFoundError
           | Some (File content) \<Rightarrow> Some (OtherError ''NotADirectoryError'')
           | Some Dir \<Rightarrow> walk w rest)"

text \<open>
  What \<open>open(p, mode)\<close> raises for a mode that creates the file, \<open>op\<close> being the operation
  asked of the system: a NUL in the path is a \<open>ValueError\<close>; the empty path is not found;
  a path of 4096 bytes or more is too long; then the directories before the last
  component are walked (separators at the end of the path aside); the last component
  has at most 255 bytes; a directory, or a path whose last component can only
  name a directory, is not opened; and the system may refuse.
\<close>

definition open_error :: "world \<Rightarrow> string \<Rightarrow> effect \<Rightarrow> exn option" where
  "open_error w p op =
     (if CHR 0x00 \<in> set p then Some ValueError
      else if p = [] then Some FileNotFoundError
      else if 4096 \<le> length p then Some too_long
      else case walk w (ancestors (rev (dropWhile (\<lambda>c. c = CHR ''/'') (rev p)))) of
             Some e \<Rightarrow> Some e
           | None \<Rightarrow>
               if 255 < length (basename p) then Some too_long
               else if isdir w p \<or> names_directory p then Some IsADirectoryError
               else refused w op)"

text \<open>
  \<open>open(p, 'w')\<close> (also \<open>'wb'\<close>): the file exists and is empty afterwards.
\<close>

definition open_write :: "string \<Rightarrow> (world, unit) prog" where
  "open_write p w =
     (case open_error w p (OpenWrite p) of
        Some e \<Rightarrow> (Inl e, w)
      | None \<Rightarrow> (Inr (), w\<lparr>nodes := (nodes w)(p \<mapsto> File []), effects := effects w @ [OpenWrite p]\<rparr>))"

text \<open>
  Writing \<open>data\<close> to the file opened at \<open>p\<close> and closing it: the file holds \<open>data\<close>
  afterwards, unless the system refuses the write.
\<close>

definition file_write :: "string \<Rightarrow> string \<Rightarrow> (world, unit) prog" where
  "file_write p data w =
     (case refused w (WriteFile p data) of
        Some e \<Rightarrow> (Inl e, w)
      | None \<Rightarrow> (Inr (), w\<lparr>nodes := (nodes w)(p \<mapsto> File data),
                            effects := effects w @ [WriteFile p data]\<rparr>))"

text \<open>\<open>with open(p, 'wb') as f: f.write(data)\<close>.\<close>

definition write_file :: "string \<Rightarrow> string \<Rightarrow> (world, unit) prog" where
  "write_file p data = seq (open_write p) (\<lambda>_. file_write p data)"

text \<open>\<open>open(p, 'a')\<close>: the file is created empty when it does not exist.\<close>

definition open_append :: "string \<Rightarrow> (world, unit) prog" where
  "open_append p w =
     (case open_error w p (OpenAppend p) of
        Some e \<Rightarrow> (Inl e, w)
      | None \<Rightarrow> (Inr (), w\<lparr>nodes := (case nodes w p of None \<Rightarrow> (nodes w)(p \<mapsto> File []) | Some n \<Rightarrow> nodes w),
                            effects := effects w @ [OpenAppend p]\<rparr>))"

text \<open>
  \<open>open(p, 'r').read()\<close> of a regular file: the bytes are decoded as UTF-8 and every
  line end (\<open>\r\n\<close> or \<open>\r\<close>) is read as \<open>\n\<close>.
\<close>

fun universal_newlines :: "string \<Rightarrow> string" where
  "universal_newlines [] = []"
| "universal_newlines [c] = (if c = CHR 0x0D then [CHR 0x0A] else [c])"
| "universal_newlines (c # d # cs) =
     (if c = CHR 0x0D \<and> d = CHR 0x0A then CHR 0x0A # universal_newlines cs
      else if c = CHR 0x0D then CHR 0x0A # universal_newlines (d # cs)
      else c # universal_newlines (d # cs))"

definition read_file :: "string \<Rightarrow> (world, string) prog" where
  "read_file p w =
     (case nodes w p of
        Some (File content) \<Rightarrow>
          (case refused w (ReadFile p) of
             Some e \<Rightarrow> (Inl e, w)
           | None \<Rightarrow>
               (case decode_utf8 content of
                  Inl e \<Rightarrow> (Inl e, w\<lparr>effects := effects w @ [ReadFile p]\<rparr>)
                | Inr text \<Rightarrow> (Inr (universal_newlines text), w\<lparr>effects := effects w @ [ReadFile p]\<rparr>)))
      | Some Dir \<Rightarrow> (Inl IsADirectoryError, w)
      | None \<Rightarrow> (Inl FileNotFoundError, w))"

definition popen :: "string list \<Rightarrow> (world, unit) prog" where
  "popen args w =
     (case refused w (Popen args) of
        Some e \<Rightarrow> (Inl e, w)
      | None \<Rightarrow> (Inr (), w\<lparr>effects := effects w @ [Popen args]\<rparr>))"

definition start_thread :: "string \<Rightarrow> (world, unit) prog" where
  "start_thread thread_name w =
     (case refused w (StartThread thread_name) of
        Some e \<Rightarrow> (Inl e, w)
      | None \<Rightarrow> (Inr (), w\<lparr>effects := effects w @ [StartThread thread_name]\<rparr>))"

subsection \<open>What the daemon imports\<close>

text \<open>
  The constants of \<open>ad_management.common\<close> and \<open>lib.defines\<close>, the library functions
  \<open>base64.b64decode\<close>, \<open>hashlib.sha1(...).hexdigest()\<close> and \<open>json.dump\<close>, and the
  \<open>ConfigGenerator\<close> of \<open>topology.generator\<close> are not among the sources; they are
  parameters.  \<open>b64decode\<close> may raise; \<open>json_dump\<close> gives the text that \<open>json.dump\<close>
  writes to the file and the exception with which it stops, if it does (a \<open>TypeError\<close> for
  a value that is not serialisable, after the text before that value);
  \<open>write_derivatives\<close> is \<open>None\<close> when the generator returns and the exception when it
  raises.  \<open>'t\<close> is the type of the topology that the
  caller hands to \<open>update_topology\<close>.
\<close>

record 't externals =
  UPDATE_DIR_PATH :: string
  UPDATE_SCRIPT_PATH :: string
  LOGS_DIR :: string
  PROJECT_ROOT :: string
  sys_executable :: string
  b64decode :: "string \<Rightarrow> exn + string"
  sha1_hexdigest :: "string \<Rightarrow> string"
  json_dump :: "'t \<Rightarrow> string \<times> exn option"
  topo_file_abs :: "pyval \<Rightarrow> pyval \<Rightarrow> string"
  write_derivatives :: "'t \<Rightarrow> exn option"

subsection \<open>Topology file\<close>

definition get_full_ad_name :: "pyval \<Rightarrow> pyval \<Rightarrow> string" where
  "get_full_ad_name isd_id ad_id = ''ad'' @ py_str isd_id @ ''-'' @ py_str ad_id"

definition get_topo_path :: "'t externals \<Rightarrow> pyval \<Rightarrow> pyval \<Rightarrow> string" where
  "get_topo_path im isd_id ad_id = topo_file_abs im isd_id ad_id"

text \<open>
  \<open>restart_supervisor_async\<close> starts a daemon thread, which sleeps and then asks the
  supervisor to restart; the call itself only starts the thread.
\<close>

definition restart_supervisor_async :: "(world, unit) prog" where
  "restart_supervisor_async = start_thread ''Restart supervisor daemon''"

definition generator_write_derivatives :: "'t externals \<Rightarrow> 't \<Rightarrow> (world, unit) prog" where
  "generator_write_derivatives im topology w =
     (case write_derivatives im topology of
        Some e \<Rightarrow> (Inl e, w)
      | None \<Rightarrow> (Inr (), w\<lparr>effects := effects w @ [WriteDerivatives]\<rparr>))"

text \<open>
  \<open>json.dump(topology, topo_fh, sort_keys=True, indent=4)\<close> inside the \<open>with\<close> block: the
  text that was produced reaches the file when the block is left, also when \<open>json.dump\<close>
  raised.
\<close>

definition dump_to :: "'t externals \<Rightarrow> string \<Rightarrow> 't \<Rightarrow> (world, unit) prog" where
  "dump_to im topo_path topology =
     (case json_dump im topology of
        (text, err) \<Rightarrow>
          seq (file_write topo_path text) (\<lambda>_.
            case err of None \<Rightarrow> ret () | Some e \<Rightarrow> raise e))"

definition update_topology :: "'t externals \<Rightarrow> pyval \<Rightarrow> pyval \<Rightarrow> 't \<Rightarrow> (world, response) prog" where
  "update_topology im isd_id ad_id topology w =
     (let topo_path = get_topo_path im isd_id ad_id in
      if \<not> isfile w topo_path then ret (response_failure ''No AD topology found'') w
      else seq (open_write topo_path) (\<lambda>_.
           seq (dump_to im topo_path topology) (\<lambda>_.
           seq (generator_write_derivatives im topology) (\<lambda>_.
           seq restart_supervisor_async (\<lambda>_.
           ret (response_success (DStr ''Topology file is successfully updated'')))))) w)"

definition get_topology :: "'t externals \<Rightarrow> pyval \<Rightarrow> pyval \<Rightarrow> (world, response) prog" where
  "get_topology im isd_id ad_id w =
     (let isd_id = PStr (py_str isd_id); ad_id = PStr (py_str ad_id);
          topo_path = get_topo_path im isd_id ad_id
      in if isfile w topo_path
         then seq (read_file topo_path) (\<lambda>content. ret (response_success (DStr content))) w
         else ret (response_failure ''No topology file found'') w)"

subsection \<open>Processes\<close>

text \<open>
  The supervisor is reached through an XML-RPC proxy; each of its methods may answer
  with a fault and may change the state \<open>'s\<close> of the supervisor.
\<close>

record 's supervisor =
  getProcessInfo :: "string \<Rightarrow> ('s, proc_info) prog"
  getAllProcessInfo :: "('s, proc_info list) prog"
  startProcess :: "string \<Rightarrow> ('s, bool) prog"
  stopProcess :: "string \<Rightarrow> ('s, bool) prog"

definition get_ad_info :: "'s supervisor \<Rightarrow> pyval \<Rightarrow> pyval \<Rightarrow> ('s, response) prog" where
  "get_ad_info server isd_id ad_id =
     (let ad_name = get_full_ad_name isd_id ad_id in
      seq (getAllProcessInfo server) (\<lambda>all_process_info.
        let ad_process_info = filter (\<lambda>x. proc_group x = ad_name) all_process_info
        in ret (response_success (DInfoList ad_process_info))))"

definition get_process_info :: "'s supervisor \<Rightarrow> string \<Rightarrow> ('s, response) prog" where
  "get_process_info server full_process_name =
     seq (getProcessInfo server full_process_name) (\<lambda>info. ret (response_success (DInfo info)))"

definition get_process_state :: "'s supervisor \<Rightarrow> string \<Rightarrow> ('s, string option) prog" where
  "get_process_state server full_process_name =
     seq (get_process_info server full_process_name) (\<lambda>info_response.
       if is_success info_response
       then (case snd info_response of
               DInfo info \<Rightarrow> ret (Some (statename info))
             | _ \<Rightarrow> raise (KeyError ''statename''))
       else ret None)"

definition start_process :: "'s supervisor \<Rightarrow> string \<Rightarrow> ('s, bool) prog" where
  "start_process server process_name =
     seq (get_process_state server process_name) (\<lambda>state.
       if state \<in> set [Some ''RUNNING'', Some ''STARTING''] then ret True
       else startProcess server process_name)"

definition stop_process :: "'s supervisor \<Rightarrow> string \<Rightarrow> ('s, bool) prog" where
  "stop_process server process_name =
     seq (get_process_state server process_name) (\<lambda>state.
       if state \<notin> set [Some ''RUNNING'', Some ''STARTING''] then ret True
       else stopProcess server process_name)"

definition control_process ::
  "'s supervisor \<Rightarrow> pyval \<Rightarrow> pyval \<Rightarrow> string \<Rightarrow> string \<Rightarrow> ('s, response) prog" where
  "control_process server isd_id ad_id process_name command =
     (let ad_name = get_full_ad_name isd_id ad_id;
          full_process_name = ad_name @ '':'' @ process_name
      in if command = ''START'' then
           seq (start_process server full_process_name) (\<lambda>res. ret (response_success (DBool res)))
         else if command = ''STOP'' then
           seq (stop_process server full_process_name) (\<lambda>res. ret (response_success (DBool res)))
         else if command = ''RESTART'' then
           seq (stop_process server full_process_name) (\<lambda>_.
           seq (start_process server full_process_name) (\<lambda>res. ret (response_success (DBool res))))
         else ret (response_failure ''Invalid command''))"

subsection \<open>Updates\<close>

definition run_updater :: "'t externals \<Rightarrow> string \<Rightarrow> string \<Rightarrow> (world, unit) prog" where
  "run_updater im archive path =
     seq (open_append (path_join (LOGS_DIR im) ''updater.log'')) (\<lambda>_.
       popen [sys_executable im, UPDATE_SCRIPT_PATH im, archive, path])"

text \<open>\<open>d[key]\<close> on the dictionary of the payload.\<close>

definition dict_get :: "(string \<rightharpoonup> string) \<Rightarrow> string \<Rightarrow> ('w, string) prog" where
  "dict_get d key = (case d key of None \<Rightarrow> raise (KeyError key) | Some v \<Rightarrow> ret v)"

definition lift :: "exn + 'a \<Rightarrow> ('w, 'a) prog" where
  "lift r = (case r of Inl e \<Rightarrow> raise e | Inr x \<Rightarrow> ret x)"

definition send_update ::
  "'t externals \<Rightarrow> pyval \<Rightarrow> pyval \<Rightarrow> (string \<rightharpoonup> string) \<Rightarrow> (world, response) prog" where
  "send_update im isd_id ad_id data_dict =
     seq (dict_get data_dict ''data'') (\<lambda>base64_data.
     seq (dict_get data_dict ''digest'') (\<lambda>received_digest.
     seq (lift (b64decode im base64_data)) (\<lambda>raw_data.
       if sha1_hexdigest im raw_data \<noteq> received_digest
       then ret (response_failure ''Hash value does not match'')
       else
         seq (\<lambda>w. if \<not> path_exists w (UPDATE_DIR_PATH im) then makedirs (UPDATE_DIR_PATH im) w
                   else ret () w) (\<lambda>_.
         seq (\<lambda>w. if isdir w (UPDATE_DIR_PATH im) then ret () w else raise AssertionError w) (\<lambda>_.
         seq (dict_get data_dict ''name'') (\<lambda>declared_name.
           let archive_name = basename declared_name;
               out_file_path = path_join (UPDATE_DIR_PATH im) archive_name
           in seq (write_file out_file_path raw_data) (\<lambda>_.
              seq (run_updater im out_file_path (PROJECT_ROOT im)) (\<lambda>_.
              ret (response_success DNone)))))))))"

subsection \<open>The master of a server type\<close>

text \<open>
  The client of the coordination service: \<open>kc.start()\<close>, \<open>kc.get_children(path)\<close> and the
  data part of \<open>kc.get(path)\<close>.  Each may raise, \<open>NoNodeError\<close> among others.
\<close>

record kazoo =
  kc_start :: "exn + unit"
  kc_get_children :: "string \<Rightarrow> exn + string list"
  kc_get :: "string \<Rightarrow> exn + string"

definition get_id :: "string \<Rightarrow> string" where
  "get_id node_name = last (py_split ''__'' node_name)"

text \<open>\<open>server_id, _, _ = parts\<close>: exactly three parts, or a \<open>ValueError\<close>.\<close>

fun unpack3 :: "'a list \<Rightarrow> exn + 'a" where
  "unpack3 [a, b, c] = Inr a"
| "unpack3 parts = Inl ValueError"

text \<open>The body of the \<open>try\<close> block.\<close>

definition master_lookup :: "kazoo \<Rightarrow> string \<Rightarrow> exn + response" where
  "master_lookup kc lock_path =
     and_then (kc_start kc) (\<lambda>_.
     and_then (kc_get_children kc lock_path) (\<lambda>contenders.
       if contenders = [] then Inr (response_failure ''No lock contenders found'')
       else
         case sort_key get_id contenders of
           [] \<Rightarrow> Inl (OtherError ''IndexError'')
         | lock_holder_file # _ \<Rightarrow>
             let lock_holder_path = path_join lock_path lock_holder_file in
             and_then (kc_get kc lock_holder_path) (\<lambda>lock_contents.
             and_then (unpack3 (py_split [CHR 0x00] lock_contents)) (\<lambda>server_id.
             and_then (decode_utf8 server_id) (\<lambda>server_id.
               Inr (response_success (DStr server_id)))))))"

text \<open>\<open>'/ISD{}-AD{}/{}/lock'.format(isd_id, ad_id, server_type)\<close>.\<close>

definition format_lock_path :: "pyval \<Rightarrow> pyval \<Rightarrow> string \<Rightarrow> string" where
  "format_lock_path isd_id ad_id server_type =
     ''/ISD'' @ py_str isd_id @ ''-AD'' @ py_str ad_id @ ''/'' @ server_type @ ''/lock''"

text \<open>
  The handler: \<open>NoNodeError\<close> is the one exception of the \<open>try\<close> block that is caught.
  The \<open>finally\<close> clause closes the session and does not change what is returned or
  raised.
\<close>

definition get_master_id :: "kazoo \<Rightarrow> pyval \<Rightarrow> pyval \<Rightarrow> string \<Rightarrow> exn + response" where
  "get_master_id kc isd_id ad_id server_type =
     (if server_type \<notin> set [''bs'', ''cs'', ''ps''] then Inr (response_failure ''Invalid server type'')
      else
        let lock_path = format_lock_path isd_id ad_id server_type
        in case master_lookup kc lock_path of
             Inl NoNodeError \<Rightarrow> Inr (response_failure ''No lock data found'')
           | Inl e \<Rightarrow> Inl e
           | Inr response \<Rightarrow> Inr response)"

section \<open>Filling an AD from a topology (web\_scion/ad\_manager/models.py)\<close>

text \<open>
  The \<open>Topology\<close> object of \<open>lib.topology\<close> is not among the sources; the records hold
  the attributes that \<open>fill_from_topology\<close> reads: \<open>name\<close> and \<open>addr\<close> of an element, the
  \<open>interface\<close> of a router with \<open>neighbor_ad\<close>, \<open>neighbor_isd\<close>, \<open>neighbor_type\<close>,
  \<open>addr\<close>, \<open>to_addr\<close> and \<open>if_id\<close>.
\<close>

record topo_interface =
  neighbor_ad :: int
  neighbor_isd :: int
  neighbor_type :: string
  if_addr :: string
  to_addr :: string
  if_id :: int

record topo_element =
  el_name :: string
  el_addr :: string

record topo_router = topo_element +
  el_interface :: topo_interface

record topology_object =
  is_core_ad :: bool
  edge_routers :: "topo_router list"
  beacon_servers :: "topo_element list"
  certificate_servers :: "topo_element list"
  path_servers :: "topo_element list"
  dns_servers :: "topo_element list"

text \<open>
  The tables of the models.  An \<open>AD\<close> row has its primary key, its ISD and the flag
  \<open>is_core_ad\<close>; an element row has its address, the AD it belongs to and its name, which
  may be null; a router row has the fields of \<open>RouterWeb\<close> in addition.
\<close>

record ad_row =
  ad_pk :: int
  ad_isd :: int
  ad_is_core_ad :: bool

record element_row =
  row_addr :: string
  row_ad :: int
  row_name :: "string option"

record router_row = element_row +
  row_neighbor_ad :: int
  row_neighbor_type :: string
  row_interface_addr :: string
  row_interface_toaddr :: string
  row_interface_id :: int

text \<open>The database, and the attribute \<open>is_core_ad\<close> of the instance \<open>self\<close> in memory.\<close>

record orm =
  self_is_core_ad :: bool
  ad_table :: "ad_row list"
  routerweb :: "router_row list"
  beaconserverweb :: "element_row list"
  certificateserverweb :: "element_row list"
  pathserverweb :: "element_row list"
  dnsserverweb :: "element_row list"

text \<open>\<open>AD.objects.get(id=..., isd=...)\<close>: exactly one row, or an exception.\<close>

definition ad_objects_get :: "int \<Rightarrow> int \<Rightarrow> (orm, ad_row) prog" where
  "ad_objects_get pk isd st =
     (case filter (\<lambda>row. ad_pk row = pk \<and> ad_isd row = isd) (ad_table st) of
        [] \<Rightarrow> (Inl DoesNotExist, st)
      | [row] \<Rightarrow> (Inr row, st)
      | _ \<Rightarrow> (Inl (OtherError ''MultipleObjectsReturned''), st))"

text \<open>
  \<open>save()\<close> of a new row: the tables are \<open>unique_together\<close> on the AD and the address,
  and a second row with both equal raises \<open>IntegrityError\<close>.
\<close>

definition unique_violation :: "'a element_row_scheme list \<Rightarrow> 'b element_row_scheme \<Rightarrow> bool" where
  "unique_violation table row =
     list_ex (\<lambda>old. row_ad old = row_ad row \<and> row_addr old = row_addr row) table"

definition save_router :: "router_row \<Rightarrow> (orm, unit) prog" where
  "save_router row st =
     (if unique_violation (routerweb st) row then (Inl IntegrityError, st)
      else (Inr (), st\<lparr>routerweb := routerweb st @ [row]\<rparr>))"

definition save_beacon_server :: "element_row \<Rightarrow> (orm, unit) prog" where
  "save_beacon_server row st =
     (if unique_violation (beaconserverweb st) row then (Inl IntegrityError, st)
      else (Inr (), st\<lparr>beaconserverweb := beaconserverweb st @ [row]\<rparr>))"

definition save_certificate_server :: "element_row \<Rightarrow> (orm, unit) prog" where
  "save_certificate_server row st =
     (if unique_violation (certificateserverweb st) row then (Inl IntegrityError, st)
      else (Inr (), st\<lparr>certificateserverweb := certificateserverweb st @ [row]\<rparr>))"

definition save_path_server :: "element_row \<Rightarrow> (orm, unit) prog" where
  "save_path_server row st =
     (if unique_violation (pathserverweb st) row then (Inl IntegrityError, st)
      else (Inr (), st\<lparr>pathserverweb := pathserverweb st @ [row]\<rparr>))"

definition save_dns_server :: "element_row \<Rightarrow> (orm, unit) prog" where
  "save_dns_server row st =
     (if unique_violation (dnsserverweb st) row then (Inl IntegrityError, st)
      else (Inr (), st\<lparr>dnsserverweb := dnsserverweb st @ [row]\<rparr>))"

text \<open>The five \<open>self.<model>_set.all().delete()\<close> of \<open>clear\<close>.\<close>

definition clear_elements :: "int \<Rightarrow> (orm, unit) prog" where
  "clear_elements self st =
     (Inr (), st\<lparr>routerweb := filter (\<lambda>row. row_ad row \<noteq> self) (routerweb st),
                  pathserverweb := filter (\<lambda>row. row_ad row \<noteq> self) (pathserverweb st),
                  certificateserverweb := filter (\<lambda>row. row_ad row \<noteq> self) (certificateserverweb st),
                  beaconserverweb := filter (\<lambda>row. row_ad row \<noteq> self) (beaconserverweb st),
                  dnsserverweb := filter (\<lambda>row. row_ad row \<noteq> self) (dnsserverweb st)\<rparr>)"

text \<open>\<open>for router in routers\<close>: the neighbor is looked up, then the row is saved.\<close>

fun routers_loop :: "int \<Rightarrow> topo_router list \<Rightarrow> (orm, unit) prog" where
  "routers_loop self [] = ret ()"
| "routers_loop self (router # routers) =
     (let interface = el_interface router in
      seq (ad_objects_get (neighbor_ad interface) (neighbor_isd interface)) (\<lambda>neighbor.
      seq (save_router \<lparr>row_addr = el_addr router, row_ad = self, row_name = Some (el_name router),
             row_neighbor_ad = ad_pk neighbor, row_neighbor_type = neighbor_type interface,
             row_interface_addr = if_addr interface, row_interface_toaddr = to_addr interface,
             row_interface_id = if_id interface\<rparr>) (\<lambda>_.
      routers_loop self routers)))"

text \<open>The four loops over servers, with the \<open>save\<close> of their model.\<close>

fun servers_loop ::
  "(element_row \<Rightarrow> (orm, unit) prog) \<Rightarrow> int \<Rightarrow> topo_element list \<Rightarrow> (orm, unit) prog" where
  "servers_loop save self [] = ret ()"
| "servers_loop save self (s # servers) =
     seq (save \<lparr>row_addr = el_addr s, row_ad = self, row_name = Some (el_name s)\<rparr>) (\<lambda>_.
     servers_loop save self servers)"

text \<open>\<open>try: ... except IntegrityError: pass\<close>.\<close>

definition except_IntegrityError :: "(orm, unit) prog \<Rightarrow> (orm, unit) prog" where
  "except_IntegrityError body st =
     (case body st of
        (Inl IntegrityError, st') \<Rightarrow> (Inr (), st')
      | result \<Rightarrow> result)"

definition fill_from_topology :: "int \<Rightarrow> topology_object \<Rightarrow> bool \<Rightarrow> (orm, unit) prog" where
  "fill_from_topology self topology clear =
     seq (if clear then clear_elements self else ret ()) (\<lambda>_.
     seq (\<lambda>st. (Inr (), st\<lparr>self_is_core_ad := is_core_ad topology\<rparr>)) (\<lambda>_.
     except_IntegrityError
       (seq (routers_loop self (edge_routers topology)) (\<lambda>_.
        seq (servers_loop save_beacon_server self (beacon_servers topology)) (\<lambda>_.
        seq (servers_loop save_certificate_server self (certificate_servers topology)) (\<lambda>_.
        seq (servers_loop save_path_server self (path_servers topology)) (\<lambda>_.
        servers_loop save_dns_server self (dns_servers topology))))))))"

subsection \<open>The stored topology as a document, and the comparison with the remote one\<close>

text \<open>\<open>d[key] = value\<close> on a dictionary: a key that is there keeps its place.\<close>

fun dict_set :: "('k \<times> 'v) list \<Rightarrow> 'k \<Rightarrow> 'v \<Rightarrow> ('k \<times> 'v) list" where
  "dict_set [] key v = [(key, v)]"
| "dict_set ((k, old) # d) key v = (if k = key then (k, v) # d else (k, old) # dict_set d key v)"

text \<open>\<open>str(element.name)\<close>, for a name that may be null.\<close>

definition str_name :: "string option \<Rightarrow> string" where
  "str_name element_name = (case element_name of None \<Rightarrow> ''None'' | Some s \<Rightarrow> s)"

text \<open>\<open>SCIONWebElement.get_dict\<close>.\<close>

definition get_dict :: "'a element_row_scheme \<Rightarrow> element" where
  "get_dict row = \<lparr>AddrType = ''IPv4'', Addr = row_addr row, Interface = None\<rparr>"

text \<open>
  \<open>RouterWeb.get_dict\<close>: \<open>self.neighbor_ad\<close> is the \<open>AD\<close> row of the foreign key, and
  \<open>port\<close> is \<open>int(PORT)\<close> for the constant \<open>PORT\<close> of \<open>topology.generator\<close>, which is not
  among the sources.
\<close>

definition router_get_dict :: "int \<Rightarrow> orm \<Rightarrow> router_row \<Rightarrow> exn + element" where
  "router_get_dict port st row =
     (case filter (\<lambda>ad. ad_pk ad = row_neighbor_ad row) (ad_table st) of
        [] \<Rightarrow> Inl DoesNotExist
      | neighbor # _ \<Rightarrow>
          Inr ((get_dict row)\<lparr>Interface := Some
            \<lparr>NeighborType = row_neighbor_type row,
             NeighborISD = ad_isd neighbor,
             NeighborAD = ad_pk neighbor,
             IfAddr = row_interface_addr row,
             IfAddrType = ''IPv4'',
             ToAddr = row_interface_toaddr row,
             UdpPort = port,
             ToUdpPort = port,
             IFID = ad_pk neighbor\<rparr>\<rparr>))"

text \<open>The loops of \<open>generate_topology_dict\<close> over the routers and over the servers of a type.\<close>

fun routers_dict :: "int \<Rightarrow> orm \<Rightarrow> router_row list \<Rightarrow> collection \<Rightarrow> exn + collection" where
  "routers_dict port st [] d = Inr d"
| "routers_dict port st (router # routers) d =
     and_then (router_get_dict port st router) (\<lambda>el.
       routers_dict port st routers (dict_set d (str_name (row_name router)) el))"

fun servers_dict :: "element_row list \<Rightarrow> collection \<Rightarrow> collection" where
  "servers_dict [] d = d"
| "servers_dict (server # servers) d =
     servers_dict servers (dict_set d (str_name (row_name server)) (get_dict server))"

text \<open>
  \<open>AD.generate_topology_dict\<close> for the row \<open>self\<close>.  The document has no key
  \<open>DNSServers\<close>, so the last loop raises \<open>KeyError\<close> at the first DNS server of the AD.
\<close>

definition generate_topology_dict :: "int \<Rightarrow> orm \<Rightarrow> ad_row \<Rightarrow> exn + topology" where
  "generate_topology_dict port st self =
     and_then (routers_dict port st (filter (\<lambda>row. row_ad row = ad_pk self) (routerweb st)) []) (\<lambda>routers.
       let ps = servers_dict (filter (\<lambda>row. row_ad row = ad_pk self) (pathserverweb st)) [];
           bs = servers_dict (filter (\<lambda>row. row_ad row = ad_pk self) (beaconserverweb st)) [];
           cs = servers_dict (filter (\<lambda>row. row_ad row = ad_pk self) (certificateserverweb st)) []
       in if filter (\<lambda>row. row_ad row = ad_pk self) (dnsserverweb st) \<noteq> []
          then Inl (KeyError ''DNSServers'')
          else Inr \<lparr>ISDID = ad_isd self, ADID = ad_pk self,
                    Core = (if ad_is_core_ad self then 1 else 0),
                    EdgeRouters = routers, PathServers = ps, BeaconServers = bs,
                    CertificateServers = cs, DNSServers = None\<rparr>)"

text \<open>\<open>get_object_or_404(AD, id=pk)\<close>.\<close>

definition get_object_or_404 :: "orm \<Rightarrow> int \<Rightarrow> exn + ad_row" where
  "get_object_or_404 st pk =
     (case filter (\<lambda>ad. ad_pk ad = pk) (ad_table st) of
        [] \<Rightarrow> Inl (OtherError ''Http404'')
      | ad # _ \<Rightarrow> Inr ad)"

text \<open>
  The view \<open>compare_remote_topology\<close> and its JSON answer.  \<open>remote\<close> is what
  \<open>ad.get_remote_topology()\<close> returned, which asks the daemon: \<open>None\<close> when the daemon
  gave no topology.
\<close>

datatype json_response = Fail "string list" | Compared string "string list"

definition compare_remote_topology ::
  "(string \<Rightarrow> int option) \<Rightarrow> int \<Rightarrow> orm \<Rightarrow> topology option \<Rightarrow> int \<Rightarrow> exn + json_response" where
  "compare_remote_topology int_of port st remote pk =
     and_then (get_object_or_404 st pk) (\<lambda>ad.
       case remote of
         None \<Rightarrow> Inr (Fail [''Cannot get the remote topology''])
       | Some remote_topology \<Rightarrow>
           and_then (generate_topology_dict port st ad) (\<lambda>current_topology.
           and_then (get_changes int_of current_topology remote_topology) (\<lambda>changes.
             Inr (Compared (if changes \<noteq> [] then ''CHANGED'' else ''OK'') changes))))"

text \<open>Concrete parameters and a concrete node for the checks of the daemon.\<close>

definition example_externals :: "string externals" where
  "example_externals = \<lparr>
     UPDATE_DIR_PATH = ''/scion/.update_files'',
     UPDATE_SCRIPT_PATH = ''/scion/ad_management/updater.py'',
     LOGS_DIR = ''/scion/logs'',
     PROJECT_ROOT = ''/scion'',
     sys_executable = ''/usr/bin/python3'',
     b64decode = (\<lambda>s. if s = ''aGVsbG8='' then Inr ''hello'' else Inl BinasciiError),
     sha1_hexdigest = (\<lambda>s. if s = ''hello'' then ''aaf4c61ddcc5e8a2dabede0f3b482cd9aea9434d''
                            else ''da39a3ee5e6b4b0d3255bfef95601890afd80709''),
     json_dump = (\<lambda>t. (t, None)),
     topo_file_abs = (\<lambda>isd_id ad_id. ''/scion/topology/ISD'' @ py_str isd_id @ ''-AD'' @ py_str ad_id @ ''.json''),
     write_derivatives = (\<lambda>t. None)\<rparr>"

definition example_world :: world where
  "example_world = \<lparr>nodes = [''/scion'' \<mapsto> Dir, ''/scion/logs'' \<mapsto> Dir,
                              ''/scion/.update_files'' \<mapsto> Dir,
                              ''/scion/topology'' \<mapsto> Dir,
                              ''/scion/topology/ISD1-AD3.json'' \<mapsto> File ''{}''],
                     effects = [], refused = (\<lambda>op. None)\<rparr>"

text \<open>
  The payload of \<open>send_update\<close>: the archive \<open>hello\<close> in base64, with a declared name
  and a declared digest.
\<close>

definition example_payload :: "string \<Rightarrow> string \<Rightarrow> (string \<rightharpoonup> string)" where
  "example_payload declared_name digest =
     [''name'' \<mapsto> declared_name, ''data'' \<mapsto> ''aGVsbG8='', ''digest'' \<mapsto> digest]"

text \<open>
  A path lies in a directory when it is the directory joined with one component, and the
  component is a file name: not empty, not \<open>.\<close> and not \<open>..\<close>.
\<close>

definition inside_dir :: "string \<Rightarrow> string \<Rightarrow> bool" where
  "inside_dir d p = (p = path_join d (basename p) \<and> \<not> names_directory p)"

text \<open>
  A program writes only files that \<open>ok\<close> admits: whatever it returns or raises, each
  \<open>WriteFile\<close> among the effects it adds satisfies \<open>ok\<close>.
\<close>

definition writes_only :: "(string \<Rightarrow> string \<Rightarrow> bool) \<Rightarrow> (world, 'a) prog \<Rightarrow> bool" where
  "writes_only ok m =
     (\<forall>w. \<exists>ev. effects (snd (m w)) = effects w @ ev \<and>
                 (\<forall>p data. WriteFile p data \<in> set ev \<longrightarrow> ok p data))"

text \<open>The log that \<open>run_updater\<close> opens.\<close>

definition update_log :: "'t externals \<Rightarrow> string" where
  "update_log im = path_join (LOGS_DIR im) ''updater.log''"


text \<open>The part of \<open>send_update\<close> after the digest check, as a program of its own.\<close>

definition store_update ::
  "'t externals \<Rightarrow> (string \<rightharpoonup> string) \<Rightarrow> string \<Rightarrow> (world, response) prog" where
  "store_update im data_dict raw_data =
     seq (\<lambda>w. if \<not> path_exists w (UPDATE_DIR_PATH im) then makedirs (UPDATE_DIR_PATH im) w
               else ret () w) (\<lambda>_.
     seq (\<lambda>w. if isdir w (UPDATE_DIR_PATH im) then ret () w else raise AssertionError w) (\<lambda>_.
     seq (dict_get data_dict ''name'') (\<lambda>declared_name.
       let archive_name = basename declared_name;
           out_file_path = path_join (UPDATE_DIR_PATH im) archive_name
       in seq (write_file out_file_path raw_data) (\<lambda>_.
          seq (run_updater im out_file_path (PROJECT_ROOT im)) (\<lambda>_.
          ret (response_success DNone))))))"

text \<open>
  The sequence suffixes of all contenders are runs of decimal digits of one length, as
  the ten digits that the coordination service appends to a sequential node.
\<close>

definition uniform_sequence :: "string list \<Rightarrow> bool" where
  "uniform_sequence contenders =
     list_all (\<lambda>c. list_all is_digit (get_id c) \<and>
                    length (get_id c) = length (get_id (hd contenders))) contenders"

text \<open>\<open>sorted(contenders, key=get_id)[0]\<close>, for a list that is not empty.\<close>

definition lock_holder_file :: "string list \<Rightarrow> string" where
  "lock_holder_file contenders = hd (sort_key get_id contenders)"

text \<open>
  Three clients of the coordination service for the checks: the lock of the beacon
  servers of AD 1-3 with three contenders, a lock whose two contenders have sequence
  suffixes of different lengths, and a lock whose holder stored a value without
  separators.
\<close>

text \<open>A lock value: three fields, separated by NUL bytes.\<close>

definition lock_value :: "string \<Rightarrow> string \<Rightarrow> string \<Rightarrow> string" where
  "lock_value server_id host port = server_id @ [CHR 0x00] @ host @ [CHR 0x00] @ port"

definition example_kazoo :: kazoo where
  "example_kazoo = \<lparr>
     kc_start = Inr (),
     kc_get_children = (\<lambda>path.
       if path = ''/ISD1-AD3/bs/lock''
       then Inr [''f3e1__lock__0000000003'', ''a7c2__lock__0000000001'', ''09bd__lock__0000000007'']
       else Inl NoNodeError),
     kc_get = (\<lambda>path.
       if path = ''/ISD1-AD3/bs/lock/f3e1__lock__0000000003'' then Inr (lock_value ''bs1-3-3'' ''127.0.0.3'' ''30003'')
       else if path = ''/ISD1-AD3/bs/lock/a7c2__lock__0000000001'' then Inr (lock_value ''bs1-3-1'' ''127.0.0.1'' ''30001'')
       else if path = ''/ISD1-AD3/bs/lock/09bd__lock__0000000007'' then Inr (lock_value ''bs1-3-7'' ''127.0.0.7'' ''30007'')
       else Inl NoNodeError)\<rparr>"

definition short_suffix_kazoo :: kazoo where
  "short_suffix_kazoo = \<lparr>
     kc_start = Inr (),
     kc_get_children = (\<lambda>path.
       if path = ''/ISD1-AD3/bs/lock'' then Inr [''a__9'', ''b__10''] else Inl NoNodeError),
     kc_get = (\<lambda>path.
       if path = ''/ISD1-AD3/bs/lock/a__9'' then Inr (lock_value ''nine'' ''127.0.0.9'' ''30009'')
       else if path = ''/ISD1-AD3/bs/lock/b__10'' then Inr (lock_value ''ten'' ''127.0.0.10'' ''30010'')
       else Inl NoNodeError)\<rparr>"

definition malformed_value_kazoo :: kazoo where
  "malformed_value_kazoo = \<lparr>
     kc_start = Inr (),
     kc_get_children = (\<lambda>path.
       if path = ''/ISD1-AD3/bs/lock'' then Inr [''a7c2__lock__0000000001''] else Inl NoNodeError),
     kc_get = (\<lambda>path.
       if path = ''/ISD1-AD3/bs/lock/a7c2__lock__0000000001'' then Inr ''bs1-3-1''
       else Inl NoNodeError)\<rparr>"

text \<open>
  A supervisor for the checks: it knows one process and answers every other name with
  the fault \<open>BAD_NAME\<close>.
\<close>

definition example_supervisor :: "unit supervisor" where
  "example_supervisor = \<lparr>
     getProcessInfo = (\<lambda>process_name s.
       if process_name = ''ad1-3:bs1-3-1''
       then (Inr \<lparr>proc_name = ''bs1-3-1'', proc_group = ''ad1-3'', statename = ''RUNNING''\<rparr>, s)
       else (Inl (Fault ''BAD_NAME''), s)),
     getAllProcessInfo = (\<lambda>s.
       (Inr [\<lparr>proc_name = ''bs1-3-1'', proc_group = ''ad1-3'', statename = ''RUNNING''\<rparr>], s)),
     startProcess = (\<lambda>process_name s.
       if process_name = ''ad1-3:bs1-3-1'' then (Inr True, s) else (Inl (Fault ''BAD_NAME''), s)),
     stopProcess = (\<lambda>process_name s.
       if process_name = ''ad1-3:bs1-3-1'' then (Inr True, s) else (Inl (Fault ''BAD_NAME''), s))\<rparr>"

text \<open>A supervisor that cannot be reached, and two locks without a holder.\<close>

definition unreachable_supervisor :: "unit supervisor" where
  "unreachable_supervisor = \<lparr>
     getProcessInfo = (\<lambda>process_name s. (Inl (OtherError ''ConnectionRefusedError''), s)),
     getAllProcessInfo = (\<lambda>s. (Inl (OtherError ''ConnectionRefusedError''), s)),
     startProcess = (\<lambda>process_name s. (Inl (OtherError ''ConnectionRefusedError''), s)),
     stopProcess = (\<lambda>process_name s. (Inl (OtherError ''ConnectionRefusedError''), s))\<rparr>"

definition empty_lock_kazoo :: kazoo where
  "empty_lock_kazoo = \<lparr>kc_start = Inr (), kc_get_children = (\<lambda>path. Inr []),
     kc_get = (\<lambda>path. Inl NoNodeError)\<rparr>"

definition absent_lock_kazoo :: kazoo where
  "absent_lock_kazoo = \<lparr>kc_start = Inr (), kc_get_children = (\<lambda>path. Inl NoNodeError),
     kc_get = (\<lambda>path. Inl NoNodeError)\<rparr>"

text \<open>A program raises only exceptions of \<open>E\<close>.\<close>

definition raises_only :: "exn set \<Rightarrow> ('w, 'a) prog \<Rightarrow> bool" where
  "raises_only E m = (\<forall>st. case fst (m st) of Inl e \<Rightarrow> e \<in> E | Inr x \<Rightarrow> True)"

text \<open>The state in which the loops of \<open>fill_from_topology\<close> start.\<close>

definition prepared :: "int \<Rightarrow> topology_object \<Rightarrow> bool \<Rightarrow> orm \<Rightarrow> orm" where
  "prepared self topology clear st =
     (if clear then snd (clear_elements self st) else st)\<lparr>self_is_core_ad := is_core_ad topology\<rparr>"








text \<open>A handler returned, and what it returned is a failure envelope.\<close>

definition returns_failure :: "exn + response \<Rightarrow> bool" where
  "returns_failure r = (case r of Inl e \<Rightarrow> False | Inr response \<Rightarrow> \<not> is_success response)"

text \<open>
  Two more supervisors for the checks: one whose process is stopped and cannot be
  spawned, and one whose process runs and cannot be stopped.
\<close>

definition stopped_supervisor :: "unit supervisor" where
  "stopped_supervisor = \<lparr>
     getProcessInfo = (\<lambda>process_name s.
       (Inr \<lparr>proc_name = ''bs1-3-1'', proc_group = ''ad1-3'', statename = ''STOPPED''\<rparr>, s)),
     getAllProcessInfo = (\<lambda>s.
       (Inr [\<lparr>proc_name = ''bs1-3-1'', proc_group = ''ad1-3'', statename = ''STOPPED''\<rparr>], s)),
     startProcess = (\<lambda>process_name s. (Inl (Fault ''SPAWN_ERROR''), s)),
     stopProcess = (\<lambda>process_name s. (Inr True, s))\<rparr>"

definition stuck_supervisor :: "unit supervisor" where
  "stuck_supervisor = \<lparr>
     getProcessInfo = (\<lambda>process_name s.
       (Inr \<lparr>proc_name = ''bs1-3-1'', proc_group = ''ad1-3'', statename = ''RUNNING''\<rparr>, s)),
     getAllProcessInfo = (\<lambda>s.
       (Inr [\<lparr>proc_name = ''bs1-3-1'', proc_group = ''ad1-3'', statename = ''RUNNING''\<rparr>], s)),
     startProcess = (\<lambda>process_name s. (Inr True, s)),
     stopProcess = (\<lambda>process_name s. (Inl (Fault ''FAILED''), s))\<rparr>"

text \<open>
  A database for the checks: AD 1-3 with the elements of \<open>example_topology\<close> and its
  neighbor AD 1-2.
\<close>

definition example_db :: orm where
  "example_db = \<lparr>self_is_core_ad = False,
     ad_table = [\<lparr>ad_pk = 3, ad_isd = 1, ad_is_core_ad = False\<rparr>,
                 \<lparr>ad_pk = 2, ad_isd = 1, ad_is_core_ad = False\<rparr>],
     routerweb = [\<lparr>row_addr = ''127.0.0.1'', row_ad = 3, row_name = Some ''1'', row_neighbor_ad = 2,
                   row_neighbor_type = ''PARENT'', row_interface_addr = ''10.0.0.1'',
                   row_interface_toaddr = ''10.0.0.2'', row_interface_id = 2\<rparr>],
     beaconserverweb = [\<lparr>row_addr = ''127.0.0.3'', row_ad = 3, row_name = Some ''2''\<rparr>,
                        \<lparr>row_addr = ''127.0.0.4'', row_ad = 3, row_name = Some ''1''\<rparr>],
     certificateserverweb = [\<lparr>row_addr = ''127.0.0.5'', row_ad = 3, row_name = Some ''1''\<rparr>],
     pathserverweb = [\<lparr>row_addr = ''127.0.0.2'', row_ad = 3, row_name = Some ''1''\<rparr>],
     dnsserverweb = []\<rparr>"

text \<open>
  Documents for the checks.  \<open>listed_remote\<close> is \<open>listed_current\<close> with the neighbor type
  of router \<open>1\<close> changed, its routers and beacon servers listed in another order.
  \<open>tied_remote\<close> is \<open>tied_current\<close> with the neighbor type of router \<open>1\<close> changed and its
  routers listed in another order; the router names \<open>1\<close> and \<open>01\<close> have the same number.
\<close>

definition listed_current :: topology where
  "listed_current = example_topology\<lparr>EdgeRouters :=
     [(''1'', example_router), (''2'', example_router\<lparr>Addr := ''127.0.0.6''\<rparr>)]\<rparr>"

definition listed_remote :: topology where
  "listed_remote = example_topology\<lparr>
     EdgeRouters := [(''2'', example_router\<lparr>Addr := ''127.0.0.6''\<rparr>),
                     (''1'', set_neighbor_type ''PEER'' example_router)],
     BeaconServers := [(''1'', example_server ''127.0.0.4''), (''2'', example_server ''127.0.0.3'')]\<rparr>"

definition tied_current :: topology where
  "tied_current = example_topology\<lparr>EdgeRouters :=
     [(''1'', example_router), (''01'', example_router\<lparr>Addr := ''127.0.0.6''\<rparr>)]\<rparr>"

definition tied_remote :: topology where
  "tied_remote = example_topology\<lparr>EdgeRouters :=
     [(''01'', example_router\<lparr>Addr := ''127.0.0.6''\<rparr>),
      (''1'', set_neighbor_type ''PEER'' example_router)]\<rparr>"




text \<open>A database whose AD 1-3 has a DNS server.\<close>

definition dns_db :: orm where
  "dns_db = example_db\<lparr>dnsserverweb := [\<lparr>row_addr = ''127.0.0.6'', row_ad = 3, row_name = Some ''1''\<rparr>]\<rparr>"

section \<open>The daemon: lemmas and theorems\<close>

lemma seq_ret [simp]: "seq (ret x) f = f x"
  by (rule ext) (simp add: seq_def ret_def)

lemma seq_result:
  "m w = (Inr x, w') \<Longrightarrow> seq m f w = f x w'"
  "m w = (Inl e, w') \<Longrightarrow> seq m f w = (Inl e, w')"
  by (simp_all add: seq_def)

lemma hd_insort_key:
  "hd (insort_key f x ys) = (if ys = [] \<or> f x \<le> f (hd ys) then x else hd ys)"
  by (cases ys) auto

lemma sort_key_nonempty: "xs \<noteq> [] \<Longrightarrow> sort_key f xs \<noteq> []"
  by (cases xs) (auto simp: insort_is_Cons)

lemma insort_key_nonempty [simp]: "insort_key f x ys \<noteq> []"
  by (cases ys) auto

lemma hd_sort_key_stable_min:
  fixes f :: "'a \<Rightarrow> 'k::linorder"
  assumes "xs \<noteq> []"
  shows "\<exists>pre post. xs = pre @ hd (sort_key f xs) # post \<and>
           (\<forall>c \<in> set pre. f (hd (sort_key f xs)) < f c) \<and>
           (\<forall>c \<in> set post. f (hd (sort_key f xs)) \<le> f c)"
  using assms
proof (induction xs)
  case Nil
  then show ?case by simp
next
  case (Cons x xs)
  show ?case
  proof (cases "xs = []")
    case True
    then show ?thesis by (intro exI[of _ "[]"]) simp
  next
    case False
    let ?h = "hd (sort_key f xs)"
    obtain pre post where IH: "xs = pre @ ?h # post" "\<forall>c \<in> set pre. f ?h < f c"
        "\<forall>c \<in> set post. f ?h \<le> f c"
      using Cons.IH[OF False] by blast
    have ne: "sort_key f xs \<noteq> []" using False by (cases xs) auto
    show ?thesis
    proof (cases "f x \<le> f ?h")
      case True
      then have h: "hd (sort_key f (x # xs)) = x"
        by (simp add: hd_insort_key)
      have "\<forall>c \<in> set xs. f x \<le> f c"
      proof
        fix c assume "c \<in> set xs"
        then have "c \<in> set pre \<or> c = ?h \<or> c \<in> set post"
          using IH(1) by (metis Un_iff set_ConsD set_append)
        then show "f x \<le> f c" using True IH(2,3) by (auto intro: order_trans less_imp_le)
      qed
      then show ?thesis using h by (intro exI[of _ "[]"] exI[of _ xs]) simp
    next
      case False
      then have h: "hd (sort_key f (x # xs)) = ?h"
        using ne by (simp add: hd_insort_key)
      have "x # xs = (x # pre) @ ?h # post" using IH(1) by simp
      moreover have "\<forall>c \<in> set (x # pre). f ?h < f c" using False IH(2) by auto
      ultimately show ?thesis using h IH(3) by metis
    qed
  qed
qed

lemma foldl_digits_acc:
  "foldl (\<lambda>acc c. 10 * acc + digit_val c) acc ds
     = acc * 10 ^ length ds + foldl (\<lambda>acc c. 10 * acc + digit_val c) 0 ds"
proof (induction ds arbitrary: acc)
  case Nil
  then show ?case by simp
next
  case (Cons d ds)
  show ?case
    using Cons.IH[of "10 * acc + digit_val d"] Cons.IH[of "digit_val d"]
    by (simp add: algebra_simps)
qed

lemma nat_of_digits_Cons:
  "nat_of_digits (c # cs) = digit_val c * 10 ^ length cs + nat_of_digits cs"
  using foldl_digits_acc[of "digit_val c" cs] by (simp add: nat_of_digits_def)

lemma nat_of_digits_Nil [simp]: "nat_of_digits [] = 0"
  by (simp add: nat_of_digits_def)

lemma digit_val_le: "is_digit c \<Longrightarrow> digit_val c \<le> 9"
  by (simp add: is_digit_def digit_val_def less_eq_char_def) arith

lemma digit_val_mono: "is_digit x \<Longrightarrow> is_digit y \<Longrightarrow> x < y \<Longrightarrow> digit_val x < digit_val y"
  by (simp add: is_digit_def digit_val_def less_eq_char_def less_char_def)

lemma nat_of_digits_bound: "list_all is_digit ds \<Longrightarrow> nat_of_digits ds < 10 ^ length ds"
proof (induction ds)
  case Nil
  then show ?case by simp
next
  case (Cons d ds)
  then have "digit_val d \<le> 9" "nat_of_digits ds < 10 ^ length ds"
    by (simp_all add: digit_val_le)
  then have "digit_val d * 10 ^ length ds + nat_of_digits ds < 9 * 10 ^ length ds + 10 ^ length ds"
    by (meson add_le_less_mono mult_le_mono1)
  then show ?case by (simp add: nat_of_digits_Cons)
qed

lemma digits_less_mono:
  assumes "length a = length b" "list_all is_digit a" "list_all is_digit b" "a < b"
  shows "nat_of_digits a < nat_of_digits b"
  using assms
proof (induction a b rule: list_induct2)
  case Nil
  then show ?case by simp
next
  case (Cons x xs y ys)
  from Cons.prems(3) have "x < y \<or> (x = y \<and> xs < ys)" by simp
  then show ?case
  proof
    assume "x < y"
    then have "digit_val x + 1 \<le> digit_val y"
      using digit_val_mono[of x y] Cons.prems by simp
    then have "(digit_val x + 1) * 10 ^ length ys \<le> digit_val y * 10 ^ length ys"
      by (rule mult_le_mono1)
    moreover have "nat_of_digits xs < 10 ^ length ys"
      using nat_of_digits_bound[of xs] Cons.prems Cons.hyps by simp
    ultimately show ?thesis
      using Cons.hyps by (simp add: nat_of_digits_Cons algebra_simps)
  next
    assume "x = y \<and> xs < ys"
    then show ?thesis
      using Cons by (simp add: nat_of_digits_Cons)
  qed
qed

lemma digits_le_iff:
  assumes "length a = length b" "list_all is_digit a" "list_all is_digit b"
  shows "a \<le> b \<longleftrightarrow> nat_of_digits a \<le> nat_of_digits b"
proof
  assume "a \<le> b"
  then have "a = b \<or> a < b" by auto
  then show "nat_of_digits a \<le> nat_of_digits b"
    using digits_less_mono[OF assms] by auto
next
  assume le: "nat_of_digits a \<le> nat_of_digits b"
  show "a \<le> b"
  proof (rule ccontr)
    assume "\<not> a \<le> b"
    then have "b < a" by simp
    then have "nat_of_digits b < nat_of_digits a"
      using digits_less_mono[of b a] assms by simp
    then show False using le by simp
  qed
qed

lemma example_lock_path: "format_lock_path (PInt 1) (PInt 3) ''bs'' = ''/ISD1-AD3/bs/lock''"
  by code_simp

lemma example_get_id:
  "get_id ''f3e1__lock__0000000003'' = ''0000000003''"
  "get_id ''a7c2__lock__0000000001'' = ''0000000001''"
  "get_id ''09bd__lock__0000000007'' = ''0000000007''"
  "get_id ''a__9'' = ''9''"
  "get_id ''b__10'' = ''10''"
  by (simp_all add: get_id_def py_split_def)

lemma example_holder:
  "lock_holder_file [''f3e1__lock__0000000003'', ''a7c2__lock__0000000001'', ''09bd__lock__0000000007'']
     = ''a7c2__lock__0000000001''"
  "lock_holder_file [''a__9'', ''b__10''] = ''b__10''"
  by (simp_all add: lock_holder_file_def example_get_id less_eq_char_def)

lemma example_lock_value:
  "py_split [CHR 0x00] (lock_value ''bs1-3-1'' ''127.0.0.1'' ''30001'') = [''bs1-3-1'', ''127.0.0.1'', ''30001'']"
  "py_split [CHR 0x00] (lock_value ''ten'' ''127.0.0.10'' ''30010'') = [''ten'', ''127.0.0.10'', ''30010'']"
  "py_split [CHR 0x00] ''bs1-3-1'' = [''bs1-3-1'']"
  by (simp_all add: py_split_def lock_value_def)

lemma example_decode_utf8:
  "decode_utf8 ''bs1-3-1'' = Inr ''bs1-3-1''"
  "decode_utf8 ''ten'' = Inr ''ten''"
  by (simp_all add: decode_utf8_def)

lemma master_lookup_holder:
  assumes "kc_start kc = Inr ()" "kc_get_children kc lock_path = Inr contenders" "contenders \<noteq> []"
  shows "master_lookup kc lock_path =
     and_then (kc_get kc (path_join lock_path (lock_holder_file contenders))) (\<lambda>lock_contents.
     and_then (unpack3 (py_split [CHR 0x00] lock_contents)) (\<lambda>server_id.
     and_then (decode_utf8 server_id) (\<lambda>server_id.
       Inr (response_success (DStr server_id)))))"
proof -
  obtain h t where ht: "sort_key get_id contenders = h # t"
    using sort_key_nonempty[OF assms(3), of get_id] by (cases "sort_key get_id contenders") auto
  then have "lock_holder_file contenders = h"
    by (simp add: lock_holder_file_def)
  then show ?thesis
    using assms ht by (simp add: master_lookup_def)
qed

lemma lock_holder_least:
  assumes "contenders \<noteq> []"
  shows "\<exists>pre post. contenders = pre @ lock_holder_file contenders # post \<and>
           (\<forall>c \<in> set pre. get_id (lock_holder_file contenders) < get_id c) \<and>
           (\<forall>c \<in> set post. get_id (lock_holder_file contenders) \<le> get_id c)"
  unfolding lock_holder_file_def by (rule hd_sort_key_stable_min[OF assms])

lemma lock_holder_numeric:
  assumes "contenders \<noteq> []" "uniform_sequence contenders" "c \<in> set contenders"
  shows "nat_of_digits (get_id (lock_holder_file contenders)) \<le> nat_of_digits (get_id c)"
proof -
  let ?h = "lock_holder_file contenders"
  obtain pre post where p: "contenders = pre @ ?h # post"
      "\<forall>c \<in> set pre. get_id ?h < get_id c" "\<forall>c \<in> set post. get_id ?h \<le> get_id c"
    using lock_holder_least[OF assms(1)] by blast
  have hin: "?h \<in> set contenders" by (subst (2) p(1)) simp
  have "c \<in> set pre \<or> c = ?h \<or> c \<in> set post"
    using assms(3) by (subst (asm) p(1)) auto
  then have le: "get_id ?h \<le> get_id c"
    using p(2,3) by auto
  have u: "list_all is_digit (get_id x) \<and> length (get_id x) = length (get_id (hd contenders))"
    if "x \<in> set contenders" for x
    using assms(2) that by (auto simp: uniform_sequence_def list_all_iff)
  show ?thesis
    using digits_le_iff[of "get_id ?h" "get_id c"] u[OF hin] u[OF assms(3)] le by simp
qed

text \<open>
  Claim C2, amended.  For a non-empty list of contenders, \<open>get_master_id\<close> takes the
  contender whose sequence suffix (the part after the last \<open>__\<close>) is the least in the
  order of strings, the first of them in the listing.  When all suffixes are runs of
  digits of one length, that contender has the numerically least suffix.  When the value
  stored for it has exactly three NUL-separated fields and the first decodes as UTF-8,
  the first field is returned as the holder; a value with another number of fields
  raises \<open>ValueError\<close>.
\<close>

theorem C2_lock_holder:
  assumes "server_type \<in> set [''bs'', ''cs'', ''ps'']"
    and "kc_start kc = Inr ()"
    and "kc_get_children kc (format_lock_path isd_id ad_id server_type) = Inr contenders"
    and "contenders \<noteq> []"
  shows "(\<exists>pre post. contenders = pre @ lock_holder_file contenders # post \<and>
           (\<forall>c \<in> set pre. get_id (lock_holder_file contenders) < get_id c) \<and>
           (\<forall>c \<in> set post. get_id (lock_holder_file contenders) \<le> get_id c))
     \<and> (uniform_sequence contenders \<longrightarrow>
           (\<forall>c \<in> set contenders.
              nat_of_digits (get_id (lock_holder_file contenders)) \<le> nat_of_digits (get_id c)))
     \<and> (\<forall>v a b c.
           kc_get kc (path_join (format_lock_path isd_id ad_id server_type) (lock_holder_file contenders)) = Inr v
           \<and> py_split [CHR 0x00] v = [a, b, c] \<and> decode_utf8 a = Inr a
           \<longrightarrow> get_master_id kc isd_id ad_id server_type = Inr (response_success (DStr a)))
     \<and> (\<forall>v.
           kc_get kc (path_join (format_lock_path isd_id ad_id server_type) (lock_holder_file contenders)) = Inr v
           \<and> length (py_split [CHR 0x00] v) \<noteq> 3
           \<longrightarrow> get_master_id kc isd_id ad_id server_type = Inl ValueError)"
proof -
  note ml = master_lookup_holder[OF assms(2,3,4)]
  have unpack_bad: "unpack3 parts = Inl ValueError" if "length parts \<noteq> 3" for parts :: "string list"
    using that by (cases parts rule: unpack3.cases) auto
  have good: "get_master_id kc isd_id ad_id server_type = Inr (response_success (DStr a))"
    if "kc_get kc (path_join (format_lock_path isd_id ad_id server_type) (lock_holder_file contenders)) = Inr v"
      "py_split [CHR 0x00] v = [a, b, c]" "decode_utf8 a = Inr a" for v a b c
    using that assms(1) by (simp add: get_master_id_def Let_def ml)
  have bad: "get_master_id kc isd_id ad_id server_type = Inl ValueError"
    if "kc_get kc (path_join (format_lock_path isd_id ad_id server_type) (lock_holder_file contenders)) = Inr v"
      "length (py_split [CHR 0x00] v) \<noteq> 3" for v
    using that assms(1) by (simp add: get_master_id_def Let_def ml unpack_bad)
  show ?thesis
    using lock_holder_least[OF assms(4)] lock_holder_numeric[OF assms(4)] good bad by blast
qed

theorem C2_lock_holder_witness:
  "lock_holder_file [''f3e1__lock__0000000003'', ''a7c2__lock__0000000001'', ''09bd__lock__0000000007'']
     = ''a7c2__lock__0000000001''
   \<and> uniform_sequence [''f3e1__lock__0000000003'', ''a7c2__lock__0000000001'', ''09bd__lock__0000000007'']
   \<and> nat_of_digits (get_id ''a7c2__lock__0000000001'') \<le> nat_of_digits (get_id ''09bd__lock__0000000007'')
   \<and> get_master_id example_kazoo (PInt 1) (PInt 3) ''bs'' = Inr (response_success (DStr ''bs1-3-1''))"
proof -
  have st: "''bs'' \<in> set [''bs'', ''cs'', ''ps'']" by simp
  have start: "kc_start example_kazoo = Inr ()" by (simp add: example_kazoo_def)
  have ch: "kc_get_children example_kazoo (format_lock_path (PInt 1) (PInt 3) ''bs'')
      = Inr [''f3e1__lock__0000000003'', ''a7c2__lock__0000000001'', ''09bd__lock__0000000007'']"
    by (simp add: example_lock_path example_kazoo_def)
  have ne: "[''f3e1__lock__0000000003'', ''a7c2__lock__0000000001'', ''09bd__lock__0000000007''] \<noteq> []"
    by simp
  have v: "kc_get example_kazoo (path_join (format_lock_path (PInt 1) (PInt 3) ''bs'')
        (lock_holder_file [''f3e1__lock__0000000003'', ''a7c2__lock__0000000001'', ''09bd__lock__0000000007'']))
      = Inr (lock_value ''bs1-3-1'' ''127.0.0.1'' ''30001'')"
    by (simp add: example_lock_path example_holder path_join_def example_kazoo_def)
  have u: "uniform_sequence [''f3e1__lock__0000000003'', ''a7c2__lock__0000000001'', ''09bd__lock__0000000007'']"
    by (simp add: uniform_sequence_def example_get_id is_digit_def less_eq_char_def)
  have m: "''09bd__lock__0000000007''
      \<in> set [''f3e1__lock__0000000003'', ''a7c2__lock__0000000001'', ''09bd__lock__0000000007'']"
    by simp
  note C2 = C2_lock_holder[OF st start ch ne]
  have "nat_of_digits (get_id (lock_holder_file
          [''f3e1__lock__0000000003'', ''a7c2__lock__0000000001'', ''09bd__lock__0000000007'']))
        \<le> nat_of_digits (get_id ''09bd__lock__0000000007'')"
    using C2 u m by blast
  moreover have "get_master_id example_kazoo (PInt 1) (PInt 3) ''bs'' = Inr (response_success (DStr ''bs1-3-1''))"
    using C2 v example_lock_value(1) example_decode_utf8(1) by blast
  ultimately show ?thesis
    using u by (simp add: example_holder(1))
qed

text \<open>
  With the suffixes \<open>9\<close> and \<open>10\<close> the handler returns the holder of \<open>10\<close>: the
  suffixes are compared as strings.
\<close>

theorem C2_numeric_smallest_counterexample:
  "kc_get_children short_suffix_kazoo (format_lock_path (PInt 1) (PInt 3) ''bs'') = Inr [''a__9'', ''b__10'']
   \<and> nat_of_digits (get_id ''a__9'') < nat_of_digits (get_id ''b__10'')
   \<and> get_master_id short_suffix_kazoo (PInt 1) (PInt 3) ''bs'' = Inr (response_success (DStr ''ten''))"
proof -
  have "nat_of_digits ''9'' < nat_of_digits ''10''"
    by (simp add: nat_of_digits_def digit_val_def)
  moreover have "get_master_id short_suffix_kazoo (PInt 1) (PInt 3) ''bs'' = Inr (response_success (DStr ''ten''))"
    by (simp add: get_master_id_def Let_def master_lookup_def example_lock_path short_suffix_kazoo_def
        example_get_id less_eq_char_def path_join_def example_lock_value example_decode_utf8)
  ultimately show ?thesis
    by (simp add: example_lock_path short_suffix_kazoo_def example_get_id)
qed

section \<open>Filling the database from a topology: lemmas and theorems\<close>

lemma raises_only_ret [simp]: "raises_only E (ret x)"
  by (simp add: raises_only_def ret_def)

lemma raises_only_seq:
  assumes "raises_only E m" "\<And>x. raises_only E (f x)"
  shows "raises_only E (seq m f)"
  unfolding raises_only_def
proof
  fix st
  show "case fst (seq m f st) of Inl e \<Rightarrow> e \<in> E | Inr x \<Rightarrow> True"
  proof (cases "m st")
    case (Pair r st1)
    show ?thesis
    proof (cases r)
      case (Inl e)
      then show ?thesis
        using assms(1) Pair unfolding raises_only_def seq_def
        by (metis (mono_tags, lifting) fst_conv old.prod.case old.sum.simps(5))
    next
      case (Inr x)
      then have "seq m f st = f x st1" using Pair by (simp add: seq_def)
      then show ?thesis using assms(2)[of x] unfolding raises_only_def by simp
    qed
  qed
qed

lemma raises_only_mono: "raises_only E m \<Longrightarrow> E \<subseteq> F \<Longrightarrow> raises_only F m"
  unfolding raises_only_def by (auto split: sum.splits)

lemma raises_only_get:
  "raises_only {DoesNotExist, OtherError ''MultipleObjectsReturned''} (ad_objects_get pk isd)"
  by (auto simp: raises_only_def ad_objects_get_def split: list.splits)

lemma raises_only_saves:
  "raises_only {IntegrityError} (save_router r)"
  "raises_only {IntegrityError} (save_beacon_server row)"
  "raises_only {IntegrityError} (save_certificate_server row)"
  "raises_only {IntegrityError} (save_path_server row)"
  "raises_only {IntegrityError} (save_dns_server row)"
  by (simp_all add: raises_only_def save_router_def save_beacon_server_def
      save_certificate_server_def save_path_server_def save_dns_server_def)

lemma raises_only_servers_loop:
  assumes "\<And>row. raises_only E (save row)"
  shows "raises_only E (servers_loop save self servers)"
  by (induction servers) (auto intro!: raises_only_seq assms)

lemma raises_only_routers_loop:
  "raises_only {DoesNotExist, OtherError ''MultipleObjectsReturned'', IntegrityError}
     (routers_loop self routers)"
proof (induction routers)
  case Nil
  then show ?case by simp
next
  case (Cons r routers)
  show ?case
    unfolding routers_loop.simps Let_def
    by (intro raises_only_seq Cons
        raises_only_mono[OF raises_only_get] raises_only_mono[OF raises_only_saves(1)]) auto
qed

lemma raises_only_except:
  assumes "raises_only E body"
  shows "raises_only (E - {IntegrityError}) (except_IntegrityError body)"
  unfolding raises_only_def
proof
  fix st
  obtain r st1 where b: "body st = (r, st1)" by (cases "body st")
  have r: "case r of Inl e \<Rightarrow> e \<in> E | Inr x \<Rightarrow> True"
    using assms b unfolding raises_only_def by (metis fst_conv)
  show "case fst (except_IntegrityError body st) of Inl e \<Rightarrow> e \<in> E - {IntegrityError} | Inr x \<Rightarrow> True"
  proof (cases r)
    case (Inl e)
    then show ?thesis using b r by (cases e) (simp_all add: except_IntegrityError_def)
  next
    case (Inr x)
    then show ?thesis using b by (simp add: except_IntegrityError_def)
  qed
qed

lemma fill_from_topology_prepared:
  "fill_from_topology self topology clear st =
     except_IntegrityError
       (seq (routers_loop self (edge_routers topology)) (\<lambda>_.
        seq (servers_loop save_beacon_server self (beacon_servers topology)) (\<lambda>_.
        seq (servers_loop save_certificate_server self (certificate_servers topology)) (\<lambda>_.
        seq (servers_loop save_path_server self (path_servers topology)) (\<lambda>_.
        servers_loop save_dns_server self (dns_servers topology))))))
       (prepared self topology clear st)"
  by (simp add: fill_from_topology_def prepared_def seq_def clear_elements_def ret_def)

lemma fill_from_topology_raises:
  "fst (fill_from_topology self topology clear st)
     \<in> {Inr (), Inl DoesNotExist, Inl (OtherError ''MultipleObjectsReturned'')}"
proof -
  let ?body = "seq (routers_loop self (edge_routers topology)) (\<lambda>_.
        seq (servers_loop save_beacon_server self (beacon_servers topology)) (\<lambda>_.
        seq (servers_loop save_certificate_server self (certificate_servers topology)) (\<lambda>_.
        seq (servers_loop save_path_server self (path_servers topology)) (\<lambda>_.
        servers_loop save_dns_server self (dns_servers topology)))))"
  let ?E = "{DoesNotExist, OtherError ''MultipleObjectsReturned'', IntegrityError}"
  have s: "raises_only ?E (servers_loop save self servers)"
    if "\<And>row. raises_only {IntegrityError} (save row)" for save servers
    by (rule raises_only_mono[OF raises_only_servers_loop[of "{IntegrityError}"]]) (use that in auto)
  have "raises_only ?E ?body"
    by (intro raises_only_seq raises_only_routers_loop s raises_only_saves)
  then have "raises_only (?E - {IntegrityError}) (except_IntegrityError ?body)"
    by (rule raises_only_except)
  then have "case fst (fill_from_topology self topology clear st) of
      Inl e \<Rightarrow> e \<in> ?E - {IntegrityError} | Inr x \<Rightarrow> True"
    unfolding fill_from_topology_prepared raises_only_def by blast
  then show ?thesis
    by (cases "fst (fill_from_topology self topology clear st)") auto
qed














section \<open>The topology file of the daemon: lemmas and theorems\<close>








lemma example_granted [simp]: "refused example_world op = None"
  by (simp add: example_world_def)

lemma example_effects [simp]: "effects example_world = []"
  by (simp add: example_world_def)





section \<open>Updates: lemmas and theorems\<close>

lemma basename_no_sep: "CHR ''/'' \<notin> set (basename p)"
  using set_takeWhileD[of "CHR ''/''" "\<lambda>c. c \<noteq> CHR ''/''" "rev p"]
  by (auto simp: basename_def)

lemma basename_append:
  assumes "CHR ''/'' \<notin> set c" and "a = [] \<or> last a = CHR ''/''"
  shows "basename (a @ c) = c"
proof -
  have "takeWhile (\<lambda>c. c \<noteq> CHR ''/'') (rev a) = []"
    using assms(2) by (cases a rule: rev_cases) auto
  moreover have "takeWhile (\<lambda>x. x \<noteq> CHR ''/'') (rev c @ rev a)
      = rev c @ takeWhile (\<lambda>x. x \<noteq> CHR ''/'') (rev a)"
    using assms(1) by (intro takeWhile_append2) auto
  ultimately show ?thesis
    by (simp add: basename_def)
qed

lemma basename_path_join:
  assumes "CHR ''/'' \<notin> set c"
  shows "basename (path_join a c) = c"
proof -
  have nohd: "\<not> (c \<noteq> [] \<and> hd c = CHR ''/'')"
    using assms by (cases c) auto
  show ?thesis
  proof (cases "a = [] \<or> last a = CHR ''/''")
    case True
    then show ?thesis
      using nohd basename_append[OF assms True] by (auto simp: path_join_def)
  next
    case False
    have "basename ((a @ ''/'') @ c) = c"
      by (rule basename_append[OF assms]) simp
    then show ?thesis
      using nohd False by (auto simp: path_join_def)
  qed
qed

lemma writes_only_ret [intro!, simp]: "writes_only ok (ret x)"
  by (simp add: writes_only_def ret_def)

lemma writes_only_raise [intro!, simp]: "writes_only ok (raise e)"
  by (simp add: writes_only_def raise_def)

lemma writes_only_seq:
  assumes "writes_only ok m"
    and "\<And>x w w'. m w = (Inr x, w') \<Longrightarrow> writes_only ok (f x)"
  shows "writes_only ok (seq m f)"
  unfolding writes_only_def
proof
  fix w
  obtain ev where ev: "effects (snd (m w)) = effects w @ ev"
      "\<forall>p data. WriteFile p data \<in> set ev \<longrightarrow> ok p data"
    using assms(1) unfolding writes_only_def by blast
  show "\<exists>ev. effects (snd (seq m f w)) = effects w @ ev \<and>
              (\<forall>p data. WriteFile p data \<in> set ev \<longrightarrow> ok p data)"
  proof (cases "m w")
    case (Pair r w1)
    show ?thesis
    proof (cases r)
      case (Inl e)
      then show ?thesis using Pair ev by (auto simp: seq_def)
    next
      case (Inr x)
      then have "writes_only ok (f x)" using assms(2) Pair by blast
      then obtain ev2 where ev2: "effects (snd (f x w1)) = effects w1 @ ev2"
          "\<forall>p data. WriteFile p data \<in> set ev2 \<longrightarrow> ok p data"
        unfolding writes_only_def by blast
      have "effects (snd (seq m f w)) = effects w @ (ev @ ev2)"
        using Pair Inr ev(1) ev2(1) by (simp add: seq_def)
      moreover have "\<forall>p data. WriteFile p data \<in> set (ev @ ev2) \<longrightarrow> ok p data"
        using ev(2) ev2(2) by auto
      ultimately show ?thesis by blast
    qed
  qed
qed

lemma writes_only_cond:
  assumes "writes_only ok m1" "writes_only ok m2"
  shows "writes_only ok (\<lambda>w. if c w then m1 w else m2 w)"
  using assms unfolding writes_only_def by auto

lemma writes_only_one:
  assumes "\<And>w. snd (m w) = w \<or> (\<exists>w1. snd (m w) = w1 \<and> effects w1 = effects w @ [e])"
    and "\<And>p data. e = WriteFile p data \<Longrightarrow> (\<exists>w. snd (m w) \<noteq> w) \<Longrightarrow> ok p data"
  shows "writes_only ok m"
  unfolding writes_only_def
proof
  fix w
  from assms(1)[of w] show "\<exists>ev. effects (snd (m w)) = effects w @ ev \<and>
              (\<forall>p data. WriteFile p data \<in> set ev \<longrightarrow> ok p data)"
  proof
    assume "snd (m w) = w"
    then show ?thesis by (intro exI[of _ "[]"]) simp
  next
    assume "\<exists>w1. snd (m w) = w1 \<and> effects w1 = effects w @ [e]"
    then have e: "effects (snd (m w)) = effects w @ [e]" by simp
    then have "snd (m w) \<noteq> w" by auto
    then show ?thesis using e assms(2) by (intro exI[of _ "[e]"]) auto
  qed
qed

lemma writes_only_makedirs: "writes_only ok (makedirs p)"
  by (rule writes_only_one[where e = "MakeDirs p"]) (auto simp: makedirs_def split: option.splits)

lemma writes_only_open_append: "writes_only ok (open_append p)"
  by (rule writes_only_one[where e = "OpenAppend p"]) (auto simp: open_append_def split: option.splits)

lemma writes_only_open_write: "writes_only ok (open_write p)"
  by (rule writes_only_one[where e = "OpenWrite p"]) (auto simp: open_write_def split: option.splits)

lemma writes_only_popen: "writes_only ok (popen args)"
  by (rule writes_only_one[where e = "Popen args"]) (auto simp: popen_def split: option.splits)

lemma writes_only_file_write:
  assumes "ok p data"
  shows "writes_only ok (file_write p data)"
  by (rule writes_only_one[where e = "WriteFile p data"])
     (use assms in \<open>auto simp: file_write_def split: option.splits\<close>)

lemma open_write_Inr:
  "open_write p w = (Inr x, w') \<Longrightarrow> \<not> names_directory p"
  by (auto simp: open_write_def open_error_def split: option.splits if_splits)

lemma writes_only_write_file:
  assumes "\<not> names_directory p \<Longrightarrow> ok p data"
  shows "writes_only ok (write_file p data)"
  unfolding write_file_def
  by (intro writes_only_seq writes_only_open_write writes_only_file_write)
     (use assms in \<open>auto dest: open_write_Inr\<close>)

lemma writes_only_run_updater: "writes_only ok (run_updater im archive path)"
  unfolding run_updater_def
  by (intro writes_only_seq writes_only_open_append writes_only_popen)

lemma dict_get_result: "dict_get d key w = (Inr v, w') \<Longrightarrow> d key = Some v"
  by (auto simp: dict_get_def ret_def raise_def split: option.splits)

lemma lift_result: "lift r w = (Inr v, w') \<Longrightarrow> r = Inr v"
  by (auto simp: lift_def ret_def raise_def split: sum.splits)

lemma writes_only_dict_get: "writes_only ok (dict_get d key)"
  by (cases "d key") (simp_all add: dict_get_def)

lemma writes_only_lift: "writes_only ok (lift r)"
  by (cases r) (simp_all add: lift_def)

lemma send_update_writes_only:
  "writes_only
     (\<lambda>p data. \<exists>declared b.
         data_dict ''name'' = Some declared \<and> data_dict ''data'' = Some b \<and>
         b64decode im b = Inr data \<and> data_dict ''digest'' = Some (sha1_hexdigest im data) \<and>
         p = path_join (UPDATE_DIR_PATH im) (basename declared) \<and>
         inside_dir (UPDATE_DIR_PATH im) p)
     (send_update im isd_id ad_id data_dict)"
  unfolding send_update_def
proof (intro writes_only_seq writes_only_dict_get writes_only_lift, goal_cases)
  case (1 base64_data w1 w1' received_digest w2 w2' raw_data w3 w3')
  have d: "data_dict ''data'' = Some base64_data" "data_dict ''digest'' = Some received_digest"
      "b64decode im base64_data = Inr raw_data"
    using 1 by (auto dest: dict_get_result lift_result)
  show ?case
  proof (cases "sha1_hexdigest im raw_data \<noteq> received_digest")
    case True
    then show ?thesis by simp
  next
    case False
    have inside: "inside_dir (UPDATE_DIR_PATH im) (path_join (UPDATE_DIR_PATH im) (basename declared))"
      if "\<not> names_directory (path_join (UPDATE_DIR_PATH im) (basename declared))" for declared
      using that by (simp add: inside_dir_def basename_path_join basename_no_sep)
    show ?thesis
      using False
      apply (simp add: Let_def)
      apply (intro writes_only_seq writes_only_cond writes_only_makedirs writes_only_ret
          writes_only_raise writes_only_dict_get writes_only_write_file writes_only_run_updater)
      using d inside by (auto dest: dict_get_result)
  qed
qed

lemma seq_Inr:
  "seq m f w = (Inr y, w') \<Longrightarrow> \<exists>x w1. m w = (Inr x, w1) \<and> f x w1 = (Inr y, w')"
  by (auto simp: seq_def split: prod.splits sum.splits)

lemma send_update_store:
  "send_update im isd_id ad_id data_dict =
     seq (dict_get data_dict ''data'') (\<lambda>base64_data.
     seq (dict_get data_dict ''digest'') (\<lambda>received_digest.
     seq (lift (b64decode im base64_data)) (\<lambda>raw_data.
       if sha1_hexdigest im raw_data \<noteq> received_digest
       then ret (response_failure ''Hash value does not match'')
       else store_update im data_dict raw_data)))"
  unfolding send_update_def store_update_def by (rule refl)

lemma send_update_rejects:
  assumes "data_dict ''data'' = Some b" "data_dict ''digest'' = Some g"
      "b64decode im b = Inr raw" "g \<noteq> sha1_hexdigest im raw"
  shows "send_update im isd_id ad_id data_dict w = (Inr (response_failure ''Hash value does not match''), w)"
  using assms by (auto simp: send_update_def seq_def dict_get_def lift_def ret_def raise_def)

lemma run_updater_keeps:
  assumes "run_updater im archive path w = (r, w')" "nodes w q = Some n"
  shows "nodes w' q = Some n"
  using assms
  by (auto simp: run_updater_def seq_def open_append_def popen_def
      split: option.splits if_splits prod.splits sum.splits)

lemma write_file_Inr:
  "write_file p data w = (Inr x, w') \<Longrightarrow> nodes w' p = Some (File data) \<and> \<not> names_directory p"
  by (auto simp: write_file_def seq_def open_write_def file_write_def open_error_def
      split: option.splits if_splits)

lemma store_update_success:
  assumes "store_update im data_dict raw w = (Inr resp, w')"
  shows "\<exists>declared. data_dict ''name'' = Some declared \<and> resp = response_success DNone \<and>
           nodes w' (path_join (UPDATE_DIR_PATH im) (basename declared)) = Some (File raw) \<and>
           \<not> names_directory (path_join (UPDATE_DIR_PATH im) (basename declared))"
proof -
  from assms obtain w1 w2 declared w3 where
    n: "dict_get data_dict ''name'' w2 = (Inr declared, w3)" and
    r: "seq (write_file (path_join (UPDATE_DIR_PATH im) (basename declared)) raw) (\<lambda>_.
          seq (run_updater im (path_join (UPDATE_DIR_PATH im) (basename declared)) (PROJECT_ROOT im)) (\<lambda>_.
          ret (response_success DNone))) w3 = (Inr resp, w')"
    unfolding store_update_def Let_def by (blast dest: seq_Inr)
  from r obtain u1 w4 where
    wf: "write_file (path_join (UPDATE_DIR_PATH im) (basename declared)) raw w3 = (Inr u1, w4)" and
    r2: "seq (run_updater im (path_join (UPDATE_DIR_PATH im) (basename declared)) (PROJECT_ROOT im)) (\<lambda>_.
          ret (response_success DNone)) w4 = (Inr resp, w')"
    by (blast dest: seq_Inr)
  from r2 obtain u2 w5 where
    ru: "run_updater im (path_join (UPDATE_DIR_PATH im) (basename declared)) (PROJECT_ROOT im) w4 = (Inr u2, w5)" and
    r3: "ret (response_success DNone) w5 = (Inr resp, w')"
    by (blast dest: seq_Inr)
  have "w' = w5" "resp = response_success DNone"
    using r3 by (simp_all add: ret_def)
  moreover have "nodes w5 (path_join (UPDATE_DIR_PATH im) (basename declared)) = Some (File raw)"
    using run_updater_keeps[OF ru] write_file_Inr[OF wf] by blast
  ultimately show ?thesis
    using n write_file_Inr[OF wf] by (auto dest: dict_get_result)
qed

lemma send_update_success:
  assumes "send_update im isd_id ad_id data_dict w = (Inr resp, w')" "is_success resp"
  shows "\<exists>b raw declared. data_dict ''data'' = Some b \<and> b64decode im b = Inr raw \<and>
           data_dict ''digest'' = Some (sha1_hexdigest im raw) \<and>
           data_dict ''name'' = Some declared \<and> resp = response_success DNone \<and>
           nodes w' (path_join (UPDATE_DIR_PATH im) (basename declared)) = Some (File raw)"
proof -
  from assms(1) obtain b wa g wb raw wc where
    b: "dict_get data_dict ''data'' w = (Inr b, wa)" and
    g: "dict_get data_dict ''digest'' wa = (Inr g, wb)" and
    raw: "lift (b64decode im b) wb = (Inr raw, wc)" and
    r: "(if sha1_hexdigest im raw \<noteq> g
         then ret (response_failure ''Hash value does not match'')
         else store_update im data_dict raw) wc = (Inr resp, w')"
    unfolding send_update_store by (blast dest: seq_Inr)
  have eq: "sha1_hexdigest im raw = g"
  proof (rule ccontr)
    assume "sha1_hexdigest im raw \<noteq> g"
    then have "resp = response_failure ''Hash value does not match''"
      using r by (simp add: ret_def)
    then show False using assms(2) by (simp add: is_success_def response_failure_def)
  qed
  then have "store_update im data_dict raw wc = (Inr resp, w')"
    using r by simp
  from store_update_success[OF this] show ?thesis
    using b g raw eq by (auto dest: dict_get_result lift_result)
qed

lemma example_payload_keys:
  "example_payload n g ''name'' = Some n"
  "example_payload n g ''data'' = Some ''aGVsbG8=''"
  "example_payload n g ''digest'' = Some g"
  by (simp_all add: example_payload_def)

lemma example_decode:
  "b64decode example_externals ''aGVsbG8='' = Inr ''hello''"
  "sha1_hexdigest example_externals ''hello'' = ''aaf4c61ddcc5e8a2dabede0f3b482cd9aea9434d''"
  "UPDATE_DIR_PATH example_externals = ''/scion/.update_files''"
  by (simp_all add: example_externals_def)

lemma example_paths:
  "basename ''../../etc/passwd'' = ''passwd''"
  "basename ''scion.tar'' = ''scion.tar''"
  "basename ''pkg/'' = []"
  "path_join ''/scion/.update_files'' ''passwd'' = ''/scion/.update_files/passwd''"
  "path_join ''/scion/.update_files'' ''scion.tar'' = ''/scion/.update_files/scion.tar''"
  "path_join ''/scion/.update_files'' [] = ''/scion/.update_files/''"
  "update_log example_externals = ''/scion/logs/updater.log''"
  by (simp_all add: basename_def path_join_def update_log_def example_externals_def)

text \<open>
  Claim C4.  Whatever the declared name is, every file that \<open>send_update\<close> writes is
  the staging directory joined with the last component of the declared name, lies in the
  staging directory, and holds the decoded bytes, whose digest is the declared one.  When
  the call succeeds, that path holds the bytes afterwards.  (The log of the updater is
  opened for appending; it is not written by the call.)
\<close>

theorem C4_stored_inside_staging:
  "\<exists>ev. effects (snd (send_update im isd_id ad_id data_dict w)) = effects w @ ev
     \<and> (\<forall>p data. WriteFile p data \<in> set ev \<longrightarrow>
           (\<exists>declared b. data_dict ''name'' = Some declared \<and> data_dict ''data'' = Some b \<and>
              b64decode im b = Inr data \<and> data_dict ''digest'' = Some (sha1_hexdigest im data) \<and>
              p = path_join (UPDATE_DIR_PATH im) (basename declared) \<and>
              inside_dir (UPDATE_DIR_PATH im) p))
     \<and> (\<forall>resp. fst (send_update im isd_id ad_id data_dict w) = Inr resp \<and> is_success resp \<longrightarrow>
           (\<exists>declared b raw. data_dict ''name'' = Some declared \<and> data_dict ''data'' = Some b \<and>
              b64decode im b = Inr raw \<and>
              nodes (snd (send_update im isd_id ad_id data_dict w))
                (path_join (UPDATE_DIR_PATH im) (basename declared)) = Some (File raw)))"
proof -
  obtain ev where ev: "effects (snd (send_update im isd_id ad_id data_dict w)) = effects w @ ev"
    "\<forall>p data. WriteFile p data \<in> set ev \<longrightarrow>
       (\<exists>declared b. data_dict ''name'' = Some declared \<and> data_dict ''data'' = Some b \<and>
          b64decode im b = Inr data \<and> data_dict ''digest'' = Some (sha1_hexdigest im data) \<and>
          p = path_join (UPDATE_DIR_PATH im) (basename declared) \<and>
          inside_dir (UPDATE_DIR_PATH im) p)"
    using send_update_writes_only[of data_dict im isd_id ad_id] unfolding writes_only_def by blast
  have "\<exists>declared b raw. data_dict ''name'' = Some declared \<and> data_dict ''data'' = Some b \<and>
              b64decode im b = Inr raw \<and>
              nodes (snd (send_update im isd_id ad_id data_dict w))
                (path_join (UPDATE_DIR_PATH im) (basename declared)) = Some (File raw)"
    if "fst (send_update im isd_id ad_id data_dict w) = Inr resp \<and> is_success resp" for resp
  proof -
    from that have "send_update im isd_id ad_id data_dict w
        = (Inr resp, snd (send_update im isd_id ad_id data_dict w))"
      by (metis prod.collapse)
    from send_update_success[OF this] that show ?thesis by blast
  qed
  then show ?thesis using ev by blast
qed

lemma open_error_effects [simp]: "open_error (w\<lparr>effects := ev\<rparr>) p op = open_error w p op"
proof -
  have "walk (w\<lparr>effects := ev\<rparr>) as = walk w as" for as
    by (induction as) (simp_all split: option.splits node.splits)
  then show ?thesis by (simp add: open_error_def isdir_def cong: option.case_cong)
qed

lemma example_open:
  "open_error example_world ''/scion/.update_files/passwd'' (OpenWrite ''/scion/.update_files/passwd'') = None"
  "open_error (example_world\<lparr>nodes := (nodes example_world)(''/scion/.update_files/passwd'' \<mapsto> File data)\<rparr>)
     ''/scion/logs/updater.log'' (OpenAppend ''/scion/logs/updater.log'') = None"
  "open_error example_world ''/scion/.update_files/scion.tar'' (OpenWrite ''/scion/.update_files/scion.tar'') = None"
  "open_error (example_world\<lparr>nodes := (nodes example_world)(''/scion/.update_files/scion.tar'' \<mapsto> File data)\<rparr>)
     ''/scion/logs/updater.log'' (OpenAppend ''/scion/logs/updater.log'') = None"
  by code_simp+

lemma example_staging:
  "path_exists example_world ''/scion/.update_files''" "isdir example_world ''/scion/.update_files''"
  by (simp_all add: path_exists_def isdir_def example_world_def)

lemma example_constants:
  "LOGS_DIR example_externals = ''/scion/logs''"
  "PROJECT_ROOT example_externals = ''/scion''"
  "sys_executable example_externals = ''/usr/bin/python3''"
  "UPDATE_SCRIPT_PATH example_externals = ''/scion/ad_management/updater.py''"
  "path_join ''/scion/logs'' ''updater.log'' = ''/scion/logs/updater.log''"
  by (simp_all add: example_externals_def path_join_def)

lemma example_log_absent:
  "nodes example_world ''/scion/logs/updater.log'' = None"
  by (simp add: example_world_def)

lemma example_traversal_run:
  "send_update example_externals (PStr ''1'') (PStr ''3'')
      (example_payload ''../../etc/passwd'' ''aaf4c61ddcc5e8a2dabede0f3b482cd9aea9434d'') example_world
     = (Inr (response_success DNone),
        example_world\<lparr>nodes := (nodes example_world)
            (''/scion/.update_files/passwd'' \<mapsto> File ''hello'', ''/scion/logs/updater.log'' \<mapsto> File []),
          effects := [OpenWrite ''/scion/.update_files/passwd'',
                      WriteFile ''/scion/.update_files/passwd'' ''hello'',
                      OpenAppend ''/scion/logs/updater.log'',
                      Popen [''/usr/bin/python3'', ''/scion/ad_management/updater.py'',
                             ''/scion/.update_files/passwd'', ''/scion'']]\<rparr>)"
  by (simp add: send_update_def seq_def dict_get_def lift_def ret_def raise_def Let_def
      example_payload_keys example_decode example_paths example_staging example_constants
      write_file_def open_write_def file_write_def run_updater_def open_append_def popen_def
      example_open example_log_absent)

theorem C4_stored_inside_staging_witness:
  "fst (send_update example_externals (PStr ''1'') (PStr ''3'')
      (example_payload ''../../etc/passwd'' ''aaf4c61ddcc5e8a2dabede0f3b482cd9aea9434d'') example_world)
     = Inr (response_success DNone)
   \<and> nodes (snd (send_update example_externals (PStr ''1'') (PStr ''3'')
      (example_payload ''../../etc/passwd'' ''aaf4c61ddcc5e8a2dabede0f3b482cd9aea9434d'') example_world))
      ''/scion/.update_files/passwd'' = Some (File ''hello'')"
proof -
  have "is_success (response_success DNone)"
    by (simp add: is_success_def response_success_def)
  then show ?thesis
    using C4_stored_inside_staging[of example_externals "PStr ''1''" "PStr ''3''"
        "example_payload ''../../etc/passwd'' ''aaf4c61ddcc5e8a2dabede0f3b482cd9aea9434d''" example_world]
      example_traversal_run
    by (auto simp: example_decode example_payload_keys example_paths)
qed

lemma fst_snd_eq: "fst x = a \<Longrightarrow> x = (a, snd x)"
  by (cases x) simp







section \<open>The handlers and their faults: lemmas and theorems\<close>

lemma success_not_failure [simp]:
  "is_success (response_success d)" "\<not> is_success (response_failure m)"
  by (simp_all add: is_success_def response_success_def response_failure_def)

lemma get_process_info_raises:
  "get_process_info server n s = (Inl e, s') \<longleftrightarrow> getProcessInfo server n s = (Inl e, s')"
  by (cases "getProcessInfo server n s" rule: prod.exhaust; cases "fst (getProcessInfo server n s)")
     (auto simp: get_process_info_def seq_def ret_def)

lemma get_process_info_no_failure:
  "\<not> returns_failure (fst (get_process_info server n s))"
  by (cases "getProcessInfo server n s" rule: prod.exhaust; cases "fst (getProcessInfo server n s)")
     (auto simp: get_process_info_def seq_def ret_def returns_failure_def)

lemma get_ad_info_raises:
  "get_ad_info server isd_id ad_id s = (Inl e, s') \<longleftrightarrow> getAllProcessInfo server s = (Inl e, s')"
  by (cases "getAllProcessInfo server s" rule: prod.exhaust; cases "fst (getAllProcessInfo server s)")
     (auto simp: get_ad_info_def Let_def seq_def ret_def)

lemma get_ad_info_no_failure:
  "\<not> returns_failure (fst (get_ad_info server isd_id ad_id s))"
  by (cases "getAllProcessInfo server s" rule: prod.exhaust; cases "fst (getAllProcessInfo server s)")
     (auto simp: get_ad_info_def Let_def seq_def ret_def returns_failure_def)

lemma get_process_state_result:
  "get_process_state server n s =
     (case getProcessInfo server n s of
        (Inl e, s1) \<Rightarrow> (Inl e, s1)
      | (Inr info, s1) \<Rightarrow> (Inr (Some (statename info)), s1))"
  by (auto simp: get_process_state_def get_process_info_def seq_def ret_def response_success_def
      is_success_def split: prod.splits sum.splits)

lemma start_process_raises:
  "start_process server n s = (Inl e, s') \<longleftrightarrow>
     getProcessInfo server n s = (Inl e, s') \<or>
     (\<exists>info s1. getProcessInfo server n s = (Inr info, s1)
        \<and> statename info \<notin> set [''RUNNING'', ''STARTING'']
        \<and> startProcess server n s1 = (Inl e, s'))"
  by (cases "getProcessInfo server n s" rule: prod.exhaust; cases "fst (getProcessInfo server n s)")
     (auto simp: start_process_def get_process_state_result seq_def ret_def)

lemma stop_process_raises:
  "stop_process server n s = (Inl e, s') \<longleftrightarrow>
     getProcessInfo server n s = (Inl e, s') \<or>
     (\<exists>info s1. getProcessInfo server n s = (Inr info, s1)
        \<and> statename info \<in> set [''RUNNING'', ''STARTING'']
        \<and> stopProcess server n s1 = (Inl e, s'))"
  by (cases "getProcessInfo server n s" rule: prod.exhaust; cases "fst (getProcessInfo server n s)")
     (auto simp: stop_process_def get_process_state_result seq_def ret_def)

lemma control_process_start:
  "control_process server isd_id ad_id process_name ''START'' s = (Inl e, s') \<longleftrightarrow>
     start_process server (get_full_ad_name isd_id ad_id @ '':'' @ process_name) s = (Inl e, s')"
  by (auto simp: control_process_def Let_def seq_def ret_def split: prod.splits sum.splits)

lemma control_process_stop:
  "control_process server isd_id ad_id process_name ''STOP'' s = (Inl e, s') \<longleftrightarrow>
     stop_process server (get_full_ad_name isd_id ad_id @ '':'' @ process_name) s = (Inl e, s')"
  by (auto simp: control_process_def Let_def seq_def ret_def split: prod.splits sum.splits)

lemma control_process_restart:
  "control_process server isd_id ad_id process_name ''RESTART'' s = (Inl e, s') \<longleftrightarrow>
     stop_process server (get_full_ad_name isd_id ad_id @ '':'' @ process_name) s = (Inl e, s') \<or>
     (\<exists>stopped s1.
        stop_process server (get_full_ad_name isd_id ad_id @ '':'' @ process_name) s = (Inr stopped, s1)
        \<and> start_process server (get_full_ad_name isd_id ad_id @ '':'' @ process_name) s1 = (Inl e, s'))"
  by (auto simp: control_process_def Let_def seq_def ret_def split: prod.splits sum.splits)

lemma seq_success_no_failure:
  "\<not> returns_failure (fst (seq m (\<lambda>res. ret (response_success (f res))) s))"
  by (cases "m s" rule: prod.exhaust; cases "fst (m s)")
     (simp_all add: seq_def ret_def returns_failure_def)

lemma seq_seq_success_no_failure:
  "\<not> returns_failure (fst (seq m1 (\<lambda>_. seq m2 (\<lambda>res. ret (response_success (f res)))) s))"
proof (cases "m1 s")
  case (Pair r s1)
  show ?thesis
  proof (cases r)
    case (Inl e)
    then show ?thesis using Pair by (simp add: seq_def returns_failure_def)
  next
    case (Inr x)
    then have "seq m1 (\<lambda>_. seq m2 (\<lambda>res. ret (response_success (f res)))) s
        = seq m2 (\<lambda>res. ret (response_success (f res))) s1"
      using Pair by (simp add: seq_def)
    then show ?thesis by (simp add: seq_success_no_failure)
  qed
qed

lemma control_process_failure:
  "returns_failure (fst (control_process server isd_id ad_id process_name command s))
     \<longleftrightarrow> command \<notin> set [''START'', ''STOP'', ''RESTART'']"
proof (cases "command \<in> set [''START'', ''STOP'', ''RESTART'']")
  case True
  then have "\<not> returns_failure (fst (control_process server isd_id ad_id process_name command s))"
    by (auto simp: control_process_def Let_def seq_success_no_failure seq_seq_success_no_failure)
  then show ?thesis using True by simp
next
  case False
  then have "control_process server isd_id ad_id process_name command s
      = (Inr (response_failure ''Invalid command''), s)"
    by (simp add: control_process_def Let_def ret_def)
  then show ?thesis using False by (simp add: returns_failure_def)
qed

lemma seq_no_failure:
  assumes "\<And>x s1. \<not> returns_failure (fst (f x s1))"
  shows "\<not> returns_failure (fst (seq m f s))"
proof (cases "m s")
  case (Pair r s1)
  show ?thesis
  proof (cases r)
    case (Inl e)
    then show ?thesis using Pair by (simp add: seq_def returns_failure_def)
  next
    case (Inr x)
    then have "seq m f s = f x s1" using Pair by (simp add: seq_def)
    then show ?thesis using assms by simp
  qed
qed

lemma ret_success_no_failure: "\<not> returns_failure (fst (ret (response_success d) s))"
  by (simp add: ret_def returns_failure_def)

lemma get_topology_failure:
  "returns_failure (fst (get_topology im isd_id ad_id w))
     \<longleftrightarrow> \<not> isfile w (get_topo_path im (PStr (py_str isd_id)) (PStr (py_str ad_id)))"
proof (cases "isfile w (get_topo_path im (PStr (py_str isd_id)) (PStr (py_str ad_id)))")
  case True
  then have "\<not> returns_failure (fst (get_topology im isd_id ad_id w))"
    by (simp add: get_topology_def Let_def seq_success_no_failure)
  then show ?thesis using True by simp
next
  case False
  then show ?thesis by (simp add: get_topology_def Let_def ret_def returns_failure_def)
qed

lemma update_topology_failure:
  "returns_failure (fst (update_topology im isd_id ad_id topology w))
     \<longleftrightarrow> \<not> isfile w (get_topo_path im isd_id ad_id)"
proof (cases "isfile w (get_topo_path im isd_id ad_id)")
  case True
  then have "\<not> returns_failure (fst (update_topology im isd_id ad_id topology w))"
    by (simp add: update_topology_def Let_def)
       (intro seq_no_failure ret_success_no_failure)
  then show ?thesis using True by simp
next
  case False
  then show ?thesis by (simp add: update_topology_def Let_def ret_def returns_failure_def)
qed

lemma store_update_no_failure:
  "\<not> returns_failure (fst (store_update im data_dict raw w))"
  unfolding store_update_def Let_def
  by (intro seq_no_failure ret_success_no_failure)

lemma send_update_failure:
  "returns_failure (fst (send_update im isd_id ad_id data_dict w))
     \<longleftrightarrow> (\<exists>b g raw. data_dict ''data'' = Some b \<and> data_dict ''digest'' = Some g
            \<and> b64decode im b = Inr raw \<and> g \<noteq> sha1_hexdigest im raw)"
proof (cases "data_dict ''data''")
  case None
  then show ?thesis
    by (simp add: send_update_store seq_def dict_get_def raise_def returns_failure_def)
next
  case (Some b)
  note b = this
  show ?thesis
  proof (cases "data_dict ''digest''")
    case None
    then show ?thesis using b
      by (simp add: send_update_store seq_def dict_get_def raise_def ret_def returns_failure_def)
  next
    case (Some g)
    note g = this
    show ?thesis
    proof (cases "b64decode im b")
      case (Inl e)
      then show ?thesis using b g
        by (simp add: send_update_store seq_def dict_get_def lift_def raise_def ret_def
            returns_failure_def)
    next
      case (Inr raw)
      have run: "send_update im isd_id ad_id data_dict w =
          (if sha1_hexdigest im raw \<noteq> g
           then ret (response_failure ''Hash value does not match'') w
           else store_update im data_dict raw w)"
        using b g Inr by (simp add: send_update_store seq_def dict_get_def lift_def ret_def)
      show ?thesis
      proof (cases "g = sha1_hexdigest im raw")
        case True
        then show ?thesis using run b g Inr by (simp add: store_update_no_failure)
      next
        case False
        then have "sha1_hexdigest im raw \<noteq> g" by auto
        then show ?thesis using run b g Inr False by (simp add: ret_def returns_failure_def)
      qed
    qed
  qed
qed

lemma master_lookup_failure:
  "returns_failure (master_lookup kc lock_path)
     \<longleftrightarrow> kc_start kc = Inr () \<and> kc_get_children kc lock_path = Inr []"
proof (cases "kc_start kc")
  case (Inl e)
  then show ?thesis by (simp add: master_lookup_def returns_failure_def)
next
  case (Inr u)
  show ?thesis
  proof (cases "kc_get_children kc lock_path")
    case (Inl e)
    then show ?thesis using Inr by (simp add: master_lookup_def returns_failure_def)
  next
    case children: (Inr contenders)
    show ?thesis
    proof (cases "contenders = []")
      case True
      then show ?thesis using Inr children by (simp add: master_lookup_def returns_failure_def)
    next
      case False
      then obtain h rest where h: "sort_key get_id contenders = h # rest"
        by (cases "sort_key get_id contenders") (auto dest: arg_cong[where f = length])
      have "\<not> returns_failure (master_lookup kc lock_path)"
        using Inr children False h
        by (cases "kc_get kc (path_join lock_path h)";
            cases "unpack3 (py_split [CHR 0x00] (projr (kc_get kc (path_join lock_path h))))";
            cases "decode_utf8 (projr (unpack3 (py_split [CHR 0x00] (projr (kc_get kc (path_join lock_path h))))))")
           (simp_all add: master_lookup_def Let_def returns_failure_def)
      then show ?thesis using False children by simp
    qed
  qed
qed

lemma get_master_id_result:
  assumes "server_type \<in> set [''bs'', ''cs'', ''ps'']"
  shows "get_master_id kc isd_id ad_id server_type =
     (case master_lookup kc (format_lock_path isd_id ad_id server_type) of
        Inl NoNodeError \<Rightarrow> Inr (response_failure ''No lock data found'')
      | Inl e \<Rightarrow> Inl e
      | Inr response \<Rightarrow> Inr response)"
  using assms by (simp add: get_master_id_def Let_def)

lemma get_master_id_failure:
  "returns_failure (get_master_id kc isd_id ad_id server_type) \<longleftrightarrow>
     server_type \<notin> set [''bs'', ''cs'', ''ps'']
     \<or> (kc_start kc = Inr () \<and> kc_get_children kc (format_lock_path isd_id ad_id server_type) = Inr [])
     \<or> master_lookup kc (format_lock_path isd_id ad_id server_type) = Inl NoNodeError"
proof (cases "server_type \<in> set [''bs'', ''cs'', ''ps'']")
  case False
  then show ?thesis by (simp add: get_master_id_def returns_failure_def)
next
  case True
  note r = get_master_id_result[OF True]
  show ?thesis
  proof (cases "master_lookup kc (format_lock_path isd_id ad_id server_type)")
    case (Inl e)
    then have "\<not> returns_failure (master_lookup kc (format_lock_path isd_id ad_id server_type))"
      by (simp add: returns_failure_def)
    then have "\<not> (kc_start kc = Inr () \<and> kc_get_children kc (format_lock_path isd_id ad_id server_type) = Inr [])"
      by (simp add: master_lookup_failure)
    then show ?thesis using True Inl
      by (cases e) (simp_all add: r returns_failure_def)
  next
    case (Inr response)
    then have "returns_failure (get_master_id kc isd_id ad_id server_type)
        \<longleftrightarrow> returns_failure (master_lookup kc (format_lock_path isd_id ad_id server_type))"
      by (simp add: r)
    moreover have "master_lookup kc (format_lock_path isd_id ad_id server_type) \<noteq> Inl NoNodeError"
      using Inr by simp
    ultimately show ?thesis using True master_lookup_failure[of kc "format_lock_path isd_id ad_id server_type"]
      by blast
  qed
qed

text \<open>
  Claim C1, amended.  A handler answers with a failure envelope exactly in the cases that
  it tests: an unknown command (\<open>control_process\<close>), a missing topology file
  (\<open>get_topology\<close>, \<open>update_topology\<close>), a digest that does not match (\<open>send_update\<close>), and in
  \<open>get_master_id\<close> an invalid server type, an empty list of contenders and a \<open>NoNodeError\<close>
  of the coordination service; \<open>get_process_info\<close> and \<open>get_ad_info\<close> never answer with a
  failure envelope.  Every other fault leaves the handler as an exception: a fault of the
  supervisor in \<open>get_process_info\<close>, in \<open>get_ad_info\<close> and in each step of \<open>control_process\<close>
  (the state query, \<open>startProcess\<close> and \<open>stopProcess\<close>, for START, STOP and both halves of
  RESTART), a body that base64 does not decode in \<open>send_update\<close>, and in \<open>get_master_id\<close>
  every exception but \<open>NoNodeError\<close>, among them the \<open>ValueError\<close> of a lock value that has
  not exactly three fields.
\<close>

theorem C1_handler_faults:
  "(get_process_info server n s = (Inl e1, s') \<longleftrightarrow> getProcessInfo server n s = (Inl e1, s'))
   \<and> \<not> returns_failure (fst (get_process_info server n s))
   \<and> (get_ad_info server isd_id ad_id s = (Inl e1, s') \<longleftrightarrow> getAllProcessInfo server s = (Inl e1, s'))
   \<and> \<not> returns_failure (fst (get_ad_info server isd_id ad_id s))
   \<and> (returns_failure (fst (control_process server isd_id ad_id process_name command s))
        \<longleftrightarrow> command \<notin> set [''START'', ''STOP'', ''RESTART''])
   \<and> (command \<notin> set [''START'', ''STOP'', ''RESTART'']
        \<longrightarrow> control_process server isd_id ad_id process_name command s
              = (Inr (response_failure ''Invalid command''), s))
   \<and> (control_process server isd_id ad_id process_name ''START'' s = (Inl e1, s') \<longleftrightarrow>
        start_process server (get_full_ad_name isd_id ad_id @ '':'' @ process_name) s = (Inl e1, s'))
   \<and> (control_process server isd_id ad_id process_name ''STOP'' s = (Inl e1, s') \<longleftrightarrow>
        stop_process server (get_full_ad_name isd_id ad_id @ '':'' @ process_name) s = (Inl e1, s'))
   \<and> (control_process server isd_id ad_id process_name ''RESTART'' s = (Inl e1, s') \<longleftrightarrow>
        stop_process server (get_full_ad_name isd_id ad_id @ '':'' @ process_name) s = (Inl e1, s') \<or>
        (\<exists>stopped s1.
           stop_process server (get_full_ad_name isd_id ad_id @ '':'' @ process_name) s = (Inr stopped, s1)
           \<and> start_process server (get_full_ad_name isd_id ad_id @ '':'' @ process_name) s1 = (Inl e1, s')))
   \<and> (start_process server n s = (Inl e1, s') \<longleftrightarrow>
        getProcessInfo server n s = (Inl e1, s') \<or>
        (\<exists>info s1. getProcessInfo server n s = (Inr info, s1)
           \<and> statename info \<notin> set [''RUNNING'', ''STARTING'']
           \<and> startProcess server n s1 = (Inl e1, s')))
   \<and> (stop_process server n s = (Inl e1, s') \<longleftrightarrow>
        getProcessInfo server n s = (Inl e1, s') \<or>
        (\<exists>info s1. getProcessInfo server n s = (Inr info, s1)
           \<and> statename info \<in> set [''RUNNING'', ''STARTING'']
           \<and> stopProcess server n s1 = (Inl e1, s')))
   \<and> (returns_failure (fst (get_topology im isd_id ad_id w))
        \<longleftrightarrow> \<not> isfile w (get_topo_path im (PStr (py_str isd_id)) (PStr (py_str ad_id))))
   \<and> (\<not> isfile w (get_topo_path im (PStr (py_str isd_id)) (PStr (py_str ad_id)))
        \<longrightarrow> get_topology im isd_id ad_id w = (Inr (response_failure ''No topology file found''), w))
   \<and> (returns_failure (fst (update_topology im isd_id ad_id topology w))
        \<longleftrightarrow> \<not> isfile w (get_topo_path im isd_id ad_id))
   \<and> (\<not> isfile w (get_topo_path im isd_id ad_id)
        \<longrightarrow> update_topology im isd_id ad_id topology w = (Inr (response_failure ''No AD topology found''), w))
   \<and> (returns_failure (fst (send_update im isd_id ad_id data_dict w))
        \<longleftrightarrow> (\<exists>b g raw. data_dict ''data'' = Some b \<and> data_dict ''digest'' = Some g
               \<and> b64decode im b = Inr raw \<and> g \<noteq> sha1_hexdigest im raw))
   \<and> (data_dict ''data'' = Some b1 \<and> data_dict ''digest'' = Some g1 \<and> b64decode im b1 = Inl e2
        \<longrightarrow> send_update im isd_id ad_id data_dict w = (Inl e2, w))
   \<and> (data_dict ''data'' = Some b1 \<and> data_dict ''digest'' = Some g1 \<and> b64decode im b1 = Inr raw1
        \<and> g1 \<noteq> sha1_hexdigest im raw1
        \<longrightarrow> send_update im isd_id ad_id data_dict w
              = (Inr (response_failure ''Hash value does not match''), w))
   \<and> (returns_failure (get_master_id kc isd_id ad_id server_type) \<longleftrightarrow>
        server_type \<notin> set [''bs'', ''cs'', ''ps'']
        \<or> (kc_start kc = Inr () \<and> kc_get_children kc (format_lock_path isd_id ad_id server_type) = Inr [])
        \<or> master_lookup kc (format_lock_path isd_id ad_id server_type) = Inl NoNodeError)
   \<and> (server_type \<notin> set [''bs'', ''cs'', ''ps'']
        \<longrightarrow> get_master_id kc isd_id ad_id server_type = Inr (response_failure ''Invalid server type''))
   \<and> (server_type \<in> set [''bs'', ''cs'', ''ps''] \<longrightarrow>
        (kc_start kc = Inr () \<and> kc_get_children kc (format_lock_path isd_id ad_id server_type) = Inr []
           \<longrightarrow> get_master_id kc isd_id ad_id server_type
                 = Inr (response_failure ''No lock contenders found''))
        \<and> (master_lookup kc (format_lock_path isd_id ad_id server_type) = Inl NoNodeError
           \<longrightarrow> get_master_id kc isd_id ad_id server_type = Inr (response_failure ''No lock data found''))
        \<and> (master_lookup kc (format_lock_path isd_id ad_id server_type) = Inl e3 \<and> e3 \<noteq> NoNodeError
           \<longrightarrow> get_master_id kc isd_id ad_id server_type = Inl e3)
        \<and> (kc_start kc = Inr ()
           \<and> kc_get_children kc (format_lock_path isd_id ad_id server_type) = Inr contenders
           \<and> contenders \<noteq> []
           \<and> kc_get kc (path_join (format_lock_path isd_id ad_id server_type) (lock_holder_file contenders)) = Inr v
           \<and> length (py_split [CHR 0x00] v) \<noteq> 3
           \<longrightarrow> get_master_id kc isd_id ad_id server_type = Inl ValueError))"
proof -
  have m: "server_type \<in> set [''bs'', ''cs'', ''ps''] \<longrightarrow>
        (kc_start kc = Inr () \<and> kc_get_children kc (format_lock_path isd_id ad_id server_type) = Inr []
           \<longrightarrow> get_master_id kc isd_id ad_id server_type
                 = Inr (response_failure ''No lock contenders found''))
        \<and> (master_lookup kc (format_lock_path isd_id ad_id server_type) = Inl NoNodeError
           \<longrightarrow> get_master_id kc isd_id ad_id server_type = Inr (response_failure ''No lock data found''))
        \<and> (master_lookup kc (format_lock_path isd_id ad_id server_type) = Inl e3 \<and> e3 \<noteq> NoNodeError
           \<longrightarrow> get_master_id kc isd_id ad_id server_type = Inl e3)
        \<and> (kc_start kc = Inr ()
           \<and> kc_get_children kc (format_lock_path isd_id ad_id server_type) = Inr contenders
           \<and> contenders \<noteq> []
           \<and> kc_get kc (path_join (format_lock_path isd_id ad_id server_type) (lock_holder_file contenders)) = Inr v
           \<and> length (py_split [CHR 0x00] v) \<noteq> 3
           \<longrightarrow> get_master_id kc isd_id ad_id server_type = Inl ValueError)"
  proof (intro impI conjI)
    assume st: "server_type \<in> set [''bs'', ''cs'', ''ps'']"
    note r = get_master_id_result[OF st]
    show "get_master_id kc isd_id ad_id server_type = Inr (response_failure ''No lock contenders found'')"
      if "kc_start kc = Inr () \<and> kc_get_children kc (format_lock_path isd_id ad_id server_type) = Inr []"
      using that by (simp add: r master_lookup_def)
    show "get_master_id kc isd_id ad_id server_type = Inr (response_failure ''No lock data found'')"
      if "master_lookup kc (format_lock_path isd_id ad_id server_type) = Inl NoNodeError"
      using that by (simp add: r)
    show "get_master_id kc isd_id ad_id server_type = Inl e3"
      if "master_lookup kc (format_lock_path isd_id ad_id server_type) = Inl e3 \<and> e3 \<noteq> NoNodeError"
      using that by (cases e3) (simp_all add: r)
    show "get_master_id kc isd_id ad_id server_type = Inl ValueError"
      if a: "kc_start kc = Inr ()
           \<and> kc_get_children kc (format_lock_path isd_id ad_id server_type) = Inr contenders
           \<and> contenders \<noteq> []
           \<and> kc_get kc (path_join (format_lock_path isd_id ad_id server_type) (lock_holder_file contenders)) = Inr v
           \<and> length (py_split [CHR 0x00] v) \<noteq> 3"
    proof -
      have "unpack3 (py_split [CHR 0x00] v) = Inl ValueError"
        using a by (cases "py_split [CHR 0x00] v" rule: unpack3.cases) auto
      then have "master_lookup kc (format_lock_path isd_id ad_id server_type) = Inl ValueError"
        using a master_lookup_holder[of kc "format_lock_path isd_id ad_id server_type" contenders]
        by simp
      then show ?thesis by (simp add: r)
    qed
  qed
  have t1: "\<not> isfile w (get_topo_path im (PStr (py_str isd_id)) (PStr (py_str ad_id)))
        \<longrightarrow> get_topology im isd_id ad_id w = (Inr (response_failure ''No topology file found''), w)"
    by (simp add: get_topology_def Let_def ret_def)
  have t2: "\<not> isfile w (get_topo_path im isd_id ad_id)
        \<longrightarrow> update_topology im isd_id ad_id topology w = (Inr (response_failure ''No AD topology found''), w)"
    by (simp add: update_topology_def Let_def ret_def)
  have u1: "data_dict ''data'' = Some b1 \<and> data_dict ''digest'' = Some g1 \<and> b64decode im b1 = Inl e2
        \<longrightarrow> send_update im isd_id ad_id data_dict w = (Inl e2, w)"
    by (simp add: send_update_def seq_def dict_get_def lift_def ret_def raise_def)
  have u2: "data_dict ''data'' = Some b1 \<and> data_dict ''digest'' = Some g1 \<and> b64decode im b1 = Inr raw1
        \<and> g1 \<noteq> sha1_hexdigest im raw1
        \<longrightarrow> send_update im isd_id ad_id data_dict w
              = (Inr (response_failure ''Hash value does not match''), w)"
    using send_update_rejects[of data_dict b1 g1 im raw1] by blast
  have c2: "command \<notin> set [''START'', ''STOP'', ''RESTART'']
        \<longrightarrow> control_process server isd_id ad_id process_name command s
              = (Inr (response_failure ''Invalid command''), s)"
    by (simp add: control_process_def Let_def ret_def)
  have g2: "server_type \<notin> set [''bs'', ''cs'', ''ps'']
        \<longrightarrow> get_master_id kc isd_id ad_id server_type = Inr (response_failure ''Invalid server type'')"
    by (simp add: get_master_id_def)
  show ?thesis
    by (intro conjI get_process_info_raises get_process_info_no_failure get_ad_info_raises
        get_ad_info_no_failure control_process_failure c2 control_process_start control_process_stop
        control_process_restart start_process_raises stop_process_raises get_topology_failure t1
        update_topology_failure t2 send_update_failure u1 u2 get_master_id_failure g2 m)
qed

text \<open>
  Three exceptions that leave a handler: an unknown process name, a body that is not
  base64, and a lock value without separators.
\<close>

theorem C1_exception_escapes_counterexample:
  "get_process_info example_supervisor ''ad1-3:nosuch'' () = (Inl (Fault ''BAD_NAME''), ())
   \<and> send_update example_externals (PInt 1) (PInt 3)
        ((example_payload ''scion.tar'' ''aaf4c61ddcc5e8a2dabede0f3b482cd9aea9434d'')(''data'' \<mapsto> ''a''))
        example_world = (Inl BinasciiError, example_world)
   \<and> get_master_id malformed_value_kazoo (PInt 1) (PInt 3) ''bs'' = Inl ValueError"
proof -
  have "get_process_info example_supervisor ''ad1-3:nosuch'' () = (Inl (Fault ''BAD_NAME''), ())"
    by (simp add: get_process_info_def seq_def example_supervisor_def)
  moreover have "send_update example_externals (PInt 1) (PInt 3)
        ((example_payload ''scion.tar'' ''aaf4c61ddcc5e8a2dabede0f3b482cd9aea9434d'')(''data'' \<mapsto> ''a''))
        example_world = (Inl BinasciiError, example_world)"
    by (simp add: send_update_def seq_def dict_get_def lift_def ret_def raise_def example_payload_def
        example_externals_def)
  moreover have "get_master_id malformed_value_kazoo (PInt 1) (PInt 3) ''bs'' = Inl ValueError"
    by (simp add: get_master_id_def Let_def master_lookup_def example_lock_path malformed_value_kazoo_def
        example_get_id path_join_def example_lock_value get_id_def py_split_def)
  ultimately show ?thesis by simp
qed

lemma example_ids:
  "str_int 1 = ''1''" "str_int 3 = ''3''" "str_int 4 = ''4''"
  by code_simp+

lemma example_names:
  "get_full_ad_name (PInt 1) (PInt 4) = ''ad1-4''"
  "get_full_ad_name (PInt 1) (PInt 3) = ''ad1-3''"
  "get_topo_path example_externals (PStr ''1'') (PStr ''4'') = ''/scion/topology/ISD1-AD4.json''"
  "get_topo_path example_externals (PInt 1) (PInt 4) = ''/scion/topology/ISD1-AD4.json''"
  by (simp_all add: get_full_ad_name_def get_topo_path_def example_externals_def example_ids)

lemma example_no_topology:
  "\<not> isfile example_world ''/scion/topology/ISD1-AD4.json''"
  by (simp add: isfile_def example_world_def)

theorem C1_handler_faults_witness:
  "get_process_info example_supervisor ''ad1-4:nosuch'' () = (Inl (Fault ''BAD_NAME''), ())
   \<and> control_process example_supervisor (PInt 1) (PInt 4) ''nosuch'' ''STOP'' () = (Inl (Fault ''BAD_NAME''), ())
   \<and> control_process example_supervisor (PInt 1) (PInt 4) ''nosuch'' ''KILL'' ()
        = (Inr (response_failure ''Invalid command''), ())
   \<and> control_process stopped_supervisor (PInt 1) (PInt 3) ''bs1-3-1'' ''START'' () = (Inl (Fault ''SPAWN_ERROR''), ())
   \<and> control_process stopped_supervisor (PInt 1) (PInt 3) ''bs1-3-1'' ''RESTART'' () = (Inl (Fault ''SPAWN_ERROR''), ())
   \<and> control_process stuck_supervisor (PInt 1) (PInt 3) ''bs1-3-1'' ''STOP'' () = (Inl (Fault ''FAILED''), ())
   \<and> get_ad_info unreachable_supervisor (PInt 1) (PInt 4) () = (Inl (OtherError ''ConnectionRefusedError''), ())
   \<and> get_topology example_externals (PInt 1) (PInt 4) example_world
        = (Inr (response_failure ''No topology file found''), example_world)
   \<and> update_topology example_externals (PInt 1) (PInt 4) ''{}'' example_world
        = (Inr (response_failure ''No AD topology found''), example_world)
   \<and> send_update example_externals (PInt 1) (PInt 4)
        ((example_payload ''scion.tar'' ''aaf4c61ddcc5e8a2dabede0f3b482cd9aea9434d'')(''data'' \<mapsto> ''a''))
        example_world = (Inl BinasciiError, example_world)
   \<and> send_update example_externals (PInt 1) (PInt 4)
        (example_payload ''scion.tar'' ''baf4c61ddcc5e8a2dabede0f3b482cd9aea9434d'') example_world
        = (Inr (response_failure ''Hash value does not match''), example_world)
   \<and> get_master_id example_kazoo (PInt 1) (PInt 4) ''ds'' = Inr (response_failure ''Invalid server type'')
   \<and> get_master_id empty_lock_kazoo (PInt 1) (PInt 4) ''bs'' = Inr (response_failure ''No lock contenders found'')
   \<and> get_master_id absent_lock_kazoo (PInt 1) (PInt 4) ''bs'' = Inr (response_failure ''No lock data found'')
   \<and> get_master_id malformed_value_kazoo (PInt 1) (PInt 3) ''bs'' = Inl ValueError"
proof -
  note A = C1_handler_faults[where server = "example_supervisor"
      and n = "''ad1-4:nosuch''"
      and s = "()"
      and s' = "()"
      and ?e1.0 = "Fault ''BAD_NAME''"
      and isd_id = "PInt 1"
      and ad_id = "PInt 4"
      and process_name = "''nosuch''"
      and command = "''KILL''"
      and im = "example_externals"
      and w = "example_world"
      and topology = "''{}''"
      and data_dict = "(example_payload ''scion.tar'' ''aaf4c61ddcc5e8a2dabede0f3b482cd9aea9434d'')(''data'' \<mapsto> ''a'')"
      and ?b1.0 = "''a''"
      and ?g1.0 = "''aaf4c61ddcc5e8a2dabede0f3b482cd9aea9434d''"
      and ?e2.0 = "BinasciiError"
      and ?raw1.0 = "''hello''"
      and kc = "example_kazoo"
      and server_type = "''ds''"
      and ?e3.0 = "ValueError"
      and contenders = "[''a7c2__lock__0000000001'']"
      and v = "''bs1-3-1''"]
  note M = C1_handler_faults[where server = "example_supervisor"
      and n = "''ad1-4:nosuch''"
      and s = "()"
      and s' = "()"
      and ?e1.0 = "Fault ''BAD_NAME''"
      and isd_id = "PInt 1"
      and ad_id = "PInt 4"
      and process_name = "''nosuch''"
      and command = "''KILL''"
      and im = "example_externals"
      and w = "example_world"
      and topology = "''{}''"
      and data_dict = "example_payload ''scion.tar'' ''baf4c61ddcc5e8a2dabede0f3b482cd9aea9434d''"
      and ?b1.0 = "''aGVsbG8=''"
      and ?g1.0 = "''baf4c61ddcc5e8a2dabede0f3b482cd9aea9434d''"
      and ?e2.0 = "BinasciiError"
      and ?raw1.0 = "''hello''"
      and kc = "example_kazoo"
      and server_type = "''ds''"
      and ?e3.0 = "ValueError"
      and contenders = "[''a7c2__lock__0000000001'']"
      and v = "''bs1-3-1''"]
  note S = C1_handler_faults[where server = "stopped_supervisor"
      and n = "''ad1-3:bs1-3-1''"
      and s = "()"
      and s' = "()"
      and ?e1.0 = "Fault ''SPAWN_ERROR''"
      and isd_id = "PInt 1"
      and ad_id = "PInt 3"
      and process_name = "''bs1-3-1''"
      and command = "''KILL''"
      and im = "example_externals"
      and w = "example_world"
      and topology = "''{}''"
      and data_dict = "(example_payload ''scion.tar'' ''aaf4c61ddcc5e8a2dabede0f3b482cd9aea9434d'')(''data'' \<mapsto> ''a'')"
      and ?b1.0 = "''a''"
      and ?g1.0 = "''aaf4c61ddcc5e8a2dabede0f3b482cd9aea9434d''"
      and ?e2.0 = "BinasciiError"
      and ?raw1.0 = "''hello''"
      and kc = "example_kazoo"
      and server_type = "''ds''"
      and ?e3.0 = "ValueError"
      and contenders = "[''a7c2__lock__0000000001'']"
      and v = "''bs1-3-1''"]
  note T = C1_handler_faults[where server = "stuck_supervisor"
      and n = "''ad1-3:bs1-3-1''"
      and s = "()"
      and s' = "()"
      and ?e1.0 = "Fault ''FAILED''"
      and isd_id = "PInt 1"
      and ad_id = "PInt 3"
      and process_name = "''bs1-3-1''"
      and command = "''KILL''"
      and im = "example_externals"
      and w = "example_world"
      and topology = "''{}''"
      and data_dict = "(example_payload ''scion.tar'' ''aaf4c61ddcc5e8a2dabede0f3b482cd9aea9434d'')(''data'' \<mapsto> ''a'')"
      and ?b1.0 = "''a''"
      and ?g1.0 = "''aaf4c61ddcc5e8a2dabede0f3b482cd9aea9434d''"
      and ?e2.0 = "BinasciiError"
      and ?raw1.0 = "''hello''"
      and kc = "example_kazoo"
      and server_type = "''ds''"
      and ?e3.0 = "ValueError"
      and contenders = "[''a7c2__lock__0000000001'']"
      and v = "''bs1-3-1''"]
  note U = C1_handler_faults[where server = "unreachable_supervisor"
      and n = "''ad1-4:nosuch''"
      and s = "()"
      and s' = "()"
      and ?e1.0 = "OtherError ''ConnectionRefusedError''"
      and isd_id = "PInt 1"
      and ad_id = "PInt 4"
      and process_name = "''nosuch''"
      and command = "''KILL''"
      and im = "example_externals"
      and w = "example_world"
      and topology = "''{}''"
      and data_dict = "(example_payload ''scion.tar'' ''aaf4c61ddcc5e8a2dabede0f3b482cd9aea9434d'')(''data'' \<mapsto> ''a'')"
      and ?b1.0 = "''a''"
      and ?g1.0 = "''aaf4c61ddcc5e8a2dabede0f3b482cd9aea9434d''"
      and ?e2.0 = "BinasciiError"
      and ?raw1.0 = "''hello''"
      and kc = "example_kazoo"
      and server_type = "''ds''"
      and ?e3.0 = "ValueError"
      and contenders = "[''a7c2__lock__0000000001'']"
      and v = "''bs1-3-1''"]
  note E = C1_handler_faults[where server = "example_supervisor"
      and n = "''ad1-4:nosuch''"
      and s = "()"
      and s' = "()"
      and ?e1.0 = "Fault ''BAD_NAME''"
      and isd_id = "PInt 1"
      and ad_id = "PInt 4"
      and process_name = "''nosuch''"
      and command = "''KILL''"
      and im = "example_externals"
      and w = "example_world"
      and topology = "''{}''"
      and data_dict = "(example_payload ''scion.tar'' ''aaf4c61ddcc5e8a2dabede0f3b482cd9aea9434d'')(''data'' \<mapsto> ''a'')"
      and ?b1.0 = "''a''"
      and ?g1.0 = "''aaf4c61ddcc5e8a2dabede0f3b482cd9aea9434d''"
      and ?e2.0 = "BinasciiError"
      and ?raw1.0 = "''hello''"
      and kc = "empty_lock_kazoo"
      and server_type = "''bs''"
      and ?e3.0 = "ValueError"
      and contenders = "[''a7c2__lock__0000000001'']"
      and v = "''bs1-3-1''"]
  note N = C1_handler_faults[where server = "example_supervisor"
      and n = "''ad1-4:nosuch''"
      and s = "()"
      and s' = "()"
      and ?e1.0 = "Fault ''BAD_NAME''"
      and isd_id = "PInt 1"
      and ad_id = "PInt 4"
      and process_name = "''nosuch''"
      and command = "''KILL''"
      and im = "example_externals"
      and w = "example_world"
      and topology = "''{}''"
      and data_dict = "(example_payload ''scion.tar'' ''aaf4c61ddcc5e8a2dabede0f3b482cd9aea9434d'')(''data'' \<mapsto> ''a'')"
      and ?b1.0 = "''a''"
      and ?g1.0 = "''aaf4c61ddcc5e8a2dabede0f3b482cd9aea9434d''"
      and ?e2.0 = "BinasciiError"
      and ?raw1.0 = "''hello''"
      and kc = "absent_lock_kazoo"
      and server_type = "''bs''"
      and ?e3.0 = "ValueError"
      and contenders = "[''a7c2__lock__0000000001'']"
      and v = "''bs1-3-1''"]
  note V = C1_handler_faults[where server = "example_supervisor"
      and n = "''ad1-4:nosuch''"
      and s = "()"
      and s' = "()"
      and ?e1.0 = "Fault ''BAD_NAME''"
      and isd_id = "PInt 1"
      and ad_id = "PInt 3"
      and process_name = "''nosuch''"
      and command = "''KILL''"
      and im = "example_externals"
      and w = "example_world"
      and topology = "''{}''"
      and data_dict = "(example_payload ''scion.tar'' ''aaf4c61ddcc5e8a2dabede0f3b482cd9aea9434d'')(''data'' \<mapsto> ''a'')"
      and ?b1.0 = "''a''"
      and ?g1.0 = "''aaf4c61ddcc5e8a2dabede0f3b482cd9aea9434d''"
      and ?e2.0 = "BinasciiError"
      and ?raw1.0 = "''hello''"
      and kc = "malformed_value_kazoo"
      and server_type = "''bs''"
      and ?e3.0 = "ValueError"
      and contenders = "[''a7c2__lock__0000000001'']"
      and v = "''bs1-3-1''"]
  have a1: "getProcessInfo example_supervisor ''ad1-4:nosuch'' () = (Inl (Fault ''BAD_NAME''), ())"
    by (simp add: example_supervisor_def)
  have a2: "''KILL'' \<notin> set [''START'', ''STOP'', ''RESTART'']" "''ds'' \<notin> set [''bs'', ''cs'', ''ps'']"
    "''bs'' \<in> set [''bs'', ''cs'', ''ps'']"
    by simp_all
  have a3: "b64decode example_externals ''a'' = Inl BinasciiError"
    "sha1_hexdigest example_externals ''hello'' = ''aaf4c61ddcc5e8a2dabede0f3b482cd9aea9434d''"
    by (simp_all add: example_externals_def)
  have a4: "kc_start empty_lock_kazoo = Inr ()" "kc_get_children empty_lock_kazoo p = Inr []"
    "master_lookup absent_lock_kazoo p = Inl NoNodeError" for p
    by (simp_all add: empty_lock_kazoo_def absent_lock_kazoo_def master_lookup_def)
  have b1: "getAllProcessInfo unreachable_supervisor () = (Inl (OtherError ''ConnectionRefusedError''), ())"
    by (simp add: unreachable_supervisor_def)
  have b2: "kc_start malformed_value_kazoo = Inr ()"
    "kc_get_children malformed_value_kazoo (format_lock_path (PInt 1) (PInt 3) ''bs'') = Inr [''a7c2__lock__0000000001'']"
    "kc_get malformed_value_kazoo (path_join (format_lock_path (PInt 1) (PInt 3) ''bs'')
        (lock_holder_file [''a7c2__lock__0000000001''])) = Inr ''bs1-3-1''"
    "length (py_split [CHR 0x00] ''bs1-3-1'') \<noteq> 3"
    by (simp_all add: malformed_value_kazoo_def example_lock_path lock_holder_file_def path_join_def
        example_lock_value)
  have s1: "getProcessInfo stopped_supervisor ''ad1-3:bs1-3-1'' ()
      = (Inr \<lparr>proc_name = ''bs1-3-1'', proc_group = ''ad1-3'', statename = ''STOPPED''\<rparr>, ())"
    "startProcess stopped_supervisor ''ad1-3:bs1-3-1'' () = (Inl (Fault ''SPAWN_ERROR''), ())"
    "stop_process stopped_supervisor ''ad1-3:bs1-3-1'' () = (Inr True, ())"
    by (simp_all add: stopped_supervisor_def stop_process_def get_process_state_result seq_def ret_def)
  have t1: "getProcessInfo stuck_supervisor ''ad1-3:bs1-3-1'' ()
      = (Inr \<lparr>proc_name = ''bs1-3-1'', proc_group = ''ad1-3'', statename = ''RUNNING''\<rparr>, ())"
    "stopProcess stuck_supervisor ''ad1-3:bs1-3-1'' () = (Inl (Fault ''FAILED''), ())"
    by (simp_all add: stuck_supervisor_def)
  have 1: "get_process_info example_supervisor ''ad1-4:nosuch'' () = (Inl (Fault ''BAD_NAME''), ())"
    using A[THEN conjunct1] a1 by simp
  have 2: "control_process example_supervisor (PInt 1) (PInt 4) ''nosuch'' ''STOP'' () = (Inl (Fault ''BAD_NAME''), ())"
    using A[THEN conjunct2, THEN conjunct2, THEN conjunct2, THEN conjunct2, THEN conjunct2, THEN conjunct2, THEN conjunct2, THEN conjunct1] A[THEN conjunct2, THEN conjunct2, THEN conjunct2, THEN conjunct2, THEN conjunct2, THEN conjunct2, THEN conjunct2, THEN conjunct2, THEN conjunct2, THEN conjunct2, THEN conjunct1] a1 by (simp add: example_names)
  have 3: "control_process example_supervisor (PInt 1) (PInt 4) ''nosuch'' ''KILL'' ()
        = (Inr (response_failure ''Invalid command''), ())"
    using A[THEN conjunct2, THEN conjunct2, THEN conjunct2, THEN conjunct2, THEN conjunct2, THEN conjunct1] a2(1) by simp
  have 4: "control_process stopped_supervisor (PInt 1) (PInt 3) ''bs1-3-1'' ''START'' () = (Inl (Fault ''SPAWN_ERROR''), ())"
    using S[THEN conjunct2, THEN conjunct2, THEN conjunct2, THEN conjunct2, THEN conjunct2, THEN conjunct2, THEN conjunct1] S[THEN conjunct2, THEN conjunct2, THEN conjunct2, THEN conjunct2, THEN conjunct2, THEN conjunct2, THEN conjunct2, THEN conjunct2, THEN conjunct2, THEN conjunct1] s1 by (simp add: example_names)
  have 5: "control_process stopped_supervisor (PInt 1) (PInt 3) ''bs1-3-1'' ''RESTART'' () = (Inl (Fault ''SPAWN_ERROR''), ())"
    using S[THEN conjunct2, THEN conjunct2, THEN conjunct2, THEN conjunct2, THEN conjunct2, THEN conjunct2, THEN conjunct2, THEN conjunct2, THEN conjunct1] S[THEN conjunct2, THEN conjunct2, THEN conjunct2, THEN conjunct2, THEN conjunct2, THEN conjunct2, THEN conjunct2, THEN conjunct2, THEN conjunct2, THEN conjunct1] s1 by (auto simp: example_names)
  have 6: "control_process stuck_supervisor (PInt 1) (PInt 3) ''bs1-3-1'' ''STOP'' () = (Inl (Fault ''FAILED''), ())"
    using T[THEN conjunct2, THEN conjunct2, THEN conjunct2, THEN conjunct2, THEN conjunct2, THEN conjunct2, THEN conjunct2, THEN conjunct1] T[THEN conjunct2, THEN conjunct2, THEN conjunct2, THEN conjunct2, THEN conjunct2, THEN conjunct2, THEN conjunct2, THEN conjunct2, THEN conjunct2, THEN conjunct2, THEN conjunct1] t1 by (simp add: example_names)
  have 7: "get_ad_info unreachable_supervisor (PInt 1) (PInt 4) () = (Inl (OtherError ''ConnectionRefusedError''), ())"
    using U[THEN conjunct2, THEN conjunct2, THEN conjunct1] b1 by simp
  have 8: "get_topology example_externals (PInt 1) (PInt 4) example_world
        = (Inr (response_failure ''No topology file found''), example_world)"
    using A[THEN conjunct2, THEN conjunct2, THEN conjunct2, THEN conjunct2, THEN conjunct2, THEN conjunct2, THEN conjunct2, THEN conjunct2, THEN conjunct2, THEN conjunct2, THEN conjunct2, THEN conjunct2, THEN conjunct1] example_no_topology by (simp add: example_names example_ids)
  have 9: "update_topology example_externals (PInt 1) (PInt 4) ''{}'' example_world
        = (Inr (response_failure ''No AD topology found''), example_world)"
    using A[THEN conjunct2, THEN conjunct2, THEN conjunct2, THEN conjunct2, THEN conjunct2, THEN conjunct2, THEN conjunct2, THEN conjunct2, THEN conjunct2, THEN conjunct2, THEN conjunct2, THEN conjunct2, THEN conjunct2, THEN conjunct2, THEN conjunct1] example_no_topology by (simp add: example_names)
  have 10: "send_update example_externals (PInt 1) (PInt 4)
        ((example_payload ''scion.tar'' ''aaf4c61ddcc5e8a2dabede0f3b482cd9aea9434d'')(''data'' \<mapsto> ''a''))
        example_world = (Inl BinasciiError, example_world)"
    using A[THEN conjunct2, THEN conjunct2, THEN conjunct2, THEN conjunct2, THEN conjunct2, THEN conjunct2, THEN conjunct2, THEN conjunct2, THEN conjunct2, THEN conjunct2, THEN conjunct2, THEN conjunct2, THEN conjunct2, THEN conjunct2, THEN conjunct2, THEN conjunct2, THEN conjunct1] a3(1) by (simp add: example_payload_def)
  have 11: "send_update example_externals (PInt 1) (PInt 4)
        (example_payload ''scion.tar'' ''baf4c61ddcc5e8a2dabede0f3b482cd9aea9434d'') example_world
        = (Inr (response_failure ''Hash value does not match''), example_world)"
    using M[THEN conjunct2, THEN conjunct2, THEN conjunct2, THEN conjunct2, THEN conjunct2, THEN conjunct2, THEN conjunct2, THEN conjunct2, THEN conjunct2, THEN conjunct2, THEN conjunct2, THEN conjunct2, THEN conjunct2, THEN conjunct2, THEN conjunct2, THEN conjunct2, THEN conjunct2, THEN conjunct1] a3(2) example_decode(1) by (simp add: example_payload_keys)
  have 12: "get_master_id example_kazoo (PInt 1) (PInt 4) ''ds'' = Inr (response_failure ''Invalid server type'')"
    using A[THEN conjunct2, THEN conjunct2, THEN conjunct2, THEN conjunct2, THEN conjunct2, THEN conjunct2, THEN conjunct2, THEN conjunct2, THEN conjunct2, THEN conjunct2, THEN conjunct2, THEN conjunct2, THEN conjunct2, THEN conjunct2, THEN conjunct2, THEN conjunct2, THEN conjunct2, THEN conjunct2, THEN conjunct2, THEN conjunct1] a2(2) by simp
  have 13: "get_master_id empty_lock_kazoo (PInt 1) (PInt 4) ''bs'' = Inr (response_failure ''No lock contenders found'')"
    using E[THEN conjunct2, THEN conjunct2, THEN conjunct2, THEN conjunct2, THEN conjunct2, THEN conjunct2, THEN conjunct2, THEN conjunct2, THEN conjunct2, THEN conjunct2, THEN conjunct2, THEN conjunct2, THEN conjunct2, THEN conjunct2, THEN conjunct2, THEN conjunct2, THEN conjunct2, THEN conjunct2, THEN conjunct2, THEN conjunct2] a2(3) a4(1,2) by simp
  have 14: "get_master_id absent_lock_kazoo (PInt 1) (PInt 4) ''bs'' = Inr (response_failure ''No lock data found'')"
    using N[THEN conjunct2, THEN conjunct2, THEN conjunct2, THEN conjunct2, THEN conjunct2, THEN conjunct2, THEN conjunct2, THEN conjunct2, THEN conjunct2, THEN conjunct2, THEN conjunct2, THEN conjunct2, THEN conjunct2, THEN conjunct2, THEN conjunct2, THEN conjunct2, THEN conjunct2, THEN conjunct2, THEN conjunct2, THEN conjunct2] a2(3) a4(3) by simp
  have 15: "get_master_id malformed_value_kazoo (PInt 1) (PInt 3) ''bs'' = Inl ValueError"
    using V[THEN conjunct2, THEN conjunct2, THEN conjunct2, THEN conjunct2, THEN conjunct2, THEN conjunct2, THEN conjunct2, THEN conjunct2, THEN conjunct2, THEN conjunct2, THEN conjunct2, THEN conjunct2, THEN conjunct2, THEN conjunct2, THEN conjunct2, THEN conjunct2, THEN conjunct2, THEN conjunct2, THEN conjunct2, THEN conjunct2] a2(3) b2 by simp
  show ?thesis
    using 1 2 3 4 5 6 7 8 9 10 11 12 13 14 15 by blast
qed

section \<open>The topology diff: lemmas and theorems\<close>

lemma insort_key_map_dec:
  "insort_key fst (f x, x) (map (\<lambda>x. (f x, x)) ys) = map (\<lambda>x. (f x, x)) (insort_key f x ys)"
  by (induction ys) auto

lemma sort_key_decorate:
  "sort_key fst (map (\<lambda>x. (f x, x)) xs) = map (\<lambda>x. (f x, x)) (sort_key f xs)"
  by (induction xs) (auto simp: insort_key_map_dec)

lemma keys_of_key_sort:
  "list_all (\<lambda>item. int_of (fst item) \<noteq> None) items \<Longrightarrow> keys_of (key_sort int_of) items = Inr (map (name_number int_of) items)"
  by (induction items) (auto simp: key_sort_def name_number_def)

lemma py_sorted_key_sort:
  assumes "list_all (\<lambda>item. int_of (fst item) \<noteq> None) items"
  shows "py_sorted (key_sort int_of) items = Inr (sort_key (name_number int_of) items)"
proof -
  have "zip (map (name_number int_of) items) items = map (\<lambda>x. (name_number int_of x, x)) items"
    by (induction items) auto
  then show ?thesis
    using keys_of_key_sort[OF assms] by (simp add: py_sorted_def sort_key_decorate comp_def)
qed

lemma fields_loop_plain:
  "fields_loop st rs cs [Str ''Addr''] changes = Inr (changes @ addr_changes st rs cs)"
  by (simp add: element_scalar_def addr_changes_def scalar_msg_def count_msg_def field_msg_def nested_msg_def dq_def)

lemma fields_loop_router:
  assumes "has_interface rs" "has_interface cs"
  shows "fields_loop st rs cs [Str ''Addr'', Tup ''Interface'' [''NeighborAD'', ''NeighborISD'', ''NeighborType'']] changes
         = Inr (changes @ router_changes st rs cs)"
  using assms
  by (auto simp: element_scalar_def element_nested_def interface_scalar_def addr_changes_def
       router_changes_def interface_changes_def has_interface_def scalar_msg_def count_msg_def field_msg_def nested_msg_def dq_def split: option.splits)

lemma zip_loop_plain:
  "zip_loop st [Str ''Addr''] pairs changes
     = Inr (changes @ concat (map (\<lambda>(rs, cs). addr_changes st rs cs) pairs))"
  by (induction pairs arbitrary: changes) (auto simp: fields_loop_plain simp del: fields_loop.simps)

lemma zip_loop_router:
  "list_all (\<lambda>(rs, cs). has_interface rs \<and> has_interface cs) pairs \<Longrightarrow>
   zip_loop st [Str ''Addr'', Tup ''Interface'' [''NeighborAD'', ''NeighborISD'', ''NeighborType'']] pairs changes
     = Inr (changes @ concat (map (\<lambda>(rs, cs). router_changes st rs cs) pairs))"
  by (induction pairs arbitrary: changes) (auto simp: fields_loop_router simp del: fields_loop.simps)

lemma length_sort_by_name [simp]: "length (sort_by_name int_of items) = length items"
  by (simp add: sort_by_name_def)

lemma set_sort_by_name [simp]: "set (sort_by_name int_of items) = snd ` set items"
  by (simp add: sort_by_name_def)

lemma server_type_body_sorted:
  assumes "topology_servers r st = Inr ritems" "topology_servers c st = Inr citems"
    and "names_parse int_of ritems" "names_parse int_of citems"
  shows "server_type_body int_of c r st cfields changes =
     (if length ritems \<noteq> length citems then Inr (changes @ [''Different number of '' @ [CHR 0x22] @ st @ [CHR 0x22] @ '' servers''])
      else zip_loop st cfields (zip (sort_by_name int_of ritems) (sort_by_name int_of citems)) changes)"
  using assms
  by (simp add: server_type_body_def names_parse_def py_sorted_key_sort sort_by_name_def scalar_msg_def count_msg_def field_msg_def nested_msg_def dq_def)

lemma zip_interfaces:
  assumes "have_interfaces ritems" "have_interfaces citems"
  shows "list_all (\<lambda>(rs, cs). has_interface rs \<and> has_interface cs)
           (zip (sort_by_name int_of ritems) (sort_by_name int_of citems))"
proof -
  have "has_interface a \<and> has_interface b"
    if "(a, b) \<in> set (zip (sort_by_name int_of ritems) (sort_by_name int_of citems))" for a b
  proof -
    from that have "a \<in> snd ` set ritems" "b \<in> snd ` set citems"
      using set_zip_leftD set_zip_rightD set_sort_by_name by fastforce+
    then show ?thesis
      using assms by (auto simp: have_interfaces_def list_all_iff)
  qed
  then show ?thesis
    by (auto simp: list_all_iff)
qed


lemma example_numbers:
  "example_int ''1'' = Some 1" "example_int ''2'' = Some 2" "example_int ''3'' = Some 3"
  "example_int ''01'' = Some 1" "example_int ''10'' = Some 10"
  by (simp_all add: example_int_def)




lemma keys_loop_closed:
  "keys_loop c r [''ADID'', ''ISDID'', ''Core''] [] = Inr (scalar_changes c r)"
  by (simp add: topology_scalar_def scalar_changes_def scalar_msg_def count_msg_def field_msg_def nested_msg_def dq_def)

lemma get_changes_closed:
  assumes "valid_topology int_of c" "valid_topology int_of r"
  shows "get_changes int_of c r = Inr (scalar_changes c r
      @ collection_changes int_of ''PathServers'' addr_changes (PathServers r) (PathServers c)
      @ collection_changes int_of ''CertificateServers'' addr_changes (CertificateServers r) (CertificateServers c)
      @ collection_changes int_of ''BeaconServers'' addr_changes (BeaconServers r) (BeaconServers c)
      @ collection_changes int_of ''EdgeRouters'' router_changes (EdgeRouters r) (EdgeRouters c))"
proof -
  have ps: "server_type_body int_of c r ''PathServers'' [Str ''Addr''] ch
      = Inr (ch @ collection_changes int_of ''PathServers'' addr_changes (PathServers r) (PathServers c))" for ch
    using assms
    by (subst server_type_body_sorted[where ritems="PathServers r" and citems="PathServers c"])
      (auto simp: topology_servers_def valid_topology_def collection_changes_def zip_loop_plain
        simp del: zip_loop.simps)
  have cs: "server_type_body int_of c r ''CertificateServers'' [Str ''Addr''] ch
      = Inr (ch @ collection_changes int_of ''CertificateServers'' addr_changes (CertificateServers r) (CertificateServers c))" for ch
    using assms
    by (subst server_type_body_sorted[where ritems="CertificateServers r" and citems="CertificateServers c"])
      (auto simp: topology_servers_def valid_topology_def collection_changes_def zip_loop_plain
        simp del: zip_loop.simps)
  have bs: "server_type_body int_of c r ''BeaconServers'' [Str ''Addr''] ch
      = Inr (ch @ collection_changes int_of ''BeaconServers'' addr_changes (BeaconServers r) (BeaconServers c))" for ch
    using assms
    by (subst server_type_body_sorted[where ritems="BeaconServers r" and citems="BeaconServers c"])
      (auto simp: topology_servers_def valid_topology_def collection_changes_def zip_loop_plain
        simp del: zip_loop.simps)
  have zi: "list_all (\<lambda>(rs, cs). has_interface rs \<and> has_interface cs)
           (zip (sort_by_name int_of (EdgeRouters r)) (sort_by_name int_of (EdgeRouters c)))"
    using assms by (intro zip_interfaces) (auto simp: valid_topology_def have_interfaces_def)
  have er: "server_type_body int_of c r ''EdgeRouters'' [Str ''Addr'', Tup ''Interface'' [''NeighborAD'', ''NeighborISD'', ''NeighborType'']] ch
      = Inr (ch @ collection_changes int_of ''EdgeRouters'' router_changes (EdgeRouters r) (EdgeRouters c))" for ch
    using assms
    by (subst server_type_body_sorted[where ritems="EdgeRouters r" and citems="EdgeRouters c"])
      (auto simp: topology_servers_def valid_topology_def collection_changes_def zip_loop_router[OF zi]
        simp del: zip_loop.simps)
  show ?thesis
    by (simp add: get_changes_def keys_loop_closed element_fields_def ps cs bs er del: keys_loop.simps)
qed

lemma addr_changes_same [simp]: "addr_changes st x x = []"
  by (simp add: addr_changes_def)

lemma router_changes_same [simp]: "router_changes st x x = []"
  by (simp add: router_changes_def interface_changes_def split: option.splits)








section \<open>Dictionaries in another order: lemmas and theorems\<close>

lemma sort_key_unique:
  assumes "distinct (map f xs)" "distinct (map f ys)" "set xs = set ys"
  shows "sort_key f xs = sort_key f ys"
proof -
  have "map f (sort_key f xs) = map f (sort_key f ys)"
  proof (rule sorted_distinct_set_unique)
    show "sorted (map f (sort_key f xs))" "sorted (map f (sort_key f ys))" by simp_all
    show "distinct (map f (sort_key f xs))"
      using assms(1) by (simp add: distinct_map)
    show "distinct (map f (sort_key f ys))"
      using assms(2) by (simp add: distinct_map)
    show "set (map f (sort_key f xs)) = set (map f (sort_key f ys))"
      using assms(3) by simp
  qed
  moreover have "inj_on f (set (sort_key f xs) \<union> set (sort_key f ys))"
    using assms by (simp add: distinct_map)
  ultimately show ?thesis
    by (simp add: inj_on_map_eq_map)
qed

lemma same_dict_set: "same_dict xs ys \<Longrightarrow> set xs = set ys"
  by (simp add: same_dict_def)

lemma same_dict_length: "same_dict xs ys \<Longrightarrow> length xs = length ys"
proof -
  assume a: "same_dict xs ys"
  then have "distinct xs" "distinct ys"
    by (simp_all add: same_dict_def distinct_map)
  then show ?thesis
    using same_dict_set[OF a] by (metis distinct_card)
qed

lemma numbers_distinct:
  assumes "names_parse int_of items" "different_numbers int_of items"
  shows "distinct (map (name_number int_of) items)"
proof -
  have "map (name_number int_of) items = map the (map (\<lambda>item. int_of (fst item)) items)"
    by (simp add: name_number_def comp_def split: option.splits)
       (use assms(1) in \<open>auto simp: names_parse_def list_all_iff\<close>)
  moreover have "inj_on the (set (map (\<lambda>item. int_of (fst item)) items))"
  proof (rule inj_onI)
    fix x y
    assume "x \<in> set (map (\<lambda>item. int_of (fst item)) items)"
      "y \<in> set (map (\<lambda>item. int_of (fst item)) items)" "the x = the y"
    moreover have "z \<noteq> None" if "z \<in> set (map (\<lambda>item. int_of (fst item)) items)" for z
      using that assms(1) by (auto simp: names_parse_def list_all_iff)
    ultimately show "x = y" by (metis option.expand)
  qed
  ultimately show ?thesis
    using assms(2) by (simp add: different_numbers_def distinct_map del: map_map)
qed

lemma same_dict_parse:
  "same_dict xs ys \<Longrightarrow> names_parse int_of xs = names_parse int_of ys"
  by (auto simp: names_parse_def list_all_iff dest: same_dict_set)

lemma different_numbers_set:
  assumes "same_dict xs ys" "names_parse int_of xs" "different_numbers int_of xs"
  shows "distinct (map (name_number int_of) ys)"
proof -
  have d: "distinct (map (name_number int_of) xs)"
    using assms(2,3) by (rule numbers_distinct)
  then have "inj_on (name_number int_of) (set xs)" by (simp add: distinct_map)
  moreover have "distinct ys"
    using assms(1) by (simp add: same_dict_def distinct_map)
  ultimately show ?thesis
    using same_dict_set[OF assms(1)] by (simp add: distinct_map)
qed

lemma sort_by_name_same_dict:
  assumes "same_dict xs ys" "names_parse int_of xs" "different_numbers int_of xs"
  shows "sort_by_name int_of xs = sort_by_name int_of ys"
  unfolding sort_by_name_def
  using sort_key_unique[OF numbers_distinct[OF assms(2,3)] different_numbers_set[OF assms]
      same_dict_set[OF assms(1)]]
  by simp

lemma same_dict_sym: "same_dict xs ys \<Longrightarrow> same_dict ys xs"
  by (simp add: same_dict_def)

lemma collection_changes_same_dict:
  assumes "same_dict ritems citems" "names_parse int_of citems" "different_numbers int_of citems"
    and "\<And>x. pc st x x = []"
  shows "collection_changes int_of st pc ritems citems = []"
proof -
  have "sort_by_name int_of citems = sort_by_name int_of ritems"
    using same_dict_sym[OF assms(1)] assms(2,3) by (rule sort_by_name_same_dict)
  then show ?thesis
    using same_dict_length[OF assms(1)] assms(4)
    by (simp add: collection_changes_def zip_same_conv_map)
qed

lemma insort_key_map_same:
  assumes "\<And>x. f (g x) = f x"
  shows "insort_key f (g x) (map g ys) = map g (insort_key f x ys)"
  by (induction ys) (auto simp: assms)

lemma sort_key_map_same:
  assumes "\<And>x. f (g x) = f x"
  shows "sort_key f (map g xs) = map g (sort_key f xs)"
  by (induction xs) (auto simp: insort_key_map_same[of f g, OF assms])

lemma sort_by_name_retype:
  "sort_by_name int_of (retype_router name ty items) =
     map (\<lambda>item. if fst item = name then set_neighbor_type ty (snd item) else snd item)
       (sort_key (name_number int_of) items)"
proof -
  define g :: "string \<times> element \<Rightarrow> string \<times> element"
    where "g = (\<lambda>item. if fst item = name then (fst item, set_neighbor_type ty (snd item)) else item)"
  have "name_number int_of (g x) = name_number int_of x" for x
    by (simp add: name_number_def g_def)
  then have "sort_key (name_number int_of) (map g items) = map g (sort_key (name_number int_of) items)"
    by (rule sort_key_map_same)
  then have "sort_by_name int_of (map g items) = map (snd \<circ> g) (sort_key (name_number int_of) items)"
    by (simp only: sort_by_name_def map_map)
  moreover have "snd \<circ> g = (\<lambda>item. if fst item = name then set_neighbor_type ty (snd item) else snd item)"
    by (rule ext) (simp add: g_def)
  moreover have "retype_router name ty items = map g items"
    by (simp only: retype_router_def g_def)
  ultimately show ?thesis
    by (simp only:)
qed

lemma retype_names [simp]: "map fst (retype_router name ty items) = map fst items"
  by (induction items) (auto simp: retype_router_def)

lemma names_parse_retype [simp]:
  "names_parse int_of (retype_router name ty items) = names_parse int_of items"
  by (induction items) (auto simp: names_parse_def retype_router_def)

lemma different_numbers_retype [simp]:
  "different_numbers int_of (retype_router name ty items) = different_numbers int_of items"
proof -
  have "map (\<lambda>item. int_of (fst item)) (retype_router name ty items)
      = map (\<lambda>item. int_of (fst item)) items"
    by (induction items) (auto simp: retype_router_def)
  then show ?thesis by (simp add: different_numbers_def)
qed

lemma has_interface_set_type [simp]: "has_interface (set_neighbor_type ty el) = has_interface el"
  by (simp add: has_interface_def set_neighbor_type_def split: option.splits)

lemma have_interfaces_retype [simp]:
  "have_interfaces (retype_router name ty items) = have_interfaces items"
  by (induction items) (auto simp: have_interfaces_def retype_router_def)

lemma router_changes_retyped:
  assumes "Interface el = Some i" "NeighborType i \<noteq> b"
  shows "router_changes st (set_neighbor_type b el) el
       = [[CHR 0x22] @ ''Interface:NeighborType'' @ [CHR 0x22] @ '' differ for one of '' @ st
            @ ''. Local: '' @ b @ '', remote: '' @ NeighborType i]"
  using assms
  by (auto simp: router_changes_def interface_changes_def set_neighbor_type_def addr_changes_def)

lemma concat_single_name:
  assumes "distinct (map fst s)" "name \<in> fst ` set s"
    and "\<And>item. item \<in> set s \<Longrightarrow> fst item = name \<Longrightarrow> h item = [m]"
    and "\<And>item. item \<in> set s \<Longrightarrow> fst item \<noteq> name \<Longrightarrow> h item = []"
  shows "concat (map h s) = [m]"
  using assms
proof (induction s)
  case Nil
  then show ?case by simp
next
  case (Cons x s)
  show ?case
  proof (cases "fst x = name")
    case True
    then have "\<forall>item \<in> set s. fst item \<noteq> name"
      using Cons.prems(1) by (auto simp: image_iff)
    then have "concat (map h s) = []"
      using Cons.prems(4) by auto
    moreover have "h x = [m]" using True Cons.prems(3) by simp
    ultimately show ?thesis by simp
  next
    case False
    then have "name \<in> fst ` set s" using Cons.prems(2) by auto
    then have "concat (map h s) = [m]"
      using Cons.IH Cons.prems by auto
    moreover have "h x = []" using False Cons.prems(4) by simp
    ultimately show ?thesis by simp
  qed
qed

lemma collection_changes_retyped:
  assumes "distinct (map fst items)" "map_of items name = Some el"
    and "Interface el = Some i" "NeighborType i \<noteq> b"
  shows "collection_changes int_of ''EdgeRouters'' router_changes (retype_router name b items) items
       = [[CHR 0x22] @ ''Interface:NeighborType'' @ [CHR 0x22]
            @ '' differ for one of EdgeRouters. Local: '' @ b @ '', remote: '' @ NeighborType i]"
proof -
  let ?s = "sort_key (name_number int_of) items"
  let ?h = "\<lambda>item. router_changes ''EdgeRouters''
              (if fst item = name then set_neighbor_type b (snd item) else snd item) (snd item)"
  have d: "distinct (map fst ?s)"
    using assms(1) by (metis distinct_map distinct_sort set_sort)
  have "(name, el) \<in> set items" using assms(2) by (rule map_of_SomeD)
  then have n: "name \<in> fst ` set ?s" by (force simp: image_iff)
  have el: "snd item = el" if "item \<in> set ?s" "fst item = name" for item
  proof -
    from that have "item \<in> set items" by simp
    with that(2) have "(name, snd item) \<in> set items" by (cases item) simp
    then have "map_of items name = Some (snd item)"
      using assms(1) by (simp add: map_of_eq_Some_iff)
    then show ?thesis using assms(2) by simp
  qed
  have "concat (map ?h ?s) = [[CHR 0x22] @ ''Interface:NeighborType'' @ [CHR 0x22]
            @ '' differ for one of EdgeRouters. Local: '' @ b @ '', remote: '' @ NeighborType i]"
  proof (rule concat_single_name[OF d n])
    fix item assume "item \<in> set ?s" "fst item = name"
    then show "?h item = [[CHR 0x22] @ ''Interface:NeighborType'' @ [CHR 0x22]
            @ '' differ for one of EdgeRouters. Local: '' @ b @ '', remote: '' @ NeighborType i]"
      using el[of item] router_changes_retyped[OF assms(3,4), of "''EdgeRouters''"] by simp
  next
    fix item assume "item \<in> set ?s" "fst item \<noteq> name"
    then show "?h item = []"
      by (simp add: router_changes_def addr_changes_def interface_changes_def split: option.splits)
  qed
  moreover have "zip (sort_by_name int_of (retype_router name b items)) (sort_by_name int_of items)
      = map (\<lambda>item. (if fst item = name then set_neighbor_type b (snd item) else snd item, snd item)) ?s"
    unfolding sort_by_name_retype
    by (simp add: sort_by_name_def zip_map_map zip_same_conv_map comp_def)
  ultimately show ?thesis
    by (simp add: collection_changes_def retype_router_def comp_def)
qed

lemma one_neighbor_type_any_order:
  assumes "valid_topology int_of c" and "numbers_differ int_of c"
    and "ISDID r = ISDID c" and "ADID r = ADID c" and "Core r = Core c"
    and "same_dict (PathServers r) (PathServers c)"
    and "same_dict (CertificateServers r) (CertificateServers c)"
    and "same_dict (BeaconServers r) (BeaconServers c)"
    and "map_of (EdgeRouters c) name = Some el" and "Interface el = Some i"
    and "NeighborType i \<noteq> b"
    and "same_dict (EdgeRouters r) (retype_router name b (EdgeRouters c))"
  shows "get_changes int_of c r
         = Inr [[CHR 0x22] @ ''Interface:NeighborType'' @ [CHR 0x22]
                  @ '' differ for one of EdgeRouters. Local: '' @ b @ '', remote: '' @ NeighborType i]"
proof -
  have np: "names_parse int_of (PathServers c)" "names_parse int_of (CertificateServers c)"
      "names_parse int_of (BeaconServers c)" "names_parse int_of (EdgeRouters c)"
      "have_interfaces (EdgeRouters c)"
    using assms(1) by (simp_all add: valid_topology_def)
  have dn: "different_numbers int_of (PathServers c)" "different_numbers int_of (CertificateServers c)"
      "different_numbers int_of (BeaconServers c)" "different_numbers int_of (EdgeRouters c)"
    using assms(2) by (simp_all add: numbers_differ_def)
  have hr: "have_interfaces (EdgeRouters r)"
    using same_dict_set[OF assms(12)] have_interfaces_retype[of name b "EdgeRouters c"] np(5)
    by (simp add: have_interfaces_def list_all_iff)
  have vr: "valid_topology int_of r"
    using np same_dict_parse[OF assms(6), of int_of] same_dict_parse[OF assms(7), of int_of]
      same_dict_parse[OF assms(8), of int_of] same_dict_parse[OF assms(12), of int_of] hr
    by (simp add: valid_topology_def)
  have sc: "scalar_changes c r = []"
    using assms(3,4,5) by (simp add: scalar_changes_def)
  have ps: "collection_changes int_of ''PathServers'' addr_changes (PathServers r) (PathServers c) = []"
    using assms(6) np(1) dn(1) by (rule collection_changes_same_dict) (simp add: addr_changes_def)
  have cs: "collection_changes int_of ''CertificateServers'' addr_changes
      (CertificateServers r) (CertificateServers c) = []"
    using assms(7) np(2) dn(2) by (rule collection_changes_same_dict) (simp add: addr_changes_def)
  have bs: "collection_changes int_of ''BeaconServers'' addr_changes (BeaconServers r) (BeaconServers c) = []"
    using assms(8) np(3) dn(3) by (rule collection_changes_same_dict) (simp add: addr_changes_def)
  have d: "distinct (map fst (EdgeRouters c))"
    using assms(12) by (simp add: same_dict_def)
  have "sort_by_name int_of (retype_router name b (EdgeRouters c)) = sort_by_name int_of (EdgeRouters r)"
    using same_dict_sym[OF assms(12)] by (rule sort_by_name_same_dict) (simp_all add: np dn)
  moreover have "length (EdgeRouters r) = length (retype_router name b (EdgeRouters c))"
    using assms(12) by (rule same_dict_length)
  ultimately have "collection_changes int_of ''EdgeRouters'' router_changes (EdgeRouters r) (EdgeRouters c)
      = collection_changes int_of ''EdgeRouters'' router_changes
          (retype_router name b (EdgeRouters c)) (EdgeRouters c)"
    by (simp add: collection_changes_def)
  then have er: "collection_changes int_of ''EdgeRouters'' router_changes (EdgeRouters r) (EdgeRouters c)
      = [[CHR 0x22] @ ''Interface:NeighborType'' @ [CHR 0x22]
            @ '' differ for one of EdgeRouters. Local: '' @ b @ '', remote: '' @ NeighborType i]"
    using collection_changes_retyped[OF d assms(9,10,11)] by simp
  show ?thesis
    unfolding get_changes_closed[OF assms(1) vr] sc ps cs bs er by simp
qed

lemma one_neighbor_type_same_order:
  assumes "valid_topology int_of c" and "distinct (map fst (EdgeRouters c))"
    and "map_of (EdgeRouters c) name = Some el" and "Interface el = Some i"
    and "NeighborType i \<noteq> b"
  shows "get_changes int_of c (c\<lparr>EdgeRouters := retype_router name b (EdgeRouters c)\<rparr>)
         = Inr [[CHR 0x22] @ ''Interface:NeighborType'' @ [CHR 0x22]
                  @ '' differ for one of EdgeRouters. Local: '' @ b @ '', remote: '' @ NeighborType i]"
proof -
  have vr: "valid_topology int_of (c\<lparr>EdgeRouters := retype_router name b (EdgeRouters c)\<rparr>)"
    using assms(1) by (simp add: valid_topology_def)
  have same: "collection_changes int_of st addr_changes xs xs = []" for st xs
    by (simp add: collection_changes_def zip_same_conv_map addr_changes_def)
  show ?thesis
    unfolding get_changes_closed[OF assms(1) vr]
    by (simp add: scalar_changes_def same collection_changes_retyped[OF assms(2,3,4,5)])
qed

text \<open>
  Claim C6, amended.  Two valid documents that differ only in the \<open>NeighborType\<close> of the
  interface of one edge router (its value in the current document differs from \<open>b\<close>, its
  value in the remote one) give exactly one entry, the entry \<open>"Interface:NeighborType"
  differ for one of EdgeRouters\<close> followed by the two values, in two cases: when the
  remote document lists its elements in the order of the current one; and when the
  documents are the same dictionaries in whatever order, and the element names of each
  collection have different numbers.
\<close>

theorem C6_one_neighbor_type_change:
  assumes "valid_topology int_of c"
    and "map_of (EdgeRouters c) name = Some el" and "Interface el = Some i"
    and "NeighborType i \<noteq> b"
  shows "(distinct (map fst (EdgeRouters c)) \<longrightarrow>
            get_changes int_of c (c\<lparr>EdgeRouters := retype_router name b (EdgeRouters c)\<rparr>)
              = Inr [[CHR 0x22] @ ''Interface:NeighborType'' @ [CHR 0x22]
                  @ '' differ for one of EdgeRouters. Local: '' @ b @ '', remote: '' @ NeighborType i])
       \<and> (numbers_differ int_of c
           \<and> ISDID r = ISDID c \<and> ADID r = ADID c \<and> Core r = Core c
           \<and> same_dict (PathServers r) (PathServers c)
           \<and> same_dict (CertificateServers r) (CertificateServers c)
           \<and> same_dict (BeaconServers r) (BeaconServers c)
           \<and> same_dict (EdgeRouters r) (retype_router name b (EdgeRouters c)) \<longrightarrow>
            get_changes int_of c r
              = Inr [[CHR 0x22] @ ''Interface:NeighborType'' @ [CHR 0x22]
                  @ '' differ for one of EdgeRouters. Local: '' @ b @ '', remote: '' @ NeighborType i])"
  using one_neighbor_type_same_order[OF assms(1) _ assms(2,3,4)]
    one_neighbor_type_any_order[OF assms(1) _ _ _ _ _ _ _ assms(2,3,4), of r]
  by blast

lemma example_fixture_fields:
  "EdgeRouters listed_current = [(''1'', example_router), (''2'', example_router\<lparr>Addr := ''127.0.0.6''\<rparr>)]"
  "EdgeRouters listed_remote = [(''2'', example_router\<lparr>Addr := ''127.0.0.6''\<rparr>),
                                (''1'', set_neighbor_type ''PEER'' example_router)]"
  "BeaconServers listed_remote = [(''1'', example_server ''127.0.0.4''), (''2'', example_server ''127.0.0.3'')]"
  "BeaconServers listed_current = [(''2'', example_server ''127.0.0.3''), (''1'', example_server ''127.0.0.4'')]"
  "PathServers listed_remote = PathServers listed_current"
  "CertificateServers listed_remote = CertificateServers listed_current"
  "PathServers listed_current = [(''1'', example_server ''127.0.0.2'')]"
  "CertificateServers listed_current = [(''1'', example_server ''127.0.0.5'')]"
  "ISDID listed_remote = ISDID listed_current" "ADID listed_remote = ADID listed_current"
  "Core listed_remote = Core listed_current"
  "EdgeRouters tied_current = [(''1'', example_router), (''01'', example_router\<lparr>Addr := ''127.0.0.6''\<rparr>)]"
  "EdgeRouters tied_remote = [(''01'', example_router\<lparr>Addr := ''127.0.0.6''\<rparr>),
                              (''1'', set_neighbor_type ''PEER'' example_router)]"
  by (simp_all add: listed_current_def listed_remote_def tied_current_def tied_remote_def
      example_topology_def)

lemma valid_fixtures:
  "valid_topology example_int listed_current" "valid_topology example_int tied_current"
  "valid_topology example_int tied_remote"
  by (simp_all add: valid_topology_def listed_current_def tied_current_def tied_remote_def
      example_topology_def names_parse_def have_interfaces_def has_interface_def example_router_def
      set_neighbor_type_def example_numbers)

lemma listed_numbers: "numbers_differ example_int listed_current"
  by (simp add: numbers_differ_def different_numbers_def listed_current_def example_topology_def
      example_numbers)

lemma listed_same:
  "same_dict (PathServers listed_remote) (PathServers listed_current)"
  "same_dict (CertificateServers listed_remote) (CertificateServers listed_current)"
  "same_dict (BeaconServers listed_remote) (BeaconServers listed_current)"
  "same_dict (EdgeRouters listed_remote) (retype_router ''1'' ''PEER'' (EdgeRouters listed_current))"
  by (auto simp: same_dict_def example_fixture_fields retype_router_def)

lemma example_router_type:
  "Interface example_router = Some example_interface" "NeighborType example_interface = ''PARENT''"
  "NeighborType example_interface \<noteq> ''PEER''"
  by (simp_all add: example_router_def example_interface_def)

theorem C6_one_neighbor_type_change_witness:
  "get_changes example_int tied_current
      (tied_current\<lparr>EdgeRouters := [(''1'', set_neighbor_type ''PEER'' example_router),
                                      (''01'', example_router\<lparr>Addr := ''127.0.0.6''\<rparr>)]\<rparr>)
     = Inr [[CHR 0x22] @ ''Interface:NeighborType'' @ [CHR 0x22]
              @ '' differ for one of EdgeRouters. Local: PEER, remote: PARENT'']
   \<and> get_changes example_int listed_current listed_remote
     = Inr [[CHR 0x22] @ ''Interface:NeighborType'' @ [CHR 0x22]
              @ '' differ for one of EdgeRouters. Local: PEER, remote: PARENT'']"
proof -
  have t: "map_of (EdgeRouters tied_current) ''1'' = Some example_router"
    "distinct (map fst (EdgeRouters tied_current))"
    "retype_router ''1'' ''PEER'' (EdgeRouters tied_current)
       = [(''1'', set_neighbor_type ''PEER'' example_router),
          (''01'', example_router\<lparr>Addr := ''127.0.0.6''\<rparr>)]"
    by (simp_all add: example_fixture_fields retype_router_def)
  have l: "map_of (EdgeRouters listed_current) ''1'' = Some example_router"
    by (simp add: example_fixture_fields)
  have 1: "get_changes example_int tied_current
      (tied_current\<lparr>EdgeRouters := [(''1'', set_neighbor_type ''PEER'' example_router),
                                      (''01'', example_router\<lparr>Addr := ''127.0.0.6''\<rparr>)]\<rparr>)
     = Inr [[CHR 0x22] @ ''Interface:NeighborType'' @ [CHR 0x22]
              @ '' differ for one of EdgeRouters. Local: PEER, remote: PARENT'']"
    using C6_one_neighbor_type_change[OF valid_fixtures(2) t(1) example_router_type(1,3),
        THEN conjunct1] t(2,3)
    by (simp add: example_router_type(2))
  have 2: "get_changes example_int listed_current listed_remote
     = Inr [[CHR 0x22] @ ''Interface:NeighborType'' @ [CHR 0x22]
              @ '' differ for one of EdgeRouters. Local: PEER, remote: PARENT'']"
    using C6_one_neighbor_type_change[OF valid_fixtures(1) l example_router_type(1,3),
        THEN conjunct2, of listed_remote] listed_numbers listed_same
    by (simp add: example_router_type(2) example_fixture_fields(9,10,11))
  show ?thesis using 1 2 by simp
qed

lemma tied_sorted:
  "sort_by_name example_int (EdgeRouters tied_current)
     = [example_router, example_router\<lparr>Addr := ''127.0.0.6''\<rparr>]"
  "sort_by_name example_int (EdgeRouters tied_remote)
     = [example_router\<lparr>Addr := ''127.0.0.6''\<rparr>, set_neighbor_type ''PEER'' example_router]"
  by (simp_all add: sort_by_name_def name_number_def example_numbers example_fixture_fields)

text \<open>
  Against the claim as written: \<open>tied_remote\<close> is the dictionary \<open>tied_current\<close> with the
  neighbor type of router \<open>1\<close> changed to \<open>PEER\<close>.  The names \<open>1\<close> and \<open>01\<close> sort as equal,
  each side keeps its own order, and the diff has three entries.
\<close>

theorem C6_listing_order_counterexample:
  "valid_topology example_int tied_current \<and> valid_topology example_int tied_remote
   \<and> same_dict (EdgeRouters tied_remote) (retype_router ''1'' ''PEER'' (EdgeRouters tied_current))
   \<and> get_changes example_int tied_current tied_remote
     = Inr [[CHR 0x22] @ ''Addr'' @ [CHR 0x22]
              @ '' values differ for one of EdgeRouters. Local: 127.0.0.1, remote: 127.0.0.6'',
            [CHR 0x22] @ ''Addr'' @ [CHR 0x22]
              @ '' values differ for one of EdgeRouters. Local: 127.0.0.6, remote: 127.0.0.1'',
            [CHR 0x22] @ ''Interface:NeighborType'' @ [CHR 0x22]
              @ '' differ for one of EdgeRouters. Local: PEER, remote: PARENT'']"
proof -
  have s: "same_dict (EdgeRouters tied_remote) (retype_router ''1'' ''PEER'' (EdgeRouters tied_current))"
    by (auto simp: same_dict_def example_fixture_fields retype_router_def)
  have same: "collection_changes example_int st addr_changes xs xs = []" for st xs
    by (simp add: collection_changes_def zip_same_conv_map addr_changes_def)
  have o: "PathServers tied_remote = PathServers tied_current"
    "CertificateServers tied_remote = CertificateServers tied_current"
    "BeaconServers tied_remote = BeaconServers tied_current"
    "ISDID tied_remote = ISDID tied_current" "ADID tied_remote = ADID tied_current"
    "Core tied_remote = Core tied_current"
    "length (EdgeRouters tied_remote) = length (EdgeRouters tied_current)"
    by (simp_all add: tied_current_def tied_remote_def)
  have er: "collection_changes example_int ''EdgeRouters'' router_changes
        (EdgeRouters tied_remote) (EdgeRouters tied_current)
     = [[CHR 0x22] @ ''Addr'' @ [CHR 0x22]
              @ '' values differ for one of EdgeRouters. Local: 127.0.0.1, remote: 127.0.0.6'',
            [CHR 0x22] @ ''Addr'' @ [CHR 0x22]
              @ '' values differ for one of EdgeRouters. Local: 127.0.0.6, remote: 127.0.0.1'',
            [CHR 0x22] @ ''Interface:NeighborType'' @ [CHR 0x22]
              @ '' differ for one of EdgeRouters. Local: PEER, remote: PARENT'']"
    by (simp add: o(7) collection_changes_def tied_sorted router_changes_def
        addr_changes_def interface_changes_def set_neighbor_type_def example_router_def
        example_interface_def)
  have "get_changes example_int tied_current tied_remote
     = Inr [[CHR 0x22] @ ''Addr'' @ [CHR 0x22]
              @ '' values differ for one of EdgeRouters. Local: 127.0.0.1, remote: 127.0.0.6'',
            [CHR 0x22] @ ''Addr'' @ [CHR 0x22]
              @ '' values differ for one of EdgeRouters. Local: 127.0.0.6, remote: 127.0.0.1'',
            [CHR 0x22] @ ''Interface:NeighborType'' @ [CHR 0x22]
              @ '' differ for one of EdgeRouters. Local: PEER, remote: PARENT'']"
    unfolding get_changes_closed[OF valid_fixtures(2,3)] o(1,2,3) same er
    by (simp add: o scalar_changes_def)
  then show ?thesis using valid_fixtures(2,3) s by simp
qed

section \<open>The DNS servers and the diff: lemmas and theorems\<close>

lemma topology_scalar_dns [simp]:
  "topology_scalar (t\<lparr>DNSServers := d\<rparr>) key = topology_scalar t key"
  by (simp add: topology_scalar_def)






lemma valid_topology_dns [simp]: "valid_topology int_of (t\<lparr>DNSServers := d\<rparr>) = valid_topology int_of t"
  by (simp add: valid_topology_def)









text \<open>
  The comparison is not made for an AD that has a DNS server: \<open>generate_topology_dict\<close>
  raises \<open>KeyError\<close>, and so does the view.
\<close>

lemma stored_dns_server_raises:
  "generate_topology_dict 50000 dns_db \<lparr>ad_pk = 3, ad_isd = 1, ad_is_core_ad = False\<rparr>
     = Inl (KeyError ''DNSServers'')
   \<and> compare_remote_topology example_int 50000 dns_db (Some example_topology) 3
     = Inl (KeyError ''DNSServers'')"
  by (simp add: compare_remote_topology_def get_object_or_404_def generate_topology_dict_def
      dns_db_def example_db_def router_get_dict_def get_dict_def str_name_def)

end
